theory Spec2Isabelle
  imports Complex_Main
begin

section \<open>Numbers and values of the JavaScript source\<close>

text \<open>
  The source computes with JavaScript numbers. The embedding reads them as real
  numbers: every arithmetic expression of the source is the same expression over
  \<^typ>\<open>real\<close>, without rounding, and without the values NaN and Infinity. Where
  the source can divide zero by zero and then compares the result, the embedding
  writes the outcome of the comparison out (see \<open>analyzePatternOverlap\<close>). Counters
  that start at 0 and are only incremented are natural numbers.
\<close>

text \<open>\<open>x || d\<close> on a number: 0 is falsy, every other real is kept.\<close>

definition js_or :: "real \<Rightarrow> real \<Rightarrow> real" where
  "js_or x d = (if x = 0 then d else x)"

text \<open>\<open>s || d\<close> on a string: the empty string is falsy.\<close>

definition js_or_str :: "string \<Rightarrow> string \<Rightarrow> string" where
  "js_or_str s d = (if s = [] then d else s)"

text \<open>
  \<open>Math.pow(b, e)\<close> for a positive base \<open>b\<close>. The only base the source passes is
  the field \<open>decay\<close>, which the constructors set to 0.999 and nothing assigns.
\<close>

definition Math_pow :: "real \<Rightarrow> real \<Rightarrow> real" where
  "Math_pow b e = b powr e"

text \<open>\<open>Math.round\<close> rounds half up: \<open>floor (x + 1/2)\<close>, which is \<^const>\<open>round\<close>.\<close>

definition Math_round :: "real \<Rightarrow> int" where
  "Math_round x = round x"

text \<open>The decimal text of an integer, as a template literal prints it.\<close>

function show_nat :: "nat \<Rightarrow> string" where
  "show_nat n = (if n < 10 then [char_of (48 + n)] else show_nat (n div 10) @ [char_of (48 + n mod 10)])"
  by pat_completeness auto
termination
  by (relation "measure (\<lambda>n. n)") auto

definition show_int :: "int \<Rightarrow> string" where
  "show_int i = (if i < 0 then CHR ''-'' # show_nat (nat (- i)) else show_nat (nat i))"

datatype js_error = TypeError

section \<open>The self-learning model wrappers (kbt\_models.js, ai\_models.js)\<close>

datatype model_class = KBTModel | AIModel

record model =
  cls :: model_class
  model_id :: string
  model_name :: string
  weight :: real
  history :: "nat list"
  wins :: nat
  losses :: nat
  lookback :: nat
  emaAccuracy :: real
  emaAlpha :: real
  minWeight :: real
  maxWeight :: real
  decay :: real

text \<open>\<open>new KBTModel(id)\<close> and \<open>new AIModel(id)\<close>.\<close>

definition KBTModel_new :: "string \<Rightarrow> model" where
  "KBTModel_new i =
     \<lparr> cls = KBTModel, model_id = i, model_name = ''KBT Ultralogic'', weight = 1.0,
       history = [], wins = 0, losses = 0, lookback = 200, emaAccuracy = 0.5,
       emaAlpha = 0.05, minWeight = 0.2, maxWeight = 3.0, decay = 0.999 \<rparr>"

definition AIModel_new :: "string \<Rightarrow> model" where
  "AIModel_new i =
     \<lparr> cls = AIModel, model_id = i, model_name = ''FLONZA_V4_HYBRID'', weight = 1.0,
       history = [], wins = 0, losses = 0, lookback = 200, emaAccuracy = 0.5,
       emaAlpha = 0.05, minWeight = 0.2, maxWeight = 3.0, decay = 0.999 \<rparr>"

text \<open>
  The second argument of \<open>learn\<close> as a call site can pass it: nothing
  (\<open>undefined\<close>), \<open>null\<close>, a primitive (number, string, boolean), a function
  object or a plain object. For the two object kinds the value of the property
  \<open>lr\<close> is recorded: a number, or anything else (absent included).
\<close>

datatype lr_value = LrNumber real | LrNotNumber

datatype learn_options =
    Undefined
  | Null
  | Primitive
  | FunctionObj lr_value
  | Object lr_value

record learn_result =
  res_wins :: nat
  res_losses :: nat
  res_weight :: real
  res_emaAccuracy :: real

text \<open>
  \<open>const lr = typeof options.lr === 'number' ? Math.max(0.1, options.lr) : 1.0\<close> in
  \<open>KBTModel.learn(wasWin, options = {})\<close>. The default parameter replaces only
  \<open>undefined\<close>; \<open>options.lr\<close> on \<open>null\<close> throws a TypeError.
\<close>

definition KBTModel_lr :: "learn_options \<Rightarrow> js_error + real" where
  "KBTModel_lr options =
     (case options of
        Undefined \<Rightarrow> Inr 1.0
      | Null \<Rightarrow> Inl TypeError
      | Primitive \<Rightarrow> Inr 1.0
      | FunctionObj (LrNumber x) \<Rightarrow> Inr (max 0.1 x)
      | FunctionObj LrNotNumber \<Rightarrow> Inr 1.0
      | Object (LrNumber x) \<Rightarrow> Inr (max 0.1 x)
      | Object LrNotNumber \<Rightarrow> Inr 1.0)"

text \<open>
  \<open>KBTModel.learn\<close>, statement by statement on \<open>this\<close>. The TypeError of a
  \<open>null\<close> second argument is thrown after the outcome, the counters and the EMA
  have been written, and before the weight is.
\<close>

definition KBTModel_learn :: "model \<Rightarrow> bool \<Rightarrow> learn_options \<Rightarrow> model \<times> (js_error + learn_result)" where
  "KBTModel_learn this wasWin options =
     (let v = (if wasWin then 1 else 0);
          this = this\<lparr> history := history this @ [v] \<rparr>;
          this = (if length (history this) > lookback this
                  then this\<lparr> history := tl (history this) \<rparr> else this);
          this = (if wasWin then this\<lparr> wins := wins this + 1 \<rparr>
                  else this\<lparr> losses := losses this + 1 \<rparr>);
          total = wins this + losses this;
          instantAcc = (if total > 0 then real (wins this) / real total else 0.5);
          this = this\<lparr> emaAccuracy :=
                   emaAccuracy this * (1 - emaAlpha this) + instantAcc * emaAlpha this \<rparr>;
          advantage = emaAccuracy this - 0.5;
          delta = advantage * 0.5
      in case KBTModel_lr options of
           Inl e \<Rightarrow> (this, Inl e)
         | Inr lr \<Rightarrow>
            (let this = this\<lparr> weight := max (minWeight this) (min (maxWeight this)
                          (weight this * Math_pow (decay this) lr + (1 + delta) * lr)) \<rparr>
             in (this, Inr \<lparr> res_wins = wins this, res_losses = losses this,
                             res_weight = weight this, res_emaAccuracy = emaAccuracy this \<rparr>)))"

text \<open>
  \<open>AIModel.learn(wasWin)\<close> reads its options from \<open>arguments[1]\<close> and asks
  \<open>typeof arguments[1] === 'object'\<close> first: true of \<open>null\<close> (whose \<open>.lr\<close> then
  throws) and of plain objects, false of \<open>undefined\<close>, primitives and functions.
\<close>

definition AIModel_lr :: "learn_options \<Rightarrow> js_error + real" where
  "AIModel_lr arg1 =
     (case arg1 of
        Undefined \<Rightarrow> Inr 1.0
      | Null \<Rightarrow> Inl TypeError
      | Primitive \<Rightarrow> Inr 1.0
      | FunctionObj _ \<Rightarrow> Inr 1.0
      | Object (LrNumber x) \<Rightarrow> Inr (max 0.1 x)
      | Object LrNotNumber \<Rightarrow> Inr 1.0)"

definition AIModel_learn :: "model \<Rightarrow> bool \<Rightarrow> learn_options \<Rightarrow> model \<times> (js_error + learn_result)" where
  "AIModel_learn this wasWin arg1 =
     (let v = (if wasWin then 1 else 0);
          this = this\<lparr> history := history this @ [v] \<rparr>;
          this = (if length (history this) > lookback this
                  then this\<lparr> history := tl (history this) \<rparr> else this);
          this = (if wasWin then this\<lparr> wins := wins this + 1 \<rparr>
                  else this\<lparr> losses := losses this + 1 \<rparr>);
          total = wins this + losses this;
          instantAcc = (if total > 0 then real (wins this) / real total else 0.5);
          this = this\<lparr> emaAccuracy :=
                   emaAccuracy this * (1 - emaAlpha this) + instantAcc * emaAlpha this \<rparr>;
          advantage = emaAccuracy this - 0.5;
          delta = advantage * 0.5
      in case AIModel_lr arg1 of
           Inl e \<Rightarrow> (this, Inl e)
         | Inr lr \<Rightarrow>
            (let this = this\<lparr> weight := max (minWeight this) (min (maxWeight this)
                          (weight this * Math_pow (decay this) lr + (1 + delta) * lr)) \<rparr>
             in (this, Inr \<lparr> res_wins = wins this, res_losses = losses this,
                             res_weight = weight this, res_emaAccuracy = emaAccuracy this \<rparr>)))"

text \<open>\<open>m.learn(...)\<close>: the method of the model's class.\<close>

definition model_learn :: "model \<Rightarrow> bool \<Rightarrow> learn_options \<Rightarrow> model \<times> (js_error + learn_result)" where
  "model_learn m wasWin options =
     (case cls m of
        KBTModel \<Rightarrow> KBTModel_learn m wasWin options
      | AIModel \<Rightarrow> AIModel_learn m wasWin options)"

text \<open>A sequence of \<open>learn\<close> calls on one model; a call that throws leaves the
  state it had written.\<close>

fun learn_calls :: "model \<Rightarrow> (bool \<times> learn_options) list \<Rightarrow> model" where
  "learn_calls m [] = m"
| "learn_calls m ((wasWin, options) # cs) = learn_calls (fst (model_learn m wasWin options)) cs"

subsection \<open>The statements of \<open>learn\<close>, one function each\<close>

text \<open>The proofs reason about \<open>learn\<close> through its statements; the lemmas
  \<open>KBTModel_learn_steps\<close> and \<open>AIModel_learn_steps\<close> show that the two methods are
  exactly these statements in sequence.\<close>

definition push_outcome :: "model \<Rightarrow> bool \<Rightarrow> model" where
  "push_outcome m wasWin = m\<lparr> history := history m @ [if wasWin then 1 else 0] \<rparr>"

definition trim_history :: "model \<Rightarrow> model" where
  "trim_history m = (if length (history m) > lookback m then m\<lparr> history := tl (history m) \<rparr> else m)"

definition count_outcome :: "model \<Rightarrow> bool \<Rightarrow> model" where
  "count_outcome m wasWin = (if wasWin then m\<lparr> wins := wins m + 1 \<rparr> else m\<lparr> losses := losses m + 1 \<rparr>)"

definition update_ema :: "model \<Rightarrow> model" where
  "update_ema m = m\<lparr> emaAccuracy := emaAccuracy m * (1 - emaAlpha m) +
      (if wins m + losses m > 0 then real (wins m) / real (wins m + losses m) else 0.5) * emaAlpha m \<rparr>"

definition update_weight :: "model \<Rightarrow> real \<Rightarrow> model" where
  "update_weight m lr = m\<lparr> weight := max (minWeight m) (min (maxWeight m)
      (weight m * Math_pow (decay m) lr + (1 + (emaAccuracy m - 0.5) * 0.5) * lr)) \<rparr>"

definition stats_of :: "model \<Rightarrow> learn_result" where
  "stats_of m = \<lparr> res_wins = wins m, res_losses = losses m, res_weight = weight m,
                  res_emaAccuracy = emaAccuracy m \<rparr>"

definition record_outcome :: "model \<Rightarrow> bool \<Rightarrow> model" where
  "record_outcome m wasWin = update_ema (count_outcome (trim_history (push_outcome m wasWin)) wasWin)"

subsection \<open>The update rule in the words of the specification\<close>

text \<open>The constants the constructors set and no statement assigns.\<close>

definition default_config :: "model \<Rightarrow> bool" where
  "default_config m \<longleftrightarrow>
     lookback m = 200 \<and> emaAlpha m = 0.05 \<and> minWeight m = 0.2 \<and> maxWeight m = 3.0 \<and> decay m = 0.999"

definition clamp :: "real \<Rightarrow> real \<Rightarrow> real \<Rightarrow> real" where
  "clamp x lo hi = (if x < lo then lo else if hi < x then hi else x)"

text \<open>
  Section 4.1 of the specification, steps 1 to 6, with the default constants:
  append the outcome and drop the oldest beyond 200; increment \<open>wins\<close> or
  \<open>losses\<close>; \<open>instantAccuracy = wins / (wins + losses)\<close>; the EMA with
  \<open>emaAlpha = 0.05\<close>; the weight clamped to \<open>[0.2, 3.0]\<close> from the fresh EMA.
\<close>

definition learn_spec :: "model \<Rightarrow> bool \<Rightarrow> real \<Rightarrow> model" where
  "learn_spec m wasWin lr =
     (let appended = history m @ [if wasWin then 1 else 0];
          outcomeHistory = (if length appended > 200 then tl appended else appended);
          wins' = wins m + (if wasWin then 1 else 0);
          losses' = losses m + (if wasWin then 0 else 1);
          instantAccuracy = real wins' / real (wins' + losses');
          emaAccuracy' = emaAccuracy m * (1 - 0.05) + instantAccuracy * 0.05;
          weight' = clamp (weight m * 0.999 powr lr + (1 + (emaAccuracy' - 0.5) * 0.5) * lr) 0.2 3.0
      in m\<lparr> history := outcomeHistory, wins := wins', losses := losses',
            emaAccuracy := emaAccuracy', weight := weight' \<rparr>)"

text \<open>The weight lies between the model's own limits, and the limits are ordered.\<close>

definition weight_ok :: "model \<Rightarrow> bool" where
  "weight_ok m \<longleftrightarrow> minWeight m \<le> weight m \<and> weight m \<le> maxWeight m \<and> minWeight m \<le> maxWeight m"

section \<open>Events, signals and decisions\<close>

text \<open>
  One element of the history array: \<open>null\<close> or \<open>undefined\<close> (reading a property
  of it throws a TypeError), or an object with the properties the source reads.
  \<open>resultType\<close> is only ever compared with other strings. \<open>number\<close> is
  \<open>None\<close> unless \<open>typeof n === 'number' && !Number.isNaN(n)\<close>. \<open>createTime\<close>
  is \<open>None\<close> when the property is missing or falsy, and else the epoch
  milliseconds \<open>new Date(createTime).getTime()\<close> gives.
\<close>

record result_obj =
  resultType :: string
  number :: "real option"
  createTime :: "int option"

datatype event = NullEvent | Event result_obj

text \<open>The \<open>history\<close> argument: an array of events, or anything that fails
  \<open>Array.isArray\<close>.\<close>

datatype js_history = NotArray | Array "event list"

text \<open>The \<open>options\<close> argument of \<open>predict\<close>, after the default parameter
  \<open>options = {}\<close> has replaced \<open>undefined\<close>: \<open>null\<close>, or an object whose
  \<open>consecutiveLosses\<close> is 0 when missing and whose \<open>lastPrediction\<close> may be
  absent.\<close>

datatype predict_options =
    OptionsNull
  | Options (consecutiveLosses: real) (lastPrediction: "string option")

text \<open>
  What a model's \<open>predict\<close> returns. \<open>logic\<close> is the text the template literal
  \<open>${p.logic || 'model'}\<close> prints (numbers by their digits), \<open>None\<close> when missing;
  \<open>patterns\<close> is \<open>None\<close> when missing. The metadata the wrappers attach
  (\<open>modelId\<close>, \<open>modelName\<close>, \<open>modelWeight\<close>) stands in \<open>meta\<close>.
\<close>

record signal =
  prediction :: string
  confidence :: real
  logic :: "string option"
  patterns :: "string list option"
  meta :: "(string \<times> string \<times> real) option"

text \<open>The literal \<open>{ prediction: 'BIG', confidence: 50 }\<close>.\<close>

definition neutral :: signal where
  "neutral = \<lparr> prediction = ''BIG'', confidence = 50, logic = None, patterns = None, meta = None \<rparr>"

text \<open>One entry of \<open>preds\<close>: \<open>{ model: m, p, score }\<close>.\<close>

record pred =
  pred_model :: model
  pred_p :: signal
  pred_score :: real

text \<open>One entry of \<open>contributing\<close>; \<open>reliability\<close> is present on the consensus
  path only.\<close>

record contributor =
  c_id :: string
  c_name :: string
  c_weight :: real
  c_prediction :: string
  c_confidence :: real
  c_reliability :: "real option"

text \<open>The object \<open>predict\<close> returns. \<open>chosenModel\<close> is \<open>None\<close> for \<open>null\<close>;
  \<open>contributing\<close> is \<open>None\<close> when the object has no such property.\<close>

record decision =
  final_prediction :: string
  final_confidence :: real
  final_logic :: string
  final_patterns :: "string list"
  chosenModel :: "string option"
  contributing :: "contributor list option"

section \<open>Consensus helpers (prediction\_helpers.js)\<close>

record consensus =
  agreement :: real
  consensus_prediction :: string

definition calculateConsensusStrength :: "pred list \<Rightarrow> consensus" where
  "calculateConsensusStrength predictions =
     (let total = length predictions;
          bigVotes = length (filter (\<lambda>x. prediction (pred_p x) = ''BIG'') predictions);
          agreement = real (max bigVotes (total - bigVotes)) / real total
      in \<lparr> agreement = agreement,
           consensus_prediction = (if real bigVotes > real total / 2 then ''BIG'' else ''SMALL'') \<rparr>)"

text \<open>The elements of a list in the order of their first occurrence, as
  \<open>new Set(xs)\<close> iterates them.\<close>

definition uniq :: "string list \<Rightarrow> string list" where
  "uniq xs = rev (remdups (rev xs))"

text \<open>
  \<open>analyzePatternOverlap\<close>. With no pattern at all the source computes
  \<open>1 - 0 / 0\<close>, which is NaN: \<open>overlap_score\<close> is then \<open>None\<close>, and every
  comparison with it is false.
\<close>

record overlap =
  overlap_score :: "real option"
  overlap_patterns :: "string list"

definition analyzePatternOverlap :: "pred list \<Rightarrow> overlap" where
  "analyzePatternOverlap predictions =
     (let allPatterns = concat (map (\<lambda>x. case patterns (pred_p x) of Some ps \<Rightarrow> ps | None \<Rightarrow> []) predictions);
          uniquePatterns = uniq allPatterns
      in \<lparr> overlap_score = (if length allPatterns = 0 then None
                             else Some (1 - real (length uniquePatterns) / real (length allPatterns))),
           overlap_patterns = uniquePatterns \<rparr>)"

text \<open>\<open>assessModelReliability\<close>: an object keyed by model id; a later entry with
  the same id overwrites an earlier one.\<close>

definition assessModelReliability :: "pred list \<Rightarrow> (string \<rightharpoonup> real)" where
  "assessModelReliability predictions =
     foldl (\<lambda>reliability x.
              reliability(model_id (pred_model x) \<mapsto>
                min 1 (js_or (weight (pred_model x)) 0.5 * js_or (emaAccuracy (pred_model x)) 0.5 * 2)))
           Map.empty predictions"

text \<open>
  \<open>calculateEnhancedConfidence\<close>. It is called with the list
  \<open>assessModelReliability\<close> was built from, so every lookup finds its key (lemma
  \<open>assessModelReliability_defined\<close>), and with an overlap score that passed
  \<open>score > 0.6\<close>.
\<close>

definition calculateEnhancedConfidence ::
    "pred list \<Rightarrow> consensus \<Rightarrow> real \<Rightarrow> (string \<rightharpoonup> real) \<Rightarrow> real" where
  "calculateEnhancedConfidence predictions consensusStrength patternOverlap_score modelReliability =
     (let baseConfidence =
            foldl (\<lambda>acc x. acc + confidence (pred_p x) * the (modelReliability (model_id (pred_model x))))
                  0 predictions / real (length predictions);
          enhancementFactor = min 1.3 (1 + agreement consensusStrength * 0.2 + patternOverlap_score * 0.1)
      in min 92 (of_int (Math_round (baseConfidence * enhancementFactor))))"

section \<open>The model manager (model\_manager.js)\<close>

record manager =
  models :: "model list"
  minConfidence :: real
  consensusThreshold :: real
  stabilityWindow :: nat

text \<open>\<open>new ModelManager()\<close>.\<close>

definition ModelManager_new :: manager where
  "ModelManager_new =
     \<lparr> models = [KBTModel_new ''KBT'', AIModel_new ''AI_FLONZA''], minConfidence = 65,
       consensusThreshold = 0.75, stabilityWindow = 100 \<rparr>"

text \<open>
  The call \<open>m.predict(history, options)\<close> of a roster entry: it throws, or returns
  a falsy value (\<open>None\<close>), or returns a signal. The manager is written over any
  such method, as the source is; section \<open>The predict methods of the two classes\<close>
  gives the methods of \<open>KBTModel\<close> and \<open>AIModel\<close>.
\<close>

type_synonym predict_method = "model \<Rightarrow> js_history \<Rightarrow> predict_options \<Rightarrow> js_error + signal option"

text \<open>The body of \<open>this.models.map(m => { try { ... } catch (err) { ... } })\<close>.\<close>

definition make_pred :: "predict_method \<Rightarrow> js_history \<Rightarrow> predict_options \<Rightarrow> model \<Rightarrow> pred" where
  "make_pred run hist options m =
     (case run m hist options of
        Inr res \<Rightarrow>
          (let p = (case res of Some s \<Rightarrow> s | None \<Rightarrow> neutral);
               score = js_or (confidence p) 50 * js_or (weight m) 1
           in \<lparr> pred_model = m, pred_p = p, pred_score = score \<rparr>)
      | Inl err \<Rightarrow>
          \<lparr> pred_model = m, pred_p = neutral, pred_score = 50 * js_or (weight m) 1 \<rparr>)"

text \<open>\<open>preds\<close> after \<open>preds.sort((a, b) => b.score - a.score)\<close>: descending by
  score, entries of equal score in roster order (the sort is stable).\<close>

definition sorted_preds :: "predict_method \<Rightarrow> manager \<Rightarrow> js_history \<Rightarrow> predict_options \<Rightarrow> pred list" where
  "sorted_preds run this hist options =
     sort_key (\<lambda>x. - pred_score x) (map (make_pred run hist options) (models this))"

text \<open>
  \<open>bias\<close>: the share of \<open>'BIG'\<close> among the first 20 events. The arrow function
  \<open>r => r.resultType === 'BIG'\<close> throws on a \<open>null\<close> element.
\<close>

definition recent_bias :: "js_history \<Rightarrow> js_error + real" where
  "recent_bias hist =
     (let look = (case hist of Array es \<Rightarrow> es | NotArray \<Rightarrow> []);
          recent = take 20 look
      in if NullEvent \<in> set recent then Inl TypeError
         else (let bigCount = length (filter (\<lambda>r. case r of Event obj \<Rightarrow> resultType obj = ''BIG'' | NullEvent \<Rightarrow> False) recent)
               in Inr (if length recent \<noteq> 0 then real bigCount / real (length recent) else 0.5)))"

text \<open>The condition \<open>consensusStrength.agreement > 0.75 && patternOverlap.score > 0.6\<close>.\<close>

definition consensus_path :: "pred list \<Rightarrow> bool" where
  "consensus_path preds =
     (agreement (calculateConsensusStrength preds) > 0.75 \<and>
      (case overlap_score (analyzePatternOverlap preds) of None \<Rightarrow> False | Some s \<Rightarrow> s > 0.6))"

text \<open>The object \<open>final\<close> of the consensus branch.\<close>

definition consensus_final :: "pred list \<Rightarrow> decision" where
  "consensus_final preds =
     (let consensusStrength = calculateConsensusStrength preds;
          patternOverlap = analyzePatternOverlap preds;
          modelReliability = assessModelReliability preds;
          score = the (overlap_score patternOverlap);
          combinedConf = calculateEnhancedConfidence preds consensusStrength score modelReliability
      in \<lparr> final_prediction = consensus_prediction consensusStrength,
           final_confidence = combinedConf,
           final_logic = ''ENHANCED_ENSEMBLE: '' @ model_id (pred_model (preds ! 0)) @ ''+'' @
                           model_id (pred_model (preds ! 1)),
           final_patterns = uniq (
             (case patterns (pred_p (preds ! 0)) of Some ps \<Rightarrow> ps | None \<Rightarrow> []) @
             (case patterns (pred_p (preds ! 1)) of Some ps \<Rightarrow> ps | None \<Rightarrow> []) @
             [''Consensus_'' @ show_int (Math_round (agreement consensusStrength * 100)),
              ''PatternMatch_'' @ show_int (Math_round (score * 100))]),
           chosenModel = Some ''enhanced_ensemble'',
           contributing = Some (map (\<lambda>x.
             \<lparr> c_id = js_or_str (model_id (pred_model x)) (model_name (pred_model x)),
               c_name = model_name (pred_model x),
               c_weight = weight (pred_model x) *
                 js_or (the (modelReliability (model_id (pred_model x)))) 1,
               c_prediction = prediction (pred_p x),
               c_confidence = confidence (pred_p x),
               c_reliability = modelReliability (model_id (pred_model x)) \<rparr>) preds) \<rparr>)"

text \<open>The object of the top model, with the confidence the branch computed.\<close>

definition top_final :: "pred list \<Rightarrow> real \<Rightarrow> decision" where
  "top_final preds adjustedConf =
     (let top = preds ! 0
      in \<lparr> final_prediction = prediction (pred_p top),
           final_confidence = adjustedConf,
           final_logic = model_id (pred_model top) @ '':'' @
                           (case logic (pred_p top) of Some l \<Rightarrow> js_or_str l ''model'' | None \<Rightarrow> ''model''),
           final_patterns = (case patterns (pred_p top) of Some ps \<Rightarrow> ps | None \<Rightarrow> []),
           chosenModel = Some (js_or_str (model_id (pred_model top)) (model_name (pred_model top))),
           contributing = Some (map (\<lambda>x.
             \<lparr> c_id = js_or_str (model_id (pred_model x)) (model_name (pred_model x)),
               c_name = model_name (pred_model x),
               c_weight = weight (pred_model x),
               c_prediction = prediction (pred_p x),
               c_confidence = confidence (pred_p x),
               c_reliability = None \<rparr>) preds) \<rparr>)"

text \<open>The object of the two fallback branches: no \<open>contributing\<close> property.\<close>

definition fallback_final :: "string \<Rightarrow> real \<Rightarrow> decision" where
  "fallback_final category adjustedConf =
     \<lparr> final_prediction = category,
       final_confidence = max 55 (of_int (Math_round (adjustedConf - 10))),
       final_logic = ''fallback-low-consensus-bias'',
       final_patterns = [],
       chosenModel = Some ''fallback'',
       contributing = None \<rparr>"

text \<open>The \<open>else\<close> branch of the consensus test, for at least two entries.\<close>

definition low_consensus_final :: "pred list \<Rightarrow> js_history \<Rightarrow> js_error + decision" where
  "low_consensus_final preds hist =
     (let top = preds ! 0;
          adjustedConf = confidence (pred_p top);
          gap = pred_score (preds ! 0) - pred_score (preds ! 1)
      in if gap < 15 then
           (case recent_bias hist of
              Inl err \<Rightarrow> Inl err
            | Inr bias \<Rightarrow>
                if bias > 0.6 then Inr (fallback_final ''BIG'' adjustedConf)
                else if bias < 0.4 then Inr (fallback_final ''SMALL'' adjustedConf)
                else Inr (top_final preds (max 50 (of_int (Math_round (adjustedConf - 12))))))
         else Inr (top_final preds adjustedConf))"

text \<open>The condition under which \<open>low_consensus_final\<close> builds one of the two
  fallback objects.\<close>

definition fallback_branch :: "pred list \<Rightarrow> js_history \<Rightarrow> bool" where
  "fallback_branch preds hist \<longleftrightarrow>
     \<not> consensus_path preds \<and>
     pred_score (preds ! 0) - pred_score (preds ! 1) < 15 \<and>
     (case recent_bias hist of Inl err \<Rightarrow> False | Inr bias \<Rightarrow> bias > 0.6 \<or> bias < 0.4)"

text \<open>\<open>final\<close> of the branch \<open>preds.length >= 2\<close>, before the floor is enforced.\<close>

definition multi_final :: "pred list \<Rightarrow> js_history \<Rightarrow> js_error + decision" where
  "multi_final preds hist =
     (if consensus_path preds then Inr (consensus_final preds) else low_consensus_final preds hist)"

text \<open>\<open>if (final.confidence < this.minConfidence) final.confidence = this.minConfidence\<close>.\<close>

definition enforce_minConfidence :: "manager \<Rightarrow> decision \<Rightarrow> decision" where
  "enforce_minConfidence this final =
     (if final_confidence final < minConfidence this
      then final\<lparr> final_confidence := minConfidence this \<rparr> else final)"

text \<open>The object returned for a roster of one model.\<close>

definition single_final :: "manager \<Rightarrow> pred list \<Rightarrow> decision" where
  "single_final this preds =
     (let top = preds ! 0
      in \<lparr> final_prediction = prediction (pred_p top),
           final_confidence = max (minConfidence this) (confidence (pred_p top)),
           final_logic = model_id (pred_model top) @ '':'' @
                           (case logic (pred_p top) of Some l \<Rightarrow> js_or_str l ''model'' | None \<Rightarrow> ''model''),
           final_patterns = (case patterns (pred_p top) of Some ps \<Rightarrow> ps | None \<Rightarrow> []),
           chosenModel = Some (model_id (pred_model top)),
           contributing = Some (map (\<lambda>x.
             \<lparr> c_id = model_id (pred_model x),
               c_name = model_name (pred_model x),
               c_weight = weight (pred_model x),
               c_prediction = prediction (pred_p x),
               c_confidence = confidence (pred_p x),
               c_reliability = None \<rparr>) preds) \<rparr>)"

text \<open>The object returned for an empty roster.\<close>

definition no_models_final :: "manager \<Rightarrow> decision" where
  "no_models_final this =
     \<lparr> final_prediction = ''UNKNOWN'',
       final_confidence = max 50 (js_or (minConfidence this) 50),
       final_logic = ''no-models'',
       final_patterns = [],
       chosenModel = None,
       contributing = Some [] \<rparr>"

text \<open>\<open>ModelManager.predict(history, options = {})\<close>.\<close>

definition ModelManager_predict ::
    "predict_method \<Rightarrow> manager \<Rightarrow> js_history \<Rightarrow> predict_options \<Rightarrow> js_error + decision" where
  "ModelManager_predict run this hist options =
     (if length (models this) = 0 then Inr (no_models_final this)
      else
        (let preds = sorted_preds run this hist options
         in if length preds \<ge> 2 then
              (case multi_final preds hist of
                 Inl err \<Rightarrow> Inl err
               | Inr final \<Rightarrow> Inr (enforce_minConfidence this final))
            else Inr (single_final this preds)))"

subsection \<open>Credit assignment\<close>

text \<open>\<open>this.models.find(x => (x.id || x.name) === key)\<close>, as the index of the
  model found.\<close>

fun find_model :: "model list \<Rightarrow> string \<Rightarrow> nat option" where
  "find_model [] key = None"
| "find_model (x # xs) key =
     (if js_or_str (model_id x) (model_name x) = key then Some 0
      else map_option Suc (find_model xs key))"

text \<open>The keys \<open>x.id || x.name\<close> of the roster, by which \<open>find\<close> searches.\<close>

definition keys_of :: "manager \<Rightarrow> string list" where
  "keys_of this = map (\<lambda>m. js_or_str (model_id m) (model_name m)) (models this)"

text \<open>\<open>1 + Math.min(3, streak * 0.4)\<close> with \<open>streak = context.consecutiveLosses || 0\<close>.\<close>

definition learning_rate :: "real \<Rightarrow> real" where
  "learning_rate context_consecutiveLosses =
     (let streak = js_or context_consecutiveLosses 0
      in 1 + min 3 (streak * 0.4))"

text \<open>
  \<open>ModelManager.learn(chosenModelId, wasWin, context)\<close>: \<open>None\<close> is the \<open>null\<close> of
  an unknown id. The call \<open>m.learn(!!wasWin, { lr })\<close> passes a plain object.
\<close>

definition ModelManager_learn ::
    "manager \<Rightarrow> string \<Rightarrow> bool \<Rightarrow> real \<Rightarrow> manager \<times> (js_error + learn_result) option" where
  "ModelManager_learn this chosenModelId wasWin context_consecutiveLosses =
     (case find_model (models this) chosenModelId of
        None \<Rightarrow> (this, None)
      | Some i \<Rightarrow>
          (let lr = learning_rate context_consecutiveLosses;
               (m', res) = model_learn (models this ! i) wasWin (Object (LrNumber lr))
           in (this\<lparr> models := (models this)[i := m'] \<rparr>, Some res)))"

text \<open>The score of one contribution: \<open>(c.weight || 1) * (c.confidence || 50)\<close>.\<close>

definition contribution_score :: "contributor \<Rightarrow> real" where
  "contribution_score c = js_or (c_weight c) 1 * js_or (c_confidence c) 50"

text \<open>\<open>contributions.reduce((s, c) => s + ..., 0) || 1\<close>.\<close>

definition totalScore :: "contributor list \<Rightarrow> real" where
  "totalScore contributions =
     js_or (foldl (\<lambda>s c. s + js_or (c_weight c) 1 * js_or (c_confidence c) 50) 0 contributions) 1"

text \<open>One entry of \<open>results\<close>: \<open>{ id: model.id, lr: lr2, res: r }\<close>.\<close>

record learn_entry =
  entry_id :: string
  entry_lr :: real
  entry_res :: "js_error + learn_result"

text \<open>The loop \<open>for (const c of contributions)\<close>, on the manager and \<open>results\<close>.\<close>

fun learnMultiple_loop ::
    "real \<Rightarrow> real \<Rightarrow> bool \<Rightarrow> contributor list \<Rightarrow> manager \<times> learn_entry list \<Rightarrow> manager \<times> learn_entry list" where
  "learnMultiple_loop tscore baseLR wasWin [] (this, results) = (this, results)"
| "learnMultiple_loop tscore baseLR wasWin (c # cs) (this, results) =
     (let share = (js_or (c_weight c) 1 * js_or (c_confidence c) 50) / tscore
      in case find_model (models this) (c_id c) of
           None \<Rightarrow> learnMultiple_loop tscore baseLR wasWin cs (this, results)
         | Some i \<Rightarrow>
             (let lr2 = baseLR * (0.2 + 0.8 * share);
                  (m', r) = model_learn (models this ! i) wasWin (Object (LrNumber lr2))
              in learnMultiple_loop tscore baseLR wasWin cs
                   (this\<lparr> models := (models this)[i := m'] \<rparr>,
                    results @ [\<lparr> entry_id = model_id m', entry_lr = lr2, entry_res = r \<rparr>])))"

text \<open>\<open>ModelManager.learnMultiple(contributions, wasWin, context)\<close>; \<open>None\<close> is the
  \<open>null\<close> of an empty list.\<close>

definition learnMultiple ::
    "manager \<Rightarrow> contributor list \<Rightarrow> bool \<Rightarrow> real \<Rightarrow> manager \<times> learn_entry list option" where
  "learnMultiple this contributions wasWin context_consecutiveLosses =
     (if length contributions = 0 then (this, None)
      else
        (let tscore = totalScore contributions;
             baseLR = learning_rate context_consecutiveLosses;
             (this', results) = learnMultiple_loop tscore baseLR wasWin contributions (this, [])
         in (this', Some results)))"

section \<open>Test doubles and example inputs\<close>

text \<open>
  A roster entry whose \<open>predict\<close> returns a fixed signal chosen by the model's id,
  as the scenarios of the specification describe predictors (``P1 with weight 1.0
  and signal BIG, 80'').
\<close>

definition stub_predict :: "(string \<Rightarrow> signal) \<Rightarrow> predict_method" where
  "stub_predict f m hist options = Inr (Some (f (model_id m)))"

definition signal_of :: "string \<Rightarrow> real \<Rightarrow> string list \<Rightarrow> signal" where
  "signal_of category conf tags =
     \<lparr> prediction = category, confidence = conf, logic = None, patterns = Some tags, meta = None \<rparr>"

text \<open>A history of 14 BIG events followed by 6 SMALL events: bias 0.7.\<close>

definition history_14_big_6_small :: js_history where
  "history_14_big_6_small =
     Array (replicate 14 (Event \<lparr> resultType = ''BIG'', number = Some 7, createTime = Some 0 \<rparr>) @
            replicate 6 (Event \<lparr> resultType = ''SMALL'', number = Some 2, createTime = Some 0 \<rparr>))"

text \<open>Two predictors that disagree with equal confidence 70.\<close>

definition split_signals :: "string \<Rightarrow> signal" where
  "split_signals i = (if i = ''KBT'' then signal_of ''BIG'' 70 [''Streak of 3'']
                      else signal_of ''SMALL'' 70 [''Alternating''])"

text \<open>Three models of weight 1 whose EMA accuracy has dropped to 0.4, all
  voting BIG with confidence 70 on the same pattern tag.\<close>

definition roster_of_three :: manager where
  "roster_of_three =
     ModelManager_new\<lparr> models :=
       [(KBTModel_new ''KBT'')\<lparr> emaAccuracy := 0.4 \<rparr>,
        (AIModel_new ''AI_FLONZA'')\<lparr> emaAccuracy := 0.4 \<rparr>,
        (KBTModel_new ''KBT2'')\<lparr> emaAccuracy := 0.4 \<rparr>] \<rparr>"

definition agreeing_signals :: "string \<Rightarrow> signal" where
  "agreeing_signals i = signal_of ''BIG'' 70 [''Streak_3'']"

text \<open>Two contributors for the default roster; the first reports confidence 0,
  which is inside the range \<open>[0, 100]\<close> the specification gives a signal.\<close>

definition zero_confidence_contributions :: "contributor list" where
  "zero_confidence_contributions =
     [\<lparr> c_id = ''KBT'', c_name = ''KBT Ultralogic'', c_weight = 1, c_prediction = ''BIG'',
        c_confidence = 0, c_reliability = None \<rparr>,
      \<lparr> c_id = ''AI_FLONZA'', c_name = ''FLONZA_V4_HYBRID'', c_weight = 1, c_prediction = ''BIG'',
        c_confidence = 60, c_reliability = None \<rparr>]"

section \<open>The heuristic scorers (prediction\_helpers.js)\<close>

text \<open>
  The scorers work on the objects of a history in which no element is \<open>null\<close>;
  the callers below decide first whether a \<open>null\<close> element is read, which
  throws. A scorer whose source can compute \<open>0 / 0\<close> returns an option, \<open>None\<close>
  for NaN. \<open>Date.now()\<close> is the argument \<open>now\<close>: all reads of the clock
  during one call of \<open>predict\<close> see the same millisecond.
\<close>

definition objects :: "event list \<Rightarrow> result_obj list" where
  "objects es = concat (map (\<lambda>e. case e of Event obj \<Rightarrow> [obj] | NullEvent \<Rightarrow> []) es)"

text \<open>\<open>new Date(r.createTime || Date.now()).getTime()\<close>.\<close>

definition time_of :: "int \<Rightarrow> result_obj \<Rightarrow> int" where
  "time_of now r = (case createTime r of Some t \<Rightarrow> t | None \<Rightarrow> now)"

text \<open>\<open>t === "BIG" ? "SMALL" : "BIG"\<close>.\<close>

definition opposite :: "string \<Rightarrow> string" where
  "opposite t = (if t = ''BIG'' then ''SMALL'' else ''BIG'')"

definition count_big :: "result_obj list \<Rightarrow> nat" where
  "count_big rs = length (filter (\<lambda>r. resultType r = ''BIG'') rs)"

text \<open>\<open>x || d\<close> on a number that may be NaN.\<close>

definition js_or_nan :: "real option \<Rightarrow> real \<Rightarrow> real" where
  "js_or_nan x d = (case x of None \<Rightarrow> d | Some v \<Rightarrow> js_or v d)"

subsection \<open>Streaks and alternations\<close>

record streaks =
  current :: "string \<times> nat"
  historical :: "(string \<times> nat) list"
  streak_strength :: real

text \<open>The loop of \<open>detectStreaks\<close> over \<open>history[1..]\<close>.\<close>

fun streak_scan ::
    "string \<times> nat \<Rightarrow> (string \<times> nat) list \<Rightarrow> result_obj list \<Rightarrow> (string \<times> nat) \<times> (string \<times> nat) list" where
  "streak_scan cur hist [] = (cur, hist)"
| "streak_scan (t, n) hist (r # rs) =
     (if resultType r = t then streak_scan (t, n + 1) hist rs
      else streak_scan (resultType r, 1) (hist @ [(t, n)]) rs)"

definition calculateStreakStrength :: "string \<times> nat \<Rightarrow> (string \<times> nat) list \<Rightarrow> real" where
  "calculateStreakStrength cur hist =
     (let currentLen = snd cur;
          historicalMax = (if length hist \<noteq> 0 then foldr max (map snd hist) 0 else 0);
          maxLen = max currentLen historicalMax
      in min 1 (real maxLen / 10))"

text \<open>\<open>detectStreaks\<close> reads \<open>history[0].resultType\<close>: a TypeError on an empty
  array.\<close>

definition detectStreaks :: "result_obj list \<Rightarrow> js_error + streaks" where
  "detectStreaks hist =
     (case hist of
        [] \<Rightarrow> Inl TypeError
      | r # rs \<Rightarrow>
          (let (cur, old) = streak_scan (resultType r, 1) [] rs
           in Inr \<lparr> current = cur, historical = old,
                    streak_strength = calculateStreakStrength cur old \<rparr>))"

record alternations =
  alternation_count :: nat
  perfectCount :: nat
  alternation_strength :: "real option"

text \<open>\<open>strength = perfectCount / (history.length - 2)\<close>: \<open>0 / 0\<close> for a history
  of two.\<close>

definition detectAlternations :: "result_obj list \<Rightarrow> alternations" where
  "detectAlternations hist =
     (let changed = filter (\<lambda>i. resultType (hist ! i) \<noteq> resultType (hist ! (i - 1))) [1..<length hist];
          perfect = filter (\<lambda>i. i > 1 \<and> resultType (hist ! i) = resultType (hist ! (i - 2))) changed
      in \<lparr> alternation_count = length changed, perfectCount = length perfect,
           alternation_strength =
             (if length hist = 2 then None
              else Some (real (length perfect) / (real (length hist) - 2))) \<rparr>)"

text \<open>\<open>analyzeDistribution\<close>, its \<open>strength\<close>: NaN on an empty history.\<close>

definition analyzeDistribution :: "result_obj list \<Rightarrow> real option" where
  "analyzeDistribution hist =
     (if length hist = 0 then None
      else (let ratio = real (count_big hist) / real (length hist)
            in Some (1 - 2 * \<bar>0.5 - ratio\<bar>)))"

subsection \<open>The two scorers that read the clock\<close>

text \<open>The intervals \<open>t2 - t1\<close> of consecutive events.\<close>

definition intervals :: "int \<Rightarrow> result_obj list \<Rightarrow> real list" where
  "intervals now hist =
     map (\<lambda>i. real_of_int (time_of now (hist ! i) - time_of now (hist ! (i - 1)))) [1..<length hist]"

text \<open>
  \<open>analyzeTimingPatterns\<close>, its \<open>stability\<close> (which is also its \<open>strength\<close>):
  \<open>1 - Math.min(1, Math.sqrt(variance) / avg)\<close>. Without intervals \<open>avg\<close> is NaN;
  with \<open>avg = 0\<close> the quotient is NaN for \<open>variance = 0\<close> and \<open>Infinity\<close>
  otherwise, which \<open>Math.min\<close> turns into 1.
\<close>

definition analyzeTimingPatterns :: "int \<Rightarrow> result_obj list \<Rightarrow> real option" where
  "analyzeTimingPatterns now hist =
     (let ivs = intervals now hist
      in if length ivs = 0 then None
         else (let avg = sum_list ivs / real (length ivs);
                   variance = sum_list (map (\<lambda>b. (b - avg)\<^sup>2) ivs) / real (length ivs)
               in if avg = 0 then (if variance = 0 then None else Some 0)
                  else Some (1 - min 1 (sqrt variance / avg))))"

text \<open>\<open>detectManipulation\<close>: NaN without intervals.\<close>

definition detectManipulation :: "int \<Rightarrow> result_obj list \<Rightarrow> real option" where
  "detectManipulation now hist =
     (let ivs = intervals now hist
      in if length ivs = 0 then None
         else (let avg = sum_list ivs / real (length ivs);
                   anomalies = length (filter (\<lambda>i. \<bar>i - avg\<bar> > avg * 0.5) ivs)
               in Some (real anomalies / real (length ivs))))"

text \<open>\<open>calculateVolatility\<close>: NaN for fewer than two events.\<close>

definition calculateVolatility :: "result_obj list \<Rightarrow> real option" where
  "calculateVolatility hist =
     (let changes = map (\<lambda>i. if resultType (hist ! i) \<noteq> resultType (hist ! (i - 1)) then 1 else 0)
                        [1..<length hist]
      in if length changes = 0 then None
         else Some (sum_list changes / real (length changes)))"

text \<open>\<open>assessMarketCondition\<close>: \<open>Math.max\<close> of a NaN is NaN.\<close>

definition assessMarketCondition :: "int \<Rightarrow> result_obj list \<Rightarrow> real option" where
  "assessMarketCondition now hist =
     (case (calculateVolatility hist, detectManipulation now hist) of
        (Some volatility, Some manipulation) \<Rightarrow>
          (let stability = 1 - max volatility manipulation in Some (max 0.7 stability))
      | _ \<Rightarrow> None)"

subsection \<open>Helpers of the hybrid predictor\<close>

record window =
  window_prediction :: string
  window_confidence :: real
  window_bias :: real

definition analyzeWindow :: "result_obj list \<Rightarrow> window" where
  "analyzeWindow hist =
     (let windowSize = min (length hist) 15
      in if windowSize = 0
         then \<lparr> window_prediction = ''BIG'', window_confidence = 0.5, window_bias = 0.5 \<rparr>
         else (let ratio = real (count_big (take windowSize hist)) / real windowSize
               in \<lparr> window_prediction = (if ratio > 0.5 then ''BIG'' else ''SMALL''),
                    window_confidence = \<bar>ratio - 0.5\<bar>, window_bias = ratio \<rparr>))"

text \<open>\<open>detectPatternStrength\<close>, its \<open>strength\<close>; it throws where
  \<open>detectStreaks\<close> does.\<close>

definition detectPatternStrength :: "result_obj list \<Rightarrow> js_error + real" where
  "detectPatternStrength hist =
     (case detectStreaks hist of
        Inl err \<Rightarrow> Inl err
      | Inr s \<Rightarrow>
          Inr (max (js_or (streak_strength s) 0)
                   (js_or_nan (alternation_strength (detectAlternations hist)) 0)))"

text \<open>\<open>assessMarketStability\<close>, its \<open>stabilityFactor\<close>.\<close>

definition assessMarketStability :: "int \<Rightarrow> result_obj list \<Rightarrow> real" where
  "assessMarketStability now hist =
     (let volatility = js_or_nan (calculateVolatility hist) 0;
          manipulation = js_or_nan (detectManipulation now hist) 0;
          stabilityFactor = 1 - max volatility manipulation
      in max 0 (min 1 stabilityFactor))"

text \<open>\<open>detectCyclicalPatterns\<close>, its \<open>strength\<close>. The sequences are the maximal
  runs of equal \<open>resultType\<close>; their lengths sum to the length of the history.\<close>

definition detectCyclicalPatterns :: "result_obj list \<Rightarrow> real" where
  "detectCyclicalPatterns hist =
     (case hist of
        [] \<Rightarrow> 0
      | r # rs \<Rightarrow>
          (let (cur, old) = streak_scan (resultType r, 1) [] rs;
               sequences = old @ [cur];
               avgLength = real (sum_list (map snd sequences)) / real (length sequences);
               isCyclical = (\<bar>avgLength - real_of_int (Math_round avgLength)\<bar> < 0.5)
           in if isCyclical then 0.8 else 0.2))"

text \<open>
  One value of the object \<open>combineSignals\<close> iterates: its \<open>confidence\<close> when that
  is a number, its \<open>strength\<close> when it has one, its \<open>prediction\<close> when it has
  one. A plain number has none of the three.
\<close>

record combine_input =
  ci_confidence :: "real option"
  ci_strength :: "real option"
  ci_prediction :: "string option"

text \<open>The loop of \<open>combineSignals\<close> on \<open>(bigScore, smallScore, totalWeight)\<close>.\<close>

fun combine_loop :: "(string \<times> combine_input) list \<Rightarrow> real \<times> real \<times> real \<Rightarrow> real \<times> real \<times> real" where
  "combine_loop [] acc = acc"
| "combine_loop ((type, signal) # rest) (bigScore, smallScore, totalWeight) =
     (let weight = js_or (case map_of [(''short'', 0.3), (''long'', 0.2), (''pattern'', 0.2),
                                        (''trend'', 0.1), (''market'', 0.2)] type of
                            Some w \<Rightarrow> w | None \<Rightarrow> 0) 0.1;
          conf = (case ci_confidence signal of
                    Some c \<Rightarrow> c
                  | None \<Rightarrow> (case ci_strength signal of Some s \<Rightarrow> js_or s 0.5 | None \<Rightarrow> 0.5))
      in if ci_prediction signal = Some ''BIG''
         then combine_loop rest (bigScore + weight * conf, smallScore, totalWeight + weight)
         else combine_loop rest (bigScore, smallScore + weight * conf, totalWeight + weight))"

text \<open>\<open>combineSignals\<close>: \<open>finalPrediction\<close> and \<open>strength\<close>; \<open>activePatterns\<close>
  is always the empty object. Its one caller passes eight entries, whose weights
  sum to 1.3.\<close>

definition combineSignals :: "(string \<times> combine_input) list \<Rightarrow> string \<times> real" where
  "combineSignals signals =
     (let (bigScore, smallScore, totalWeight) = combine_loop signals (0, 0, 0);
          normalizedBig = bigScore / totalWeight;
          normalizedSmall = smallScore / totalWeight
      in (if normalizedBig > normalizedSmall then ''BIG'' else ''SMALL'',
          \<bar>normalizedBig - normalizedSmall\<bar>))"

section \<open>The KBT signal provider (kbt\_models.js)\<close>

text \<open>One entry of \<open>predictions\<close>: \<open>{ prediction, confidence, logic }\<close>.\<close>

record rule_prediction =
  rule_category :: string
  rule_confidence :: real
  rule_logic :: nat

text \<open>The length of the streak \<open>history[0], history[1], ...\<close> of equal
  \<open>resultType\<close>, for a non-empty history.\<close>

definition leading_streak :: "result_obj list \<Rightarrow> nat" where
  "leading_streak hist =
     1 + length (takeWhile (\<lambda>r. resultType r = resultType (hist ! 0)) (tl hist))"

text \<open>The loop that clears \<open>alternating\<close> in \<open>enhancedTrendAnalysis\<close> and in
  \<open>machineLearningPrediction\<close>.\<close>

definition alternating_prefix :: "result_obj list \<Rightarrow> bool" where
  "alternating_prefix hist =
     list_all (\<lambda>i. \<not> ((resultType (hist ! (i - 1)) = ''BIG'' \<and> resultType (hist ! i) \<noteq> ''SMALL'') \<or>
                       (resultType (hist ! (i - 1)) = ''SMALL'' \<and> resultType (hist ! i) \<noteq> ''BIG'')))
              [1..<min 6 (length hist)]"

text \<open>
  \<open>determineBestPrediction\<close> assigns \<open>data.prediction\<close> to \<open>prediction\<close>, and none
  of the four pattern objects has such a property: \<open>prediction\<close> stays
  \<open>null\<close> or becomes \<open>undefined\<close>, and \<open>prediction || "BIG"\<close> is \<open>"BIG"\<close>. The
  weights of \<open>calculatePatternWeights\<close> are read nowhere else.
\<close>

definition determineBestPrediction :: string where
  "determineBestPrediction = ''BIG''"

text \<open>\<open>calculateBaseConfidence\<close>: \<open>70 + avgStrength * 25\<close> over the four
  strengths, NaN when one of them is.\<close>

definition calculateBaseConfidence :: "real \<Rightarrow> real option \<Rightarrow> real option \<Rightarrow> real option \<Rightarrow> real option" where
  "calculateBaseConfidence streaks_s alternations_s distributions_s timing_s =
     (case (alternations_s, distributions_s, timing_s) of
        (Some a, Some d, Some t) \<Rightarrow> Some (70 + ((streaks_s + a + d + t) / 4) * 25)
      | _ \<Rightarrow> None)"

text \<open>
  \<open>neuralNetworkPrediction\<close>: its \<open>prediction\<close> and \<open>confidence\<close> (its \<open>logic\<close>
  is 19; the caller replaces its \<open>patterns\<close>). \<open>Math.min\<close> and \<open>Math.max\<close> keep
  a NaN.
\<close>

definition neuralNetworkPrediction :: "int \<Rightarrow> result_obj list \<Rightarrow> js_error + string \<times> real option" where
  "neuralNetworkPrediction now recent =
     (case detectStreaks recent of
        Inl err \<Rightarrow> Inl err
      | Inr s \<Rightarrow>
          (let baseConfidence =
                 calculateBaseConfidence (streak_strength s)
                   (alternation_strength (detectAlternations recent))
                   (analyzeDistribution recent) (analyzeTimingPatterns now recent);
               marketCondition = assessMarketCondition now recent
           in Inr (determineBestPrediction,
                   (case (baseConfidence, marketCondition) of
                      (Some b, Some m) \<Rightarrow> Some (max 70 (min 92 (b * m)))
                    | _ \<Rightarrow> None))))"

text \<open>\<open>fibonacciPrediction\<close>, for a non-empty history.\<close>

definition fibonacciPrediction :: "result_obj list \<Rightarrow> string \<times> real" where
  "fibonacciPrediction recent =
     (if length recent = 0 then (''BIG'', 50)
      else
        (let ratio = real (count_big recent) / real (length recent);
             closestLevel = foldl (\<lambda>prev curr. if \<bar>curr - ratio\<bar> < \<bar>prev - ratio\<bar> then curr else prev)
                              0 [0.236, 0.382, 0.5, 0.618, 0.786, 1]
         in if closestLevel \<ge> 0.618 then (''SMALL'', 75)
            else if closestLevel \<le> 0.382 \<and> closestLevel \<noteq> 0 then (''BIG'', 75)
            else (opposite (resultType (recent ! 0)), 70)))"

text \<open>\<open>machineLearningPrediction\<close>, for a non-empty history.\<close>

definition machineLearningPrediction :: "result_obj list \<Rightarrow> string \<times> real" where
  "machineLearningPrediction recent =
     (let bigCount = count_big recent;
          smallCount = length recent - bigCount;
          lastType = resultType (recent ! 0);
          streakLength = leading_streak recent;
          alternating = alternating_prefix recent
      in if streakLength \<ge> 3 then (opposite lastType, 85)
         else if alternating then (opposite (resultType (recent ! (length recent - 1))), 80)
         else if real bigCount / real (length recent) > 0.6 then (''SMALL'', 78)
         else if real smallCount / real (length recent) > 0.6 then (''BIG'', 78)
         else (if bigCount > smallCount then ''SMALL'' else ''BIG'', 75))"

text \<open>
  The rules of \<open>enhancedTrendAnalysis\<close> (from \<open>const activePatternsKBT = []\<close> to the
  \<open>return\<close>), for a history of at least three objects: the pattern tags pushed
  and the entries of \<open>predictions\<close>, in the order of the source.
\<close>

definition trend_rules ::
    "int \<Rightarrow> result_obj list \<Rightarrow> real \<Rightarrow> string option \<Rightarrow> (string \<times> rule_prediction) list" where
  "trend_rules now hist options_consecutiveLosses options_lastPrediction =
     (let n = length hist;
          lastStreakType = resultType (hist ! 0);
          streakLength = leading_streak hist;
          lookback = min 30 n;
          bigCount = count_big (take lookback hist);
          bigPercent = (real bigCount / real lookback) * 100;
          shortWindow = take 10 hist;
          longWindow = take lookback hist;
          shortBigPercent = (real (count_big shortWindow) / real (length shortWindow)) * 100;
          longBigPercent = (real (count_big longWindow) / real (length longWindow)) * 100
      in
        (if streakLength \<ge> 3
         then [(''Streak of '' @ show_nat streakLength,
                \<lparr> rule_category = opposite lastStreakType,
                  rule_confidence = min 90 (70 + real streakLength * 5), rule_logic = 1 \<rparr>)]
         else []) @
        (if alternating_prefix hist \<and> n \<ge> 4
         then [(''Alternating pattern'',
                \<lparr> rule_category = opposite (resultType (hist ! (n - 1))),
                  rule_confidence = 80, rule_logic = 3 \<rparr>)]
         else []) @
        (if n \<ge> 5 \<and> resultType (hist ! 0) = resultType (hist ! 1) \<and>
            resultType (hist ! 0) = resultType (hist ! 2)
         then [(''Triple pattern'',
                \<lparr> rule_category = opposite (resultType (hist ! 0)),
                  rule_confidence = 85, rule_logic = 5 \<rparr>)]
         else []) @
        (if \<bar>bigPercent - 50\<bar> > 15 \<and> \<bar>shortBigPercent - longBigPercent\<bar> < 20
         then [(''Stable weighted probability'',
                \<lparr> rule_category = (if bigPercent > 50 then ''SMALL'' else ''BIG''),
                  rule_confidence = min 85 (\<bar>bigPercent - 50\<bar> + 35), rule_logic = 8 \<rparr>)]
         else []) @
        (if options_consecutiveLosses \<noteq> 0 \<and> options_consecutiveLosses \<ge> 2 \<and>
            (case options_lastPrediction of Some l \<Rightarrow> l \<noteq> [] | None \<Rightarrow> False)
         then [(''Loss recovery'',
                \<lparr> rule_category = (if options_lastPrediction = Some ''BIG'' then ''SMALL'' else ''BIG''),
                  rule_confidence = 75 + options_consecutiveLosses * 5, rule_logic = 22 \<rparr>)]
         else []) @
        (if n \<ge> 4 \<and> resultType (hist ! 0) = resultType (hist ! 2) \<and>
            resultType (hist ! 1) = resultType (hist ! 3)
         then [(''Mirror pattern'',
                \<lparr> rule_category = opposite (resultType (hist ! 1)),
                  rule_confidence = 75, rule_logic = 6 \<rparr>)]
         else []) @
        (if n \<ge> 8
         then (case neuralNetworkPrediction now hist of
                 Inr (category, Some conf) \<Rightarrow>
                   (if conf > 70
                    then [(''AI detected'',
                           \<lparr> rule_category = category, rule_confidence = conf, rule_logic = 19 \<rparr>)]
                    else [])
               | _ \<Rightarrow> [])
         else []) @
        (if n \<ge> 8 \<and> snd (fibonacciPrediction hist) > 65
         then [(''Fibonacci pattern'',
                \<lparr> rule_category = fst (fibonacciPrediction hist),
                  rule_confidence = snd (fibonacciPrediction hist), rule_logic = 25 \<rparr>)]
         else []) @
        (if n \<ge> 10 \<and> snd (machineLearningPrediction hist) > 75
         then [(''ML detected'',
                \<lparr> rule_category = fst (machineLearningPrediction hist),
                  rule_confidence = snd (machineLearningPrediction hist), rule_logic = 28 \<rparr>)]
         else []))"

text \<open>The last two statements: the default entry when no rule fired, and the
  first entry of greatest confidence.\<close>

definition best_rule :: "result_obj list \<Rightarrow> rule_prediction list \<Rightarrow> rule_prediction" where
  "best_rule hist predictions =
     (let predictions =
            (if length predictions = 0
             then (if length hist \<ge> 2 \<and> resultType (hist ! 0) = resultType (hist ! 1)
                   then [\<lparr> rule_category = opposite (resultType (hist ! 0)),
                            rule_confidence = 65, rule_logic = 4 \<rparr>]
                   else [\<lparr> rule_category = opposite (resultType (hist ! 0)),
                            rule_confidence = 60, rule_logic = 12 \<rparr>])
             else predictions)
      in foldl (\<lambda>bestPrediction p.
                  if rule_confidence p > rule_confidence bestPrediction then p else bestPrediction)
               (predictions ! 0) (tl predictions))"

text \<open>
  \<open>enhancedTrendAnalysis(history, options = {})\<close>. For an array of at least three
  elements a TypeError is thrown exactly when an element is \<open>null\<close> or
  \<open>options\<close> is \<open>null\<close>: the statement
  \<open>history.slice(0, lookback).filter(r => r.resultType === "BIG")\<close> reads every
  element of a history of up to 30, \<open>neuralNetworkPrediction\<close> reads every element
  of a history of 8 or more, and \<open>options.consecutiveLosses\<close> is read on every
  path that reaches it.
\<close>

definition enhancedTrendAnalysis :: "int \<Rightarrow> js_history \<Rightarrow> predict_options \<Rightarrow> js_error + signal" where
  "enhancedTrendAnalysis now hist options =
     (case hist of
        NotArray \<Rightarrow>
          Inr \<lparr> prediction = ''BIG'', confidence = 60, logic = Some ''8'',
                patterns = Some [''fallback''], meta = None \<rparr>
      | Array es \<Rightarrow>
          if length es < 3
          then Inr \<lparr> prediction = ''BIG'', confidence = 60, logic = Some ''8'',
                     patterns = Some [''fallback''], meta = None \<rparr>
          else if NullEvent \<in> set es then Inl TypeError
          else (case options of
                  OptionsNull \<Rightarrow> Inl TypeError
                | Options cl lp \<Rightarrow>
                    (let fired = trend_rules now (objects es) cl lp;
                         bestPrediction = best_rule (objects es) (map snd fired)
                     in Inr \<lparr> prediction = rule_category bestPrediction,
                              confidence = rule_confidence bestPrediction,
                              logic = Some (show_nat (rule_logic bestPrediction)),
                              patterns = Some (map fst fired), meta = None \<rparr>)))"

text \<open>\<open>KBTModel.predict(history, options = {})\<close>: no \<open>try\<close>, no assignment to
  \<open>this\<close>.\<close>

definition KBTModel_predict :: "int \<Rightarrow> model \<Rightarrow> js_history \<Rightarrow> predict_options \<Rightarrow> js_error + signal option" where
  "KBTModel_predict now this hist options =
     (case enhancedTrendAnalysis now hist options of
        Inl err \<Rightarrow> Inl err
      | Inr result \<Rightarrow>
          Inr (Some (result\<lparr> meta := Some (model_id this, model_name this, weight this) \<rparr>)))"

section \<open>The FLONZA signal provider (ai\_models.js)\<close>

text \<open>What one of the four sub-models returns.\<close>

record sub_result =
  sub_prediction :: string
  sub_confidence :: real
  sub_patterns :: "string list"

text \<open>\<open>model1_patternAnalysis\<close>, for a non-empty history (it reads
  \<open>recent[0].resultType\<close>).\<close>

definition model1_patternAnalysis :: "result_obj list \<Rightarrow> sub_result" where
  "model1_patternAnalysis hist =
     (let recent = take 20 hist;
          bigCount = count_big recent;
          smallCount = length recent - bigCount;
          streak = leading_streak recent;
          current = resultType (recent ! 0);
          alt = list_all (\<lambda>i. resultType (recent ! i) \<noteq> resultType (recent ! (i - 1)))
                         [1..<min 6 (length recent)];
          bias = \<bar>real bigCount - real smallCount\<bar> / real (length recent)
      in if streak \<ge> 3
         then \<lparr> sub_prediction = opposite current,
                sub_confidence = min 90 (70 + real streak * 3),
                sub_patterns = [''Streak_'' @ show_nat streak] \<rparr>
         else if alt \<and> length recent \<ge> 4
         then \<lparr> sub_prediction = opposite (resultType (recent ! (length recent - 1))),
                sub_confidence = 82, sub_patterns = [''Alternating''] \<rparr>
         else if length recent \<ge> 4 \<and> resultType (recent ! 0) = resultType (recent ! 2) \<and>
                 resultType (recent ! 1) = resultType (recent ! 3)
         then \<lparr> sub_prediction = opposite (resultType (recent ! 1)),
                sub_confidence = 78, sub_patterns = [''Mirror''] \<rparr>
         else if bias > 0.3
         then \<lparr> sub_prediction = (if bigCount > smallCount then ''SMALL'' else ''BIG''),
                sub_confidence = 70 + bias * 30,
                sub_patterns = [''Bias_'' @ (if bigCount > smallCount then ''BIG'' else ''SMALL'')] \<rparr>
         else \<lparr> sub_prediction = ''BIG'', sub_confidence = 60,
                sub_patterns = [''No_clear_pattern''] \<rparr>)"

text \<open>
  \<open>model2_colorNumberAnalysis\<close>. \<open>freq[n]++\<close> counts a digit 0 to 9. For an
  integer \<open>n\<close> from 10 to \<open>2^32 - 2\<close> it stores NaN at index \<open>n\<close> of the array:
  \<open>Math.max(...freq)\<close> is then NaN, \<open>freq.indexOf(NaN)\<close> is \<open>-1\<close>, and the branch
  \<open>hotNumber < 5\<close> is taken. For any other number it sets a property that is not
  an index, which nothing reads. \<open>hotNumber\<close> is the first digit of greatest
  count, so the third \<open>return\<close> is never reached.
\<close>

definition is_index :: "real \<Rightarrow> bool" where
  "is_index x \<longleftrightarrow> 0 \<le> x \<and> x = real_of_int \<lfloor>x\<rfloor> \<and> x \<le> 4294967294"

definition model2_colorNumberAnalysis :: "result_obj list \<Rightarrow> sub_result" where
  "model2_colorNumberAnalysis hist =
     (let nums = concat (map (\<lambda>r. case number r of Some x \<Rightarrow> [x] | None \<Rightarrow> []) (take 30 hist));
          indices = filter is_index nums
      in if list_ex (\<lambda>x. 10 \<le> x) indices
         then \<lparr> sub_prediction = ''SMALL'', sub_confidence = 75, sub_patterns = [''Hot_SMALL_-1''] \<rparr>
         else
           (let freq = map (\<lambda>d. length (filter (\<lambda>x. x = real d) indices)) [0..<10];
                maxFreq = foldr max freq 0;
                hotNumber = length (takeWhile (\<lambda>f. f \<noteq> maxFreq) freq)
            in if hotNumber \<ge> 5
               then \<lparr> sub_prediction = ''BIG'', sub_confidence = 75,
                      sub_patterns = [''Hot_BIG_'' @ show_nat hotNumber] \<rparr>
               else \<lparr> sub_prediction = ''SMALL'', sub_confidence = 75,
                      sub_patterns = [''Hot_SMALL_'' @ show_nat hotNumber] \<rparr>))"

text \<open>\<open>model3_manipulationDetector\<close>, its \<open>isManipulated\<close>.\<close>

definition model3_manipulationDetector :: "int \<Rightarrow> result_obj list \<Rightarrow> bool" where
  "model3_manipulationDetector now hist =
     (let recent = take 50 hist;
          ivs = map (\<lambda>i. \<bar>real_of_int (time_of now (recent ! i) - time_of now (recent ! (i + 1)))\<bar>)
                    [0..<length recent - 1];
          avgInterval = (if length ivs \<noteq> 0 then sum_list ivs / real (length ivs) else 60000);
          stdDev = (if length ivs \<noteq> 0
                    then sqrt (sum_list (map (\<lambda>x. (x - avgInterval)\<^sup>2) ivs) / real (length ivs))
                    else 0)
      in stdDev > 8000 \<or> list_ex (\<lambda>iv. iv > 120000) ivs)"

text \<open>
  \<open>model4_hybridPredictor\<close>. Of the eight entries it gives \<open>combineSignals\<close>,
  \<open>trend\<close> and \<open>volatility\<close> are plain numbers and \<open>market\<close> and \<open>momentum\<close>
  objects without \<open>confidence\<close>, \<open>strength\<close> or \<open>prediction\<close>: each enters with
  confidence 0.5 on the SMALL side, whatever \<open>analyzeTrendStrength\<close>,
  \<open>calculateVolatility\<close> and \<open>calculateMomentum\<close> computed. \<open>recent\<close> is not
  empty where \<open>detectPatternStrength\<close> is called.
\<close>

definition model4_hybridPredictor :: "int \<Rightarrow> result_obj list \<Rightarrow> js_error + sub_result" where
  "model4_hybridPredictor now hist =
     (let recent = take 15 hist;
          extended = take 30 hist
      in if length recent = 0
         then Inr \<lparr> sub_prediction = ''BIG'', sub_confidence = 60, sub_patterns = [''no_data''] \<rparr>
         else
           (case detectPatternStrength recent of
              Inl err \<Rightarrow> Inl err
            | Inr patternStrength \<Rightarrow>
                (let shortTerm = analyzeWindow recent;
                     longTerm = analyzeWindow extended;
                     stabilityFactor = assessMarketStability now extended;
                     plain = \<lparr> ci_confidence = None, ci_strength = None, ci_prediction = None \<rparr>;
                     signals = combineSignals
                       [(''short'', \<lparr> ci_confidence = Some (window_confidence shortTerm), ci_strength = None,
                                      ci_prediction = Some (window_prediction shortTerm) \<rparr>),
                        (''long'', \<lparr> ci_confidence = Some (window_confidence longTerm), ci_strength = None,
                                     ci_prediction = Some (window_prediction longTerm) \<rparr>),
                        (''pattern'', \<lparr> ci_confidence = None, ci_strength = Some patternStrength,
                                        ci_prediction = None \<rparr>),
                        (''trend'', plain),
                        (''market'', plain),
                        (''momentum'', plain),
                        (''volatility'', plain),
                        (''cyclical'', \<lparr> ci_confidence = None,
                                         ci_strength = Some (detectCyclicalPatterns extended),
                                         ci_prediction = None \<rparr>)];
                     baseConf = min 92 (70 + snd signals * 25);
                     adjustedConf = baseConf * stabilityFactor
                 in Inr \<lparr> sub_prediction = fst signals,
                          sub_confidence = max 70 (min 92 adjustedConf),
                          sub_patterns = [''Neural_Trend''] \<rparr>)))"

text \<open>\<open>detectTrueRandomness\<close>: the runs test.\<close>

definition detectTrueRandomness :: "result_obj list \<Rightarrow> real" where
  "detectTrueRandomness hist =
     (let seq = map (\<lambda>r. if resultType r = ''BIG'' then (1::nat) else 0) (take 50 hist)
      in if length seq < 10 then 0.5
         else
           (let runs = 1 + length (filter (\<lambda>i. seq ! i \<noteq> seq ! (i - 1)) [1..<length seq]);
                n1 = real (length (filter (\<lambda>x. x = 1) seq));
                n2 = real (length seq) - n1;
                expectedRuns = (2 * n1 * n2) / (n1 + n2) + 1;
                variance = (if n1 \<noteq> 0 \<and> n2 \<noteq> 0
                            then (2 * n1 * n2 * (2 * n1 * n2 - n1 - n2)) /
                                 ((n1 + n2)\<^sup>2 * (n1 + n2 - 1))
                            else 1);
                z = (if variance > 0 then \<bar>real runs - expectedRuns\<bar> / sqrt variance else 0)
            in max 0 (1 - \<bar>z\<bar> / 3)))"

text \<open>The tag \<open>"\<dots> manipulation_risk"\<close>: the warning sign U+26A0 U+FE0F in
  UTF-8, a space, and the word.\<close>

definition manipulation_tag :: string where
  "manipulation_tag = map char_of [226, 154, 160, 239, 184, 143 :: nat] @ '' manipulation_risk''"

text \<open>
  The body of \<open>flonzaElitePredict\<close> after its guard, for at least ten objects.
  The sub-model \<open>anomaly\<close> has neither \<open>confidence\<close> (its weight is
  \<open>60 / 100\<close>) nor \<open>prediction\<close> (its weight is added to neither side). The
  property \<open>contributors\<close> of the result is read nowhere.
\<close>

definition flonza_vote :: "int \<Rightarrow> result_obj list \<Rightarrow> js_error + signal" where
  "flonza_vote now hist =
     (let pattern = model1_patternAnalysis hist;
          colorNumber = model2_colorNumberAnalysis hist;
          isManipulated = model3_manipulationDetector now hist
      in case model4_hybridPredictor now hist of
           Inl err \<Rightarrow> Inl err
         | Inr hybrid \<Rightarrow>
             (let voters = [pattern, colorNumber, hybrid];
                  weight_of = (\<lambda>r. js_or (sub_confidence r) 60 / 100);
                  totalWeight = weight_of pattern + weight_of colorNumber + 60 / 100 + weight_of hybrid;
                  weightedBIG = sum_list (map weight_of (filter (\<lambda>r. sub_prediction r = ''BIG'') voters));
                  weightedSMALL = sum_list (map weight_of (filter (\<lambda>r. sub_prediction r = ''SMALL'') voters));
                  finalPrediction = (if weightedBIG > weightedSMALL then ''BIG'' else ''SMALL'');
                  weightedFinal = (if weightedBIG > weightedSMALL then weightedBIG else weightedSMALL);
                  avgConfidence = min 90 (max 65 ((weightedFinal / totalWeight) * 100));
                  randomnessScore = detectTrueRandomness hist;
                  patternStrength = sub_confidence pattern / 100;
                  anomalyRisk = (if isManipulated then 0.5 else 1);
                  stabilityFactor = (patternStrength + (1 - randomnessScore) + anomalyRisk) / 3;
                  adjustedConfidence = real_of_int (Math_round (avgConfidence * stabilityFactor))
              in Inr \<lparr> prediction = finalPrediction,
                       confidence = max 65 adjustedConfidence,
                       logic = Some ''FLONZA_V4_ENHANCED'',
                       patterns = Some (filter (\<lambda>p. p \<noteq> [])
                         (sub_patterns pattern @ sub_patterns colorNumber @
                          (if isManipulated then [manipulation_tag] else []))),
                       meta = None \<rparr>))"

text \<open>
  \<open>flonzaElitePredict(history)\<close>. With ten or more elements a TypeError is
  thrown exactly when one of the first 50 is \<open>null\<close>: the loop of
  \<open>model3_manipulationDetector\<close> reads \<open>createTime\<close> of each of them, and no
  sub-model reads further.
\<close>

definition flonzaElitePredict :: "int \<Rightarrow> js_history \<Rightarrow> js_error + signal" where
  "flonzaElitePredict now hist =
     (case hist of
        NotArray \<Rightarrow>
          Inr \<lparr> prediction = ''BIG'', confidence = 55, logic = Some ''fallback'',
                patterns = Some [''insufficient_data''], meta = None \<rparr>
      | Array es \<Rightarrow>
          if length es < 10
          then Inr \<lparr> prediction = ''BIG'', confidence = 55, logic = Some ''fallback'',
                     patterns = Some [''insufficient_data''], meta = None \<rparr>
          else if NullEvent \<in> set (take 50 es) then Inl TypeError
          else flonza_vote now (objects (take 50 es)))"

text \<open>\<open>AIModel.predict(history, options = {})\<close>: the options are not read.\<close>

definition AIModel_predict :: "int \<Rightarrow> model \<Rightarrow> js_history \<Rightarrow> predict_options \<Rightarrow> js_error + signal option" where
  "AIModel_predict now this hist options =
     (case flonzaElitePredict now hist of
        Inl err \<Rightarrow> Inl err
      | Inr result \<Rightarrow>
          Inr (Some (result\<lparr> meta := Some (model_id this, model_name this, weight this) \<rparr>)))"

section \<open>The predict methods of the two classes\<close>

text \<open>\<open>m.predict(history, options)\<close> for a roster of \<open>KBTModel\<close> and \<open>AIModel\<close>
  instances, at the clock reading \<open>now\<close>.\<close>

definition model_predict :: "int \<Rightarrow> predict_method" where
  "model_predict now m hist options =
     (case cls m of
        KBTModel \<Rightarrow> KBTModel_predict now m hist options
      | AIModel \<Rightarrow> AIModel_predict now m hist options)"

text \<open>
  The calls a client makes on the manager, as steps on its state: \<open>predict\<close>
  assigns to no property of the manager or of a model, \<open>learn\<close> and
  \<open>learnMultiple\<close> replace the models they update.
\<close>

datatype manager_call =
    Predict js_history predict_options
  | Learn string bool real
  | LearnMultiple "contributor list" bool real

datatype manager_reply =
    Decision "js_error + decision"
  | Learned "(js_error + learn_result) option"
  | LearnedMultiple "learn_entry list option"

fun manager_step :: "int \<Rightarrow> manager \<Rightarrow> manager_call \<Rightarrow> manager \<times> manager_reply" where
  "manager_step now this (Predict hist options) =
     (this, Decision (ModelManager_predict (model_predict now) this hist options))"
| "manager_step now this (Learn chosenModelId wasWin consecutive_losses) =
     (let (this', res) = ModelManager_learn this chosenModelId wasWin consecutive_losses
      in (this', Learned res))"
| "manager_step now this (LearnMultiple contributions wasWin consecutive_losses) =
     (let (this', res) = learnMultiple this contributions wasWin consecutive_losses
      in (this', LearnedMultiple res))"

section \<open>Formulas in the words of the specification\<close>

text \<open>Section 4.2: reliability is \<open>clamp(weight * emaAccuracy * 2, 0, 1)\<close>.\<close>

definition reliability_spec :: "model \<Rightarrow> real" where
  "reliability_spec m = clamp (weight m * emaAccuracy m * 2) 0 1"

text \<open>
  Section 4.2: the enhanced confidence is the mean of the contributing
  confidences weighted by reliability, scaled by
  \<open>min(1.3, 1 + agreement * 0.2 + overlap * 0.1)\<close> and capped at 92.
\<close>

definition enhanced_confidence_spec :: "pred list \<Rightarrow> real" where
  "enhanced_confidence_spec preds =
     (let weighted_mean =
            (\<Sum>x\<leftarrow>preds. confidence (pred_p x) * reliability_spec (pred_model x)) /
            (\<Sum>x\<leftarrow>preds. reliability_spec (pred_model x));
          factor = min 1.3 (1 + agreement (calculateConsensusStrength preds) * 0.2 +
                              the (overlap_score (analyzePatternOverlap preds)) * 0.1)
      in min 92 (weighted_mean * factor))"

text \<open>Section 4.4: \<open>share = (weight * confidence) / totalScore\<close> with
  \<open>totalScore\<close> the sum of \<open>weight * confidence\<close> over all contributors.\<close>

definition share_spec :: "contributor list \<Rightarrow> contributor \<Rightarrow> real" where
  "share_spec contributions c =
     (c_weight c * c_confidence c) / (\<Sum>k\<leftarrow>contributions. c_weight k * c_confidence k)"

section \<open>Histories with and without time stamps\<close>

text \<open>Every object of the history carries a \<open>createTime\<close>, as the objects the
  server builds do (\<open>createTime: item.createTime || new Date().toISOString()\<close>).\<close>

definition stamped :: "result_obj list \<Rightarrow> bool" where
  "stamped rs = list_all (\<lambda>r. createTime r \<noteq> None) rs"

definition history_stamped :: "js_history \<Rightarrow> bool" where
  "history_stamped hist = (case hist of NotArray \<Rightarrow> True | Array es \<Rightarrow> stamped (objects es))"

text \<open>
  Twenty one-minute rounds, the newest first: ten BIG results (number 7) and
  before them ten SMALL results (number 2). Round \<open>i\<close> was created at
  \<open>1700000000000 - 60000 * i\<close> milliseconds; the newest object, round 0, has no
  \<open>createTime\<close>.
\<close>

definition unstamped_objects :: "result_obj list" where
  "unstamped_objects =
     map (\<lambda>i. \<lparr> resultType = (if i < 10 then ''BIG'' else ''SMALL''),
                  number = Some (if i < 10 then 7 else 2),
                  createTime = (if i = 0 then None else Some (1700000000000 - 60000 * int i)) \<rparr>)
         [0..<20]"

definition unstamped_history :: js_history where
  "unstamped_history = Array (map Event unstamped_objects)"

section \<open>The learning rule\<close>

lemma KBTModel_learn_steps:
  "KBTModel_learn m wasWin options =
     (case KBTModel_lr options of
        Inl e \<Rightarrow> (record_outcome m wasWin, Inl e)
      | Inr lr \<Rightarrow> (update_weight (record_outcome m wasWin) lr,
                    Inr (stats_of (update_weight (record_outcome m wasWin) lr))))"
  unfolding KBTModel_learn_def record_outcome_def update_ema_def count_outcome_def
    trim_history_def push_outcome_def update_weight_def stats_of_def Let_def
  by (rule refl)

lemma AIModel_learn_steps:
  "AIModel_learn m wasWin options =
     (case AIModel_lr options of
        Inl e \<Rightarrow> (record_outcome m wasWin, Inl e)
      | Inr lr \<Rightarrow> (update_weight (record_outcome m wasWin) lr,
                    Inr (stats_of (update_weight (record_outcome m wasWin) lr))))"
  unfolding AIModel_learn_def record_outcome_def update_ema_def count_outcome_def
    trim_history_def push_outcome_def update_weight_def stats_of_def Let_def
  by (rule refl)

lemma record_outcome_fields:
  "cls (record_outcome m wasWin) = cls m"
  "model_id (record_outcome m wasWin) = model_id m"
  "model_name (record_outcome m wasWin) = model_name m"
  "weight (record_outcome m wasWin) = weight m"
  "lookback (record_outcome m wasWin) = lookback m"
  "emaAlpha (record_outcome m wasWin) = emaAlpha m"
  "minWeight (record_outcome m wasWin) = minWeight m"
  "maxWeight (record_outcome m wasWin) = maxWeight m"
  "decay (record_outcome m wasWin) = decay m"
  by (simp_all add: record_outcome_def update_ema_def count_outcome_def trim_history_def push_outcome_def)

lemma record_outcome_counters:
  "wins (record_outcome m wasWin) = (if wasWin then wins m + 1 else wins m)"
  "losses (record_outcome m wasWin) = (if wasWin then losses m else losses m + 1)"
  "history (record_outcome m wasWin) =
     (if length (history m @ [if wasWin then 1 else 0]) > lookback m
      then tl (history m @ [if wasWin then 1 else 0]) else history m @ [if wasWin then 1 else 0])"
  by (simp_all add: record_outcome_def update_ema_def count_outcome_def trim_history_def push_outcome_def)

lemma record_outcome_ema:
  "emaAccuracy (record_outcome m wasWin) =
     emaAccuracy m * (1 - emaAlpha m) +
     real (if wasWin then wins m + 1 else wins m) / real (wins m + losses m + 1) * emaAlpha m"
  by (simp add: record_outcome_def update_ema_def count_outcome_def trim_history_def push_outcome_def add_ac)

lemma update_weight_fields:
  "cls (update_weight m lr) = cls m"
  "model_id (update_weight m lr) = model_id m"
  "model_name (update_weight m lr) = model_name m"
  "history (update_weight m lr) = history m"
  "wins (update_weight m lr) = wins m"
  "losses (update_weight m lr) = losses m"
  "lookback (update_weight m lr) = lookback m"
  "emaAccuracy (update_weight m lr) = emaAccuracy m"
  "emaAlpha (update_weight m lr) = emaAlpha m"
  "minWeight (update_weight m lr) = minWeight m"
  "maxWeight (update_weight m lr) = maxWeight m"
  "decay (update_weight m lr) = decay m"
  by (simp_all add: update_weight_def)

lemma update_weight_bounds:
  assumes "minWeight m \<le> maxWeight m"
  shows "minWeight m \<le> weight (update_weight m lr)" "weight (update_weight m lr) \<le> maxWeight m"
  using assms by (simp_all add: update_weight_def max_def min_def)

lemma default_configD:
  assumes "default_config m"
  shows "lookback m = 200" "emaAlpha m = 0.05" "minWeight m = 0.2" "maxWeight m = 3.0" "decay m = 0.999"
  using assms unfolding default_config_def by blast+

lemma clamp_max_min: "lo \<le> hi \<Longrightarrow> max lo (min hi x) = clamp x lo hi"
  by (simp add: clamp_def max_def min_def)

lemma learn_spec_fields:
  "cls (learn_spec m wasWin lr) = cls m"
  "model_id (learn_spec m wasWin lr) = model_id m"
  "model_name (learn_spec m wasWin lr) = model_name m"
  "lookback (learn_spec m wasWin lr) = lookback m"
  "emaAlpha (learn_spec m wasWin lr) = emaAlpha m"
  "minWeight (learn_spec m wasWin lr) = minWeight m"
  "maxWeight (learn_spec m wasWin lr) = maxWeight m"
  "decay (learn_spec m wasWin lr) = decay m"
  "model.more (learn_spec m wasWin lr) = model.more m"
  by (simp_all add: learn_spec_def Let_def)

lemma learn_spec_state:
  "history (learn_spec m wasWin lr) =
     (if length (history m @ [if wasWin then 1 else 0]) > 200
      then tl (history m @ [if wasWin then 1 else 0]) else history m @ [if wasWin then 1 else 0])"
  "wins (learn_spec m wasWin lr) = (if wasWin then wins m + 1 else wins m)"
  "losses (learn_spec m wasWin lr) = (if wasWin then losses m else losses m + 1)"
  "emaAccuracy (learn_spec m wasWin lr) =
     emaAccuracy m * (1 - 0.05) +
     real (if wasWin then wins m + 1 else wins m) / real (wins m + losses m + 1) * 0.05"
  by (simp_all add: learn_spec_def Let_def add_ac)

lemma learn_spec_weight:
  "weight (learn_spec m wasWin lr) =
     clamp (weight m * 0.999 powr lr + (1 + (emaAccuracy (learn_spec m wasWin lr) - 0.5) * 0.5) * lr) 0.2 3.0"
  by (simp add: learn_spec_def Let_def)

lemma update_weight_weight:
  "weight (update_weight m lr) = max (minWeight m) (min (maxWeight m)
      (weight m * Math_pow (decay m) lr + (1 + (emaAccuracy m - 0.5) * 0.5) * lr))"
  by (simp add: update_weight_def)

lemma steps_eq_learn_spec:
  assumes "default_config m"
  shows "update_weight (record_outcome m wasWin) lr = learn_spec m wasWin lr"
proof (rule model.equality)
  note cfg = default_configD[OF assms]
  have ema: "emaAccuracy (record_outcome m wasWin) = emaAccuracy (learn_spec m wasWin lr)"
    unfolding record_outcome_ema learn_spec_state cfg by (rule refl)
  show "emaAccuracy (update_weight (record_outcome m wasWin) lr) = emaAccuracy (learn_spec m wasWin lr)"
    unfolding update_weight_fields by (rule ema)
  have c: "max 0.2 (min 3.0 x) = clamp x 0.2 3.0" for x :: real
    by (rule clamp_max_min) simp
  show "weight (update_weight (record_outcome m wasWin) lr) = weight (learn_spec m wasWin lr)"
    unfolding update_weight_weight record_outcome_fields cfg Math_pow_def c ema
    by (rule learn_spec_weight[symmetric])
  show "history (update_weight (record_outcome m wasWin) lr) = history (learn_spec m wasWin lr)"
    unfolding update_weight_fields record_outcome_counters learn_spec_state cfg by (rule refl)
qed (simp_all add: update_weight_fields record_outcome_fields record_outcome_counters
      learn_spec_fields learn_spec_state record_outcome_def update_ema_def count_outcome_def
      trim_history_def push_outcome_def update_weight_def)

lemma lr_Object:
  assumes "0.1 \<le> lr"
  shows "KBTModel_lr (Object (LrNumber lr)) = Inr lr" "AIModel_lr (Object (LrNumber lr)) = Inr lr"
  using assms by (simp_all add: KBTModel_lr_def AIModel_lr_def max_absorb2)

text \<open>
  Claim C1. For every call \<open>learn(wasWin, {lr})\<close> with \<open>lr \<ge> 0.1\<close> on a model with
  the constructor's constants, of either class, the new state and the returned
  record are those of the specification's update order: the outcome is appended
  and the oldest dropped beyond 200, \<open>wins\<close> or \<open>losses\<close> is incremented,
  \<open>instantAccuracy = wins / (wins + losses)\<close>, the EMA is updated with
  \<open>emaAlpha = 0.05\<close>, and the weight is
  \<open>clamp(weight * 0.999^lr + (1 + (emaAccuracy - 0.5) * 0.5) * lr, 0.2, 3.0)\<close> with the
  fresh EMA.
\<close>

theorem learn_follows_spec_order:
  assumes "default_config m" "0.1 \<le> lr"
  shows "model_learn m wasWin (Object (LrNumber lr)) =
           (learn_spec m wasWin lr, Inr (stats_of (learn_spec m wasWin lr)))"
  unfolding model_learn_def KBTModel_learn_steps AIModel_learn_steps lr_Object[OF assms(2)]
    steps_eq_learn_spec[OF assms(1)]
  by (cases "cls m") simp_all

theorem learn_follows_spec_order_witness:
  "default_config (KBTModel_new ''KBT'') \<and> (0.1::real) \<le> 1 \<and>
   model_learn (KBTModel_new ''KBT'') True (Object (LrNumber 1)) =
     (learn_spec (KBTModel_new ''KBT'') True 1, Inr (stats_of (learn_spec (KBTModel_new ''KBT'') True 1))) \<and>
   wins (learn_spec (KBTModel_new ''KBT'') True 1) = 1 \<and>
   emaAccuracy (learn_spec (KBTModel_new ''KBT'') True 1) = 0.525 \<and>
   weight (learn_spec (KBTModel_new ''KBT'') True 1) = 0.999 + 1.0125"
proof -
  have d: "default_config (KBTModel_new ''KBT'')"
    by (simp add: default_config_def KBTModel_new_def)
  have l: "(0.1::real) \<le> 1" by simp
  have e: "emaAccuracy (learn_spec (KBTModel_new ''KBT'') True 1) = 0.525"
    unfolding learn_spec_state by (simp add: KBTModel_new_def)
  have w: "weight (learn_spec (KBTModel_new ''KBT'') True 1) = 0.999 + 1.0125"
    unfolding learn_spec_weight e by (simp add: KBTModel_new_def clamp_def)
  have n: "wins (learn_spec (KBTModel_new ''KBT'') True 1) = 1"
    unfolding learn_spec_state by (simp add: KBTModel_new_def)
  show ?thesis
    using learn_follows_spec_order[OF d l, of True] d l e w n by blast
qed

text \<open>
  Claim C10. Given the same prior state and the same arguments \<open>(wasWin, {lr})\<close>
  with \<open>lr\<close> a number, \<open>KBTModel.learn\<close> and \<open>AIModel.learn\<close> produce the same
  successor state and return the same record.
\<close>

theorem KBTModel_learn_eq_AIModel_learn:
  "KBTModel_learn m wasWin (Object (LrNumber lr)) = AIModel_learn m wasWin (Object (LrNumber lr))"
  unfolding KBTModel_learn_steps AIModel_learn_steps KBTModel_lr_def AIModel_lr_def
  by simp

theorem KBTModel_learn_eq_AIModel_learn_witness:
  "KBTModel_learn (KBTModel_new ''KBT'') False (Object (LrNumber 2.2)) =
   AIModel_learn (KBTModel_new ''KBT'') False (Object (LrNumber 2.2))"
  by (rule KBTModel_learn_eq_AIModel_learn)

lemma learn_differs_on_function_objects:
  "KBTModel_lr (FunctionObj (LrNumber 2)) = Inr 2 \<and> AIModel_lr (FunctionObj (LrNumber 2)) = Inr 1"
  by (simp add: KBTModel_lr_def AIModel_lr_def)

lemma record_outcome_weight_ok: "weight_ok m \<Longrightarrow> weight_ok (record_outcome m wasWin)"
  by (simp add: weight_ok_def record_outcome_fields)

lemma update_weight_weight_ok: "minWeight m \<le> maxWeight m \<Longrightarrow> weight_ok (update_weight m lr)"
  by (simp add: weight_ok_def update_weight_bounds update_weight_fields)

lemma KBTModel_learn_weight_ok:
  assumes "weight_ok m"
  shows "weight_ok (fst (KBTModel_learn m wasWin options))"
proof (cases "KBTModel_lr options")
  case (Inl e)
  then show ?thesis
    by (simp add: KBTModel_learn_steps record_outcome_weight_ok[OF assms])
next
  case (Inr lr)
  have "minWeight (record_outcome m wasWin) \<le> maxWeight (record_outcome m wasWin)"
    using assms by (simp add: weight_ok_def record_outcome_fields)
  then show ?thesis
    by (simp add: KBTModel_learn_steps Inr update_weight_weight_ok)
qed

lemma AIModel_learn_weight_ok:
  assumes "weight_ok m"
  shows "weight_ok (fst (AIModel_learn m wasWin options))"
proof (cases "AIModel_lr options")
  case (Inl e)
  then show ?thesis
    by (simp add: AIModel_learn_steps record_outcome_weight_ok[OF assms])
next
  case (Inr lr)
  have "minWeight (record_outcome m wasWin) \<le> maxWeight (record_outcome m wasWin)"
    using assms by (simp add: weight_ok_def record_outcome_fields)
  then show ?thesis
    by (simp add: AIModel_learn_steps Inr update_weight_weight_ok)
qed

lemma KBTModel_learn_limits:
  "minWeight (fst (KBTModel_learn m wasWin options)) = minWeight m \<and>
   maxWeight (fst (KBTModel_learn m wasWin options)) = maxWeight m"
  by (cases "KBTModel_lr options")
     (simp_all add: KBTModel_learn_steps update_weight_fields record_outcome_fields)

lemma AIModel_learn_limits:
  "minWeight (fst (AIModel_learn m wasWin options)) = minWeight m \<and>
   maxWeight (fst (AIModel_learn m wasWin options)) = maxWeight m"
  by (cases "AIModel_lr options")
     (simp_all add: AIModel_learn_steps update_weight_fields record_outcome_fields)

lemma model_learn_weight_ok: "weight_ok m \<Longrightarrow> weight_ok (fst (model_learn m wasWin options))"
  unfolding model_learn_def
  by (cases "cls m") (simp_all add: KBTModel_learn_weight_ok AIModel_learn_weight_ok)

lemma model_learn_limits:
  "minWeight (fst (model_learn m wasWin options)) = minWeight m \<and>
   maxWeight (fst (model_learn m wasWin options)) = maxWeight m"
  unfolding model_learn_def
  by (cases "cls m") (simp_all add: KBTModel_learn_limits AIModel_learn_limits)

lemma learn_calls_invariant:
  "weight_ok m \<Longrightarrow>
     weight_ok (learn_calls m cs) \<and> minWeight (learn_calls m cs) = minWeight m \<and>
     maxWeight (learn_calls m cs) = maxWeight m"
proof (induction cs arbitrary: m)
  case Nil
  then show ?case by simp
next
  case (Cons c cs)
  obtain w opt where c: "c = (w, opt)" by (cases c)
  show ?case
    using Cons.IH[OF model_learn_weight_ok[OF Cons.prems, of w opt]]
    by (simp add: c model_learn_limits)
qed

lemma new_weight_ok: "weight_ok (KBTModel_new i)" "weight_ok (AIModel_new i)"
  by (simp_all add: weight_ok_def KBTModel_new_def AIModel_new_def)

text \<open>
  Claim C3. Starting from the constructor's state, after each call of any finite
  sequence of \<open>learn\<close> calls (any second argument, any \<open>lr\<close>) the weight of a
  model of either class lies in \<open>[0.2, 3.0]\<close>.
\<close>

theorem weight_bounded_after_each_learn:
  "0.2 \<le> weight (learn_calls (KBTModel_new i) (take n cs)) \<and>
   weight (learn_calls (KBTModel_new i) (take n cs)) \<le> 3.0 \<and>
   0.2 \<le> weight (learn_calls (AIModel_new i) (take n cs)) \<and>
   weight (learn_calls (AIModel_new i) (take n cs)) \<le> 3.0"
proof -
  have k: "minWeight (KBTModel_new i) = 0.2" "maxWeight (KBTModel_new i) = 3.0"
    by (simp_all add: KBTModel_new_def)
  have a: "minWeight (AIModel_new i) = 0.2" "maxWeight (AIModel_new i) = 3.0"
    by (simp_all add: AIModel_new_def)
  from learn_calls_invariant[OF new_weight_ok(1), of i "take n cs"]
       learn_calls_invariant[OF new_weight_ok(2), of i "take n cs"]
  show ?thesis unfolding weight_ok_def k a by simp
qed

theorem weight_bounded_after_each_learn_witness:
  "0.2 \<le> weight (learn_calls (KBTModel_new ''KBT'') (take 2 [(True, Object (LrNumber 4)), (False, Null), (True, Undefined)])) \<and>
   weight (learn_calls (KBTModel_new ''KBT'') (take 2 [(True, Object (LrNumber 4)), (False, Null), (True, Undefined)])) \<le> 3.0"
  using weight_bounded_after_each_learn[of "''KBT''" 2 "[(True, Object (LrNumber 4)), (False, Null), (True, Undefined)]"]
  by blast

section \<open>The decision of the manager\<close>

lemma length_sorted_preds [simp]:
  "length (sorted_preds run this hist options) = length (models this)"
  by (simp add: sorted_preds_def)

lemma enforce_minConfidence_eq:
  "enforce_minConfidence this final =
     final\<lparr> final_confidence := max (minConfidence this) (final_confidence final) \<rparr>"
  by (simp add: enforce_minConfidence_def max_def)

lemma no_models_floor: "minConfidence this \<le> final_confidence (no_models_final this)"
  by (simp add: no_models_final_def js_or_def)

lemma predict_no_models:
  "length (models this) = 0 \<Longrightarrow> ModelManager_predict run this hist options = Inr (no_models_final this)"
  by (simp add: ModelManager_predict_def)

lemma predict_single:
  "length (models this) = 1 \<Longrightarrow>
     ModelManager_predict run this hist options =
       Inr (single_final this (sorted_preds run this hist options))"
  by (simp add: ModelManager_predict_def Let_def)

lemma predict_multi:
  assumes "length (models this) \<ge> 2"
  shows "ModelManager_predict run this hist options =
     (case multi_final (sorted_preds run this hist options) hist of
        Inl err \<Rightarrow> Inl err
      | Inr final \<Rightarrow> Inr (enforce_minConfidence this final))"
proof -
  have "length (models this) \<noteq> 0" using assms by linarith
  then show ?thesis using assms by (simp add: ModelManager_predict_def Let_def)
qed

lemma multi_final_total:
  assumes "NullEvent \<notin> set (take 20 (case hist of Array es \<Rightarrow> es | NotArray \<Rightarrow> []))"
  shows "\<exists>final. multi_final preds hist = Inr final"
proof -
  obtain bias where "recent_bias hist = Inr bias"
    using assms by (simp add: recent_bias_def Let_def)
  then show ?thesis
    by (simp add: multi_final_def low_consensus_final_def Let_def)
qed

text \<open>
  Claim C2. For every history, every options value and every roster (empty, one
  model, several models), a decision returned by \<open>ModelManager.predict\<close> has
  confidence at least \<open>minConfidence\<close>: with several models it is the computed
  object with its confidence replaced by the larger of the two, with one model
  the larger of \<open>minConfidence\<close> and the signal's confidence, and with none
  \<open>max(50, minConfidence || 50)\<close>. A decision is returned whenever none of the
  first 20 history elements is \<open>null\<close>.
\<close>

theorem predict_confidence_floor:
  "(\<forall>d. ModelManager_predict run this hist options = Inr d \<longrightarrow>
      minConfidence this \<le> final_confidence d \<and>
      (length (models this) \<ge> 2 \<longrightarrow>
         (\<exists>final. multi_final (sorted_preds run this hist options) hist = Inr final \<and>
            d = final\<lparr> final_confidence := max (minConfidence this) (final_confidence final) \<rparr>)) \<and>
      (length (models this) = 1 \<longrightarrow>
         final_confidence d =
           max (minConfidence this) (confidence (pred_p (sorted_preds run this hist options ! 0)))) \<and>
      (length (models this) = 0 \<longrightarrow> final_confidence d = max 50 (js_or (minConfidence this) 50))) \<and>
   (NullEvent \<notin> set (take 20 (case hist of Array es \<Rightarrow> es | NotArray \<Rightarrow> [])) \<longrightarrow>
      (\<exists>d. ModelManager_predict run this hist options = Inr d))"
proof (intro conjI allI impI)
  fix d assume d: "ModelManager_predict run this hist options = Inr d"
  consider (zero) "length (models this) = 0" | (one) "length (models this) = 1"
    | (many) "length (models this) \<ge> 2" by linarith
  then show "minConfidence this \<le> final_confidence d"
  proof cases
    case zero
    with d have "d = no_models_final this" by (simp add: predict_no_models)
    then show ?thesis by (simp add: no_models_floor)
  next
    case one
    with d have "d = single_final this (sorted_preds run this hist options)"
      by (simp add: predict_single)
    then show ?thesis by (simp add: single_final_def Let_def)
  next
    case many
    from d show ?thesis unfolding predict_multi[OF many]
      by (auto simp add: enforce_minConfidence_eq split: sum.splits)
  qed
  {
    assume many: "length (models this) \<ge> 2"
    from d show "\<exists>final. multi_final (sorted_preds run this hist options) hist = Inr final \<and>
            d = final\<lparr> final_confidence := max (minConfidence this) (final_confidence final) \<rparr>"
      unfolding predict_multi[OF many]
      by (auto simp add: enforce_minConfidence_eq split: sum.splits)
  }
  {
    assume "length (models this) = 1"
    with d have "d = single_final this (sorted_preds run this hist options)"
      by (simp add: predict_single)
    then show "final_confidence d =
           max (minConfidence this) (confidence (pred_p (sorted_preds run this hist options ! 0)))"
      by (simp add: single_final_def Let_def)
  }
  {
    assume "length (models this) = 0"
    with d have "d = no_models_final this" by (simp add: predict_no_models)
    then show "final_confidence d = max 50 (js_or (minConfidence this) 50)"
      by (simp add: no_models_final_def)
  }
next
  assume "NullEvent \<notin> set (take 20 (case hist of Array es \<Rightarrow> es | NotArray \<Rightarrow> []))"
  from multi_final_total[OF this] obtain final
    where f: "multi_final (sorted_preds run this hist options) hist = Inr final" by blast
  consider (zero) "length (models this) = 0" | (one) "length (models this) = 1"
    | (many) "length (models this) \<ge> 2" by linarith
  then show "\<exists>d. ModelManager_predict run this hist options = Inr d"
  proof cases
    case zero then show ?thesis by (simp add: predict_no_models)
  next
    case one then show ?thesis by (simp add: predict_single)
  next
    case many then show ?thesis by (simp add: predict_multi f)
  qed
qed

lemma make_pred_stub:
  "make_pred (stub_predict f) hist options m =
     \<lparr> pred_model = m, pred_p = f (model_id m),
       pred_score = js_or (confidence (f (model_id m))) 50 * js_or (weight m) 1 \<rparr>"
  by (simp add: make_pred_def stub_predict_def Let_def)

lemma low_consensus_fallback:
  assumes "pred_score (preds ! 0) - pred_score (preds ! 1) < 15" "recent_bias hist = Inr bias"
  shows "bias > 0.6 \<Longrightarrow>
           low_consensus_final preds hist = Inr (fallback_final ''BIG'' (confidence (pred_p (preds ! 0))))"
    and "\<not> bias > 0.6 \<Longrightarrow> bias < 0.4 \<Longrightarrow>
           low_consensus_final preds hist = Inr (fallback_final ''SMALL'' (confidence (pred_p (preds ! 0))))"
    and "\<not> bias > 0.6 \<Longrightarrow> \<not> bias < 0.4 \<Longrightarrow>
           low_consensus_final preds hist =
             Inr (top_final preds (max 50 (of_int (Math_round (confidence (pred_p (preds ! 0)) - 12)))))"
  using assms by (simp_all add: low_consensus_final_def Let_def)

text \<open>
  Claim C4. (as amended) With at least two models, when the consensus branch is not
  taken, the gap of the two top scores is below 15 and the share \<open>bias\<close> of BIG
  among the first 20 events exceeds 0.6, the decision has category BIG and
  confidence \<open>max(minConfidence, max(55, round(topConfidence - 10)))\<close>; when
  \<open>bias\<close> is below 0.4 the category is SMALL, with the same confidence.
\<close>

theorem fallback_bias_decision:
  assumes "length (models this) \<ge> 2"
    and "\<not> consensus_path (sorted_preds run this hist options)"
    and "pred_score (sorted_preds run this hist options ! 0) -
         pred_score (sorted_preds run this hist options ! 1) < 15"
    and "recent_bias hist = Inr bias"
  shows "(bias > 0.6 \<longrightarrow>
            (\<exists>d. ModelManager_predict run this hist options = Inr d \<and>
                 final_prediction d = ''BIG'' \<and>
                 final_confidence d =
                   max (minConfidence this)
                     (max 55 (of_int (Math_round (confidence (pred_p (sorted_preds run this hist options ! 0)) - 10)))))) \<and>
         (bias < 0.4 \<longrightarrow>
            (\<exists>d. ModelManager_predict run this hist options = Inr d \<and>
                 final_prediction d = ''SMALL'' \<and>
                 final_confidence d =
                   max (minConfidence this)
                     (max 55 (of_int (Math_round (confidence (pred_p (sorted_preds run this hist options ! 0)) - 10))))))"
proof (intro conjI impI)
  assume b: "bias > 0.6"
  show "\<exists>d. ModelManager_predict run this hist options = Inr d \<and>
                 final_prediction d = ''BIG'' \<and>
                 final_confidence d =
                   max (minConfidence this)
                     (max 55 (of_int (Math_round (confidence (pred_p (sorted_preds run this hist options ! 0)) - 10))))"
    unfolding predict_multi[OF assms(1)] multi_final_def
    using assms(2) low_consensus_fallback(1)[OF assms(3,4) b]
    by (simp add: enforce_minConfidence_eq fallback_final_def)
next
  assume b: "bias < 0.4"
  then have nb: "\<not> bias > 0.6" by simp
  show "\<exists>d. ModelManager_predict run this hist options = Inr d \<and>
                 final_prediction d = ''SMALL'' \<and>
                 final_confidence d =
                   max (minConfidence this)
                     (max 55 (of_int (Math_round (confidence (pred_p (sorted_preds run this hist options ! 0)) - 10))))"
    unfolding predict_multi[OF assms(1)] multi_final_def
    using assms(2) low_consensus_fallback(2)[OF assms(3,4) nb b]
    by (simp add: enforce_minConfidence_eq fallback_final_def)
qed

text \<open>Evaluation of the example: the default roster with the split signals.\<close>

lemma sorted_preds_split:
  "sorted_preds (stub_predict split_signals) ModelManager_new hist options =
     [\<lparr> pred_model = KBTModel_new ''KBT'', pred_p = signal_of ''BIG'' 70 [''Streak of 3''], pred_score = 70 \<rparr>,
      \<lparr> pred_model = AIModel_new ''AI_FLONZA'', pred_p = signal_of ''SMALL'' 70 [''Alternating''], pred_score = 70 \<rparr>]"
  by (simp add: sorted_preds_def ModelManager_new_def make_pred_stub split_signals_def
      KBTModel_new_def AIModel_new_def signal_of_def js_or_def)

lemma recent_bias_14_6: "recent_bias history_14_big_6_small = Inr 0.7"
  by (simp add: recent_bias_def history_14_big_6_small_def Let_def)

lemma not_consensus_split:
  "\<not> consensus_path (sorted_preds (stub_predict split_signals) ModelManager_new hist options)"
  by (simp add: sorted_preds_split consensus_path_def calculateConsensusStrength_def Let_def signal_of_def)

lemma predict_split_14_6:
  "ModelManager_predict (stub_predict split_signals) ModelManager_new history_14_big_6_small options =
     Inr ((fallback_final ''BIG'' 70)\<lparr> final_confidence := 65 \<rparr>)"
proof -
  have m: "length (models ModelManager_new) \<ge> 2" by (simp add: ModelManager_new_def)
  have g: "pred_score (sorted_preds (stub_predict split_signals) ModelManager_new history_14_big_6_small options ! 0) -
           pred_score (sorted_preds (stub_predict split_signals) ModelManager_new history_14_big_6_small options ! 1) < 15"
    by (simp add: sorted_preds_split)
  have b: "(0.7::real) > 0.6" by simp
  have c: "confidence (pred_p (sorted_preds (stub_predict split_signals) ModelManager_new history_14_big_6_small options ! 0)) = 70"
    by (simp add: sorted_preds_split signal_of_def)
  have mc: "minConfidence ModelManager_new = 65" by (simp add: ModelManager_new_def)
  show ?thesis
    unfolding predict_multi[OF m] multi_final_def
    using not_consensus_split low_consensus_fallback(1)[OF g recent_bias_14_6 b]
    by (simp add: c mc enforce_minConfidence_eq fallback_final_def Math_round_def)
qed

theorem fallback_bias_decision_witness:
  "length (models ModelManager_new) \<ge> 2 \<and>
   \<not> consensus_path (sorted_preds (stub_predict split_signals) ModelManager_new history_14_big_6_small (Options 0 None)) \<and>
   pred_score (sorted_preds (stub_predict split_signals) ModelManager_new history_14_big_6_small (Options 0 None) ! 0) -
     pred_score (sorted_preds (stub_predict split_signals) ModelManager_new history_14_big_6_small (Options 0 None) ! 1) < 15 \<and>
   recent_bias history_14_big_6_small = Inr 0.7 \<and> (0.7::real) > 0.6 \<and>
   (\<exists>d. ModelManager_predict (stub_predict split_signals) ModelManager_new history_14_big_6_small (Options 0 None) = Inr d \<and>
        final_prediction d = ''BIG'' \<and> final_confidence d = 65)"
proof -
  have m: "length (models ModelManager_new) \<ge> 2" by (simp add: ModelManager_new_def)
  have g: "pred_score (sorted_preds (stub_predict split_signals) ModelManager_new history_14_big_6_small (Options 0 None) ! 0) -
           pred_score (sorted_preds (stub_predict split_signals) ModelManager_new history_14_big_6_small (Options 0 None) ! 1) < 15"
    by (simp add: sorted_preds_split)
  have b: "(0.7::real) > 0.6" by simp
  have c: "confidence (pred_p (sorted_preds (stub_predict split_signals) ModelManager_new history_14_big_6_small (Options 0 None) ! 0)) = 70"
    by (simp add: sorted_preds_split signal_of_def)
  have v: "max (minConfidence ModelManager_new) (max 55 (real_of_int (Math_round (70 - 10)))) = 65"
    by (simp add: ModelManager_new_def Math_round_def)
  from fallback_bias_decision[OF m not_consensus_split g recent_bias_14_6] b
  have "\<exists>d. ModelManager_predict (stub_predict split_signals) ModelManager_new history_14_big_6_small (Options 0 None) = Inr d \<and>
        final_prediction d = ''BIG'' \<and> final_confidence d = 65"
    unfolding c v by blast
  with m not_consensus_split g recent_bias_14_6 b show ?thesis by blast
qed

theorem fallback_confidence_counterexample:
  "2 \<le> length (models ModelManager_new) \<and>
   pred_score (sorted_preds (stub_predict split_signals) ModelManager_new history_14_big_6_small (Options 0 None) ! 0) -
     pred_score (sorted_preds (stub_predict split_signals) ModelManager_new history_14_big_6_small (Options 0 None) ! 1) < 15 \<and>
   recent_bias history_14_big_6_small = Inr 0.7 \<and>
   max 55 (real_of_int (Math_round (confidence (pred_p
     (sorted_preds (stub_predict split_signals) ModelManager_new history_14_big_6_small (Options 0 None) ! 0)) - 10))) = 60 \<and>
   map_sum id final_prediction
     (ModelManager_predict (stub_predict split_signals) ModelManager_new history_14_big_6_small (Options 0 None)) = Inr ''BIG'' \<and>
   map_sum id final_confidence
     (ModelManager_predict (stub_predict split_signals) ModelManager_new history_14_big_6_small (Options 0 None)) = Inr 65"
proof -
  have m: "2 \<le> length (models ModelManager_new)" by (simp add: ModelManager_new_def)
  show ?thesis
    unfolding predict_split_14_6 recent_bias_14_6 sorted_preds_split
    using m by (simp add: signal_of_def fallback_final_def Math_round_def)
qed

text \<open>The single-predictor scenario of the specification.\<close>

theorem predict_confidence_floor_witness:
  "NullEvent \<notin> set (take 20 (case Array [] of Array es \<Rightarrow> es | NotArray \<Rightarrow> [])) \<and>
   (\<exists>d. ModelManager_predict (stub_predict (\<lambda>i. signal_of ''SMALL'' 55 []))
           (ModelManager_new\<lparr> models := [KBTModel_new ''KBT''] \<rparr>) (Array []) (Options 0 None) = Inr d \<and>
        minConfidence (ModelManager_new\<lparr> models := [KBTModel_new ''KBT''] \<rparr>) \<le> final_confidence d \<and>
        final_confidence d = 65)"
proof -
  let ?run = "stub_predict (\<lambda>i. signal_of ''SMALL'' 55 [])"
  let ?mgr = "ModelManager_new\<lparr> models := [KBTModel_new ''KBT''] \<rparr>"
  have n: "NullEvent \<notin> set (take 20 (case Array [] of Array es \<Rightarrow> es | NotArray \<Rightarrow> []))" by simp
  have l: "length (models ?mgr) = 1" by simp
  have c: "confidence (pred_p (sorted_preds ?run ?mgr (Array []) (Options 0 None) ! 0)) = 55"
    by (simp add: sorted_preds_def make_pred_stub signal_of_def)
  have mc: "minConfidence ?mgr = 65" by (simp add: ModelManager_new_def)
  note t = predict_confidence_floor[of ?run ?mgr "Array []" "Options 0 None"]
  from t n obtain d where d: "ModelManager_predict ?run ?mgr (Array []) (Options 0 None) = Inr d"
    by blast
  with t l have "minConfidence ?mgr \<le> final_confidence d"
    and "final_confidence d = max (minConfidence ?mgr) (confidence (pred_p (sorted_preds ?run ?mgr (Array []) (Options 0 None) ! 0)))"
    by blast+
  then have "minConfidence ?mgr \<le> final_confidence d \<and> final_confidence d = 65"
    unfolding c mc by simp
  with d n show ?thesis by blast
qed

section \<open>The consensus branch\<close>

lemma foldl_add_sum_list:
  "foldl (\<lambda>acc x. acc + f x) a xs = a + (\<Sum>x\<leftarrow>xs. (f x :: real))"
  by (induction xs arbitrary: a) simp_all

lemma assessModelReliability_snoc:
  "assessModelReliability (xs @ [x]) =
     (assessModelReliability xs)(model_id (pred_model x) \<mapsto>
        min 1 (js_or (weight (pred_model x)) 0.5 * js_or (emaAccuracy (pred_model x)) 0.5 * 2))"
  by (simp add: assessModelReliability_def)

lemma assessModelReliability_defined:
  "x \<in> set preds \<Longrightarrow> assessModelReliability preds (model_id (pred_model x)) \<noteq> None"
proof (induction preds rule: rev_induct)
  case Nil
  then show ?case by simp
next
  case (snoc y ys)
  then show ?case by (auto simp add: assessModelReliability_snoc)
qed

lemma assessModelReliability_dom:
  "assessModelReliability preds i \<noteq> None \<longleftrightarrow> i \<in> set (map (\<lambda>x. model_id (pred_model x)) preds)"
proof (induction preds rule: rev_induct)
  case Nil
  then show ?case by (simp add: assessModelReliability_def)
next
  case (snoc y ys)
  then show ?case by (auto simp add: assessModelReliability_snoc)
qed

lemma assessModelReliability_distinct:
  assumes "distinct (map (\<lambda>x. model_id (pred_model x)) preds)" "x \<in> set preds"
  shows "assessModelReliability preds (model_id (pred_model x)) =
           Some (min 1 (js_or (weight (pred_model x)) 0.5 * js_or (emaAccuracy (pred_model x)) 0.5 * 2))"
  using assms
proof (induction preds rule: rev_induct)
  case Nil
  then show ?case by simp
next
  case (snoc y ys)
  show ?case
  proof (cases "x = y")
    case True
    then show ?thesis by (simp add: assessModelReliability_snoc)
  next
    case False
    with snoc.prems have x: "x \<in> set ys" and d: "distinct (map (\<lambda>x. model_id (pred_model x)) ys)"
      and ne: "model_id (pred_model y) \<notin> set (map (\<lambda>x. model_id (pred_model x)) ys)"
      by auto
    from x have "model_id (pred_model x) \<in> set (map (\<lambda>x. model_id (pred_model x)) ys)" by simp
    with ne have "model_id (pred_model x) \<noteq> model_id (pred_model y)" by metis
    then show ?thesis using snoc.IH[OF d x] by (simp add: assessModelReliability_snoc)
  qed
qed

lemma calculateEnhancedConfidence_sum:
  "calculateEnhancedConfidence preds cs score rel =
     min 92 (of_int (Math_round (
       (\<Sum>x\<leftarrow>preds. confidence (pred_p x) * the (rel (model_id (pred_model x)))) / real (length preds) *
       min 1.3 (1 + agreement cs * 0.2 + score * 0.1))))"
  by (simp add: calculateEnhancedConfidence_def Let_def foldl_add_sum_list)

lemma predict_consensus:
  assumes "length (models this) \<ge> 2"
    and "consensus_path (sorted_preds run this hist options)"
  shows "ModelManager_predict run this hist options =
           Inr (enforce_minConfidence this (consensus_final (sorted_preds run this hist options)))"
  unfolding predict_multi[OF assms(1)] multi_final_def using assms(2) by simp

lemma consensus_final_confidence:
  assumes "overlap_score (analyzePatternOverlap preds) = Some score"
  shows "final_confidence (enforce_minConfidence this (consensus_final preds)) =
           max (minConfidence this)
             (min 92 (of_int (Math_round (
                (\<Sum>x\<leftarrow>preds. confidence (pred_p x) * the (assessModelReliability preds (model_id (pred_model x)))) /
                real (length preds) *
                min 1.3 (1 + agreement (calculateConsensusStrength preds) * 0.2 + score * 0.1)))))"
  by (simp add: enforce_minConfidence_eq consensus_final_def Let_def assms calculateEnhancedConfidence_sum)

text \<open>
  Claim C6. (as amended) On the consensus branch (at least two models, agreement
  above 0.75 and pattern overlap above 0.6) the decision's confidence is
  \<open>max(minConfidence, min(92, round(base * factor)))\<close>, where \<open>base\<close> is the sum of
  \<open>confidence * reliability\<close> over the models divided by the number of models and
  \<open>factor = min(1.3, 1 + agreement * 0.2 + overlap * 0.1)\<close>; with distinct model ids
  the reliability of a model is \<open>min(1, (weight || 0.5) * (emaAccuracy || 0.5) * 2)\<close>.
\<close>

theorem consensus_confidence:
  assumes "length (models this) \<ge> 2"
    and "consensus_path (sorted_preds run this hist options)"
  shows "\<exists>d score.
           ModelManager_predict run this hist options = Inr d \<and>
           overlap_score (analyzePatternOverlap (sorted_preds run this hist options)) = Some score \<and>
           final_confidence d =
             max (minConfidence this)
               (min 92 (of_int (Math_round (
                  (\<Sum>x\<leftarrow>sorted_preds run this hist options.
                      confidence (pred_p x) *
                      the (assessModelReliability (sorted_preds run this hist options) (model_id (pred_model x)))) /
                  real (length (sorted_preds run this hist options)) *
                  min 1.3 (1 + agreement (calculateConsensusStrength (sorted_preds run this hist options)) * 0.2 +
                               score * 0.1))))) \<and>
           (distinct (map (\<lambda>x. model_id (pred_model x)) (sorted_preds run this hist options)) \<longrightarrow>
              (\<forall>x \<in> set (sorted_preds run this hist options).
                 the (assessModelReliability (sorted_preds run this hist options) (model_id (pred_model x))) =
                 min 1 (js_or (weight (pred_model x)) 0.5 * js_or (emaAccuracy (pred_model x)) 0.5 * 2)))"
proof -
  let ?P = "sorted_preds run this hist options"
  from assms(2) obtain score where s: "overlap_score (analyzePatternOverlap ?P) = Some score"
    by (auto simp add: consensus_path_def split: option.splits)
  note p = predict_consensus[OF assms]
  note c = consensus_final_confidence[OF s, of this]
  have r: "distinct (map (\<lambda>x. model_id (pred_model x)) ?P) \<longrightarrow>
              (\<forall>x \<in> set ?P.
                 the (assessModelReliability ?P (model_id (pred_model x))) =
                 min 1 (js_or (weight (pred_model x)) 0.5 * js_or (emaAccuracy (pred_model x)) 0.5 * 2))"
    by (simp add: assessModelReliability_distinct)
  from p s c r show ?thesis by blast
qed

text \<open>Evaluation of the example: three agreeing models of reliability 0.8.\<close>

lemma sorted_preds_three:
  "sorted_preds (stub_predict agreeing_signals) roster_of_three hist options =
     [\<lparr> pred_model = (KBTModel_new ''KBT'')\<lparr> emaAccuracy := 0.4 \<rparr>,
        pred_p = signal_of ''BIG'' 70 [''Streak_3''], pred_score = 70 \<rparr>,
      \<lparr> pred_model = (AIModel_new ''AI_FLONZA'')\<lparr> emaAccuracy := 0.4 \<rparr>,
        pred_p = signal_of ''BIG'' 70 [''Streak_3''], pred_score = 70 \<rparr>,
      \<lparr> pred_model = (KBTModel_new ''KBT2'')\<lparr> emaAccuracy := 0.4 \<rparr>,
        pred_p = signal_of ''BIG'' 70 [''Streak_3''], pred_score = 70 \<rparr>]"
  by (simp add: sorted_preds_def roster_of_three_def make_pred_stub agreeing_signals_def
      KBTModel_new_def AIModel_new_def signal_of_def js_or_def)

lemma three_agreement:
  "agreement (calculateConsensusStrength
     (sorted_preds (stub_predict agreeing_signals) roster_of_three hist options)) = 1"
  by (simp add: sorted_preds_three calculateConsensusStrength_def Let_def signal_of_def)

lemma three_overlap:
  "overlap_score (analyzePatternOverlap
     (sorted_preds (stub_predict agreeing_signals) roster_of_three hist options)) = Some (2 / 3)"
  by (simp add: sorted_preds_three analyzePatternOverlap_def Let_def signal_of_def uniq_def)

lemma three_consensus:
  "consensus_path (sorted_preds (stub_predict agreeing_signals) roster_of_three hist options)"
  by (simp add: consensus_path_def three_agreement three_overlap)

lemma three_models: "2 \<le> length (models roster_of_three)" "minConfidence roster_of_three = 65"
  by (simp_all add: roster_of_three_def ModelManager_new_def)

lemma three_reliability:
  "x \<in> set (sorted_preds (stub_predict agreeing_signals) roster_of_three hist options) \<Longrightarrow>
   the (assessModelReliability (sorted_preds (stub_predict agreeing_signals) roster_of_three hist options)
          (model_id (pred_model x))) = 0.8"
proof -
  assume x: "x \<in> set (sorted_preds (stub_predict agreeing_signals) roster_of_three hist options)"
  have d: "distinct (map (\<lambda>x. model_id (pred_model x))
             (sorted_preds (stub_predict agreeing_signals) roster_of_three hist options))"
    by (simp add: sorted_preds_three KBTModel_new_def AIModel_new_def)
  have h: "min 1 (js_or (weight (pred_model x)) 0.5 * js_or (emaAccuracy (pred_model x)) 0.5 * 2) = 0.8"
    using x unfolding sorted_preds_three
    by (auto simp add: KBTModel_new_def AIModel_new_def js_or_def)
  show ?thesis
    unfolding assessModelReliability_distinct[OF d x] option.sel by (rule h)
qed

lemma three_sum:
  "(\<Sum>x\<leftarrow>sorted_preds (stub_predict agreeing_signals) roster_of_three hist options.
      confidence (pred_p x) *
      the (assessModelReliability (sorted_preds (stub_predict agreeing_signals) roster_of_three hist options)
             (model_id (pred_model x)))) = 168"
proof -
  have "(\<Sum>x\<leftarrow>sorted_preds (stub_predict agreeing_signals) roster_of_three hist options.
      confidence (pred_p x) *
      the (assessModelReliability (sorted_preds (stub_predict agreeing_signals) roster_of_three hist options)
             (model_id (pred_model x)))) =
    (\<Sum>x\<leftarrow>sorted_preds (stub_predict agreeing_signals) roster_of_three hist options.
      confidence (pred_p x) * 0.8)"
    by (rule arg_cong[where f = sum_list], rule map_cong) (simp_all add: three_reliability)
  also have "\<dots> = 168"
    by (simp add: sorted_preds_three signal_of_def)
  finally show ?thesis .
qed

lemma three_round: "Math_round (168 / real 3 * min 1.3 (1 + 1 * 0.2 + 2 / 3 * 0.1)) = 71"
  by (simp add: Math_round_def round_def)

lemma three_spec:
  "enhanced_confidence_spec (sorted_preds (stub_predict agreeing_signals) roster_of_three hist options) = 266 / 3"
  unfolding enhanced_confidence_spec_def Let_def three_agreement three_overlap
  by (simp add: sorted_preds_three reliability_spec_def clamp_def signal_of_def
      KBTModel_new_def AIModel_new_def)

lemma predict_three_confidence:
  "map_sum id final_confidence
     (ModelManager_predict (stub_predict agreeing_signals) roster_of_three hist options) = Inr 71"
proof -
  have l: "length (sorted_preds (stub_predict agreeing_signals) roster_of_three hist options) = 3"
    by (simp add: sorted_preds_three)
  show ?thesis
    unfolding predict_consensus[OF three_models(1) three_consensus] map_sum.simps
      consensus_final_confidence[OF three_overlap] three_sum three_agreement l three_round three_models(2)
    by simp
qed

theorem consensus_confidence_witness:
  "2 \<le> length (models roster_of_three) \<and>
   consensus_path (sorted_preds (stub_predict agreeing_signals) roster_of_three (Array []) (Options 0 None)) \<and>
   (\<exists>d. ModelManager_predict (stub_predict agreeing_signals) roster_of_three (Array []) (Options 0 None) = Inr d \<and>
        final_confidence d = 71)"
proof -
  let ?P = "sorted_preds (stub_predict agreeing_signals) roster_of_three (Array []) (Options 0 None)"
  have l: "length ?P = 3" by (simp add: sorted_preds_three)
  from consensus_confidence[OF three_models(1) three_consensus, of "Array []" "Options 0 None"]
  obtain d score where d: "ModelManager_predict (stub_predict agreeing_signals) roster_of_three (Array []) (Options 0 None) = Inr d"
    and s: "overlap_score (analyzePatternOverlap ?P) = Some score"
    and c: "final_confidence d =
             max (minConfidence roster_of_three)
               (min 92 (of_int (Math_round (
                  (\<Sum>x\<leftarrow>?P. confidence (pred_p x) * the (assessModelReliability ?P (model_id (pred_model x)))) /
                  real (length ?P) *
                  min 1.3 (1 + agreement (calculateConsensusStrength ?P) * 0.2 + score * 0.1)))))"
    by blast
  from s have sc: "score = 2 / 3" unfolding three_overlap by simp
  have "final_confidence d = 71"
    unfolding c sc three_sum three_agreement l three_round three_models(2) by simp
  with d three_models(1) three_consensus show ?thesis by blast
qed

theorem weighted_mean_counterexample:
  "2 \<le> length (models roster_of_three) \<and>
   consensus_path (sorted_preds (stub_predict agreeing_signals) roster_of_three (Array []) (Options 0 None)) \<and>
   map_sum id final_confidence
     (ModelManager_predict (stub_predict agreeing_signals) roster_of_three (Array []) (Options 0 None)) = Inr 71 \<and>
   enhanced_confidence_spec
     (sorted_preds (stub_predict agreeing_signals) roster_of_three (Array []) (Options 0 None)) = 266 / 3"
  using three_models(1) three_consensus predict_three_confidence three_spec by blast

section \<open>What a decision carries\<close>

lemma enforce_minConfidence_fields:
  "final_prediction (enforce_minConfidence this f) = final_prediction f"
  "final_logic (enforce_minConfidence this f) = final_logic f"
  "final_patterns (enforce_minConfidence this f) = final_patterns f"
  "chosenModel (enforce_minConfidence this f) = chosenModel f"
  "contributing (enforce_minConfidence this f) = contributing f"
  by (simp_all add: enforce_minConfidence_eq)

text \<open>The condition under which one of the two fallback objects is built.\<close>

lemma low_consensus_final_cases:
  assumes "low_consensus_final preds hist = Inr final"
  shows "(pred_score (preds ! 0) - pred_score (preds ! 1) < 15 \<and>
          (\<exists>bias. recent_bias hist = Inr bias \<and> (bias > 0.6 \<or> bias < 0.4)) \<and>
          (\<exists>category. final = fallback_final category (confidence (pred_p (preds ! 0))))) \<or>
         (\<not> (pred_score (preds ! 0) - pred_score (preds ! 1) < 15 \<and>
             (\<exists>bias. recent_bias hist = Inr bias \<and> (bias > 0.6 \<or> bias < 0.4))) \<and>
          (\<exists>adjustedConf. final = top_final preds adjustedConf))"
proof (cases "pred_score (preds ! 0) - pred_score (preds ! 1) < 15")
  case False
  with assms show ?thesis by (auto simp add: low_consensus_final_def Let_def)
next
  case True
  show ?thesis
  proof (cases "recent_bias hist")
    case (Inl e)
    with assms True show ?thesis by (simp add: low_consensus_final_def Let_def)
  next
    case (Inr bias)
    with assms True show ?thesis
      by (auto simp add: low_consensus_final_def Let_def split: if_splits)
  qed
qed

lemma fallback_final_fields:
  "chosenModel (fallback_final category c) = Some ''fallback''"
  "final_logic (fallback_final category c) = ''fallback-low-consensus-bias''"
  "final_patterns (fallback_final category c) = []"
  "contributing (fallback_final category c) = None"
  by (simp_all add: fallback_final_def)

lemma top_final_fields:
  "chosenModel (top_final preds c) =
     Some (js_or_str (model_id (pred_model (preds ! 0))) (model_name (pred_model (preds ! 0))))"
  "final_patterns (top_final preds c) = (case patterns (pred_p (preds ! 0)) of Some ps \<Rightarrow> ps | None \<Rightarrow> [])"
  "contributing (top_final preds c) = Some (map (\<lambda>x.
     \<lparr> c_id = js_or_str (model_id (pred_model x)) (model_name (pred_model x)),
       c_name = model_name (pred_model x), c_weight = weight (pred_model x),
       c_prediction = prediction (pred_p x), c_confidence = confidence (pred_p x),
       c_reliability = None \<rparr>) preds)"
  by (simp_all add: top_final_def Let_def)

lemma consensus_final_fields:
  "chosenModel (consensus_final preds) = Some ''enhanced_ensemble''"
  "final_patterns (consensus_final preds) = uniq (
     (case patterns (pred_p (preds ! 0)) of Some ps \<Rightarrow> ps | None \<Rightarrow> []) @
     (case patterns (pred_p (preds ! 1)) of Some ps \<Rightarrow> ps | None \<Rightarrow> []) @
     [''Consensus_'' @ show_int (Math_round (agreement (calculateConsensusStrength preds) * 100)),
      ''PatternMatch_'' @ show_int (Math_round (the (overlap_score (analyzePatternOverlap preds)) * 100))])"
  "contributing (consensus_final preds) = Some (map (\<lambda>x.
     \<lparr> c_id = js_or_str (model_id (pred_model x)) (model_name (pred_model x)),
       c_name = model_name (pred_model x),
       c_weight = weight (pred_model x) *
         js_or (the (assessModelReliability preds (model_id (pred_model x)))) 1,
       c_prediction = prediction (pred_p x), c_confidence = confidence (pred_p x),
       c_reliability = assessModelReliability preds (model_id (pred_model x)) \<rparr>) preds)"
  by (simp_all add: consensus_final_def Let_def)

lemma single_final_fields:
  "chosenModel (single_final this preds) = Some (model_id (pred_model (preds ! 0)))"
  "final_patterns (single_final this preds) = (case patterns (pred_p (preds ! 0)) of Some ps \<Rightarrow> ps | None \<Rightarrow> [])"
  "contributing (single_final this preds) = Some (map (\<lambda>x.
     \<lparr> c_id = model_id (pred_model x),
       c_name = model_name (pred_model x), c_weight = weight (pred_model x),
       c_prediction = prediction (pred_p x), c_confidence = confidence (pred_p x),
       c_reliability = None \<rparr>) preds)"
  by (simp_all add: single_final_def Let_def)

lemma final_logic_nonempty:
  "final_logic (fallback_final category c) \<noteq> []"
  "final_logic (top_final preds c) \<noteq> []"
  "final_logic (consensus_final preds) \<noteq> []"
  "final_logic (single_final this preds) \<noteq> []"
  by (simp_all add: fallback_final_def top_final_def consensus_final_def single_final_def Let_def)

lemma multi_final_branches:
  assumes "multi_final preds hist = Inr final"
  shows "(consensus_path preds \<longrightarrow> final = consensus_final preds) \<and>
         (fallback_branch preds hist \<longrightarrow>
            (\<exists>category. final = fallback_final category (confidence (pred_p (preds ! 0))))) \<and>
         (\<not> consensus_path preds \<and> \<not> fallback_branch preds hist \<longrightarrow>
            (\<exists>adjustedConf. final = top_final preds adjustedConf))"
proof (cases "consensus_path preds")
  case True
  with assms show ?thesis by (simp add: multi_final_def fallback_branch_def)
next
  case False
  with assms have l: "low_consensus_final preds hist = Inr final" by (simp add: multi_final_def)
  from low_consensus_final_cases[OF l] False show ?thesis
    by (auto simp add: fallback_branch_def split: sum.splits)
qed

text \<open>
  Claim C7. (as amended) Every decision on a non-empty roster carries the tags
  \<open>chosenModel\<close> and \<open>logic\<close>. A decision of the single-model, consensus or
  top-model branch carries a contributor list with one entry per model (id or
  name, name, weight, prediction, confidence); its patterns are those of the top
  signal, or on the consensus branch the distinct patterns of the two top signals
  and the two consensus tags. A decision of the fallback-bias branch carries no
  contributor list and an empty pattern list.
\<close>

theorem decision_contents:
  assumes "ModelManager_predict run this hist options = Inr d"
    and "length (models this) \<noteq> 0"
  shows "chosenModel d \<noteq> None \<and> final_logic d \<noteq> [] \<and>
    (length (models this) = 1 \<longrightarrow>
       contributing d = contributing (single_final this (sorted_preds run this hist options)) \<and>
       final_patterns d = final_patterns (single_final this (sorted_preds run this hist options))) \<and>
    (2 \<le> length (models this) \<and> consensus_path (sorted_preds run this hist options) \<longrightarrow>
       chosenModel d = Some ''enhanced_ensemble'' \<and>
       contributing d = contributing (consensus_final (sorted_preds run this hist options)) \<and>
       final_patterns d = final_patterns (consensus_final (sorted_preds run this hist options))) \<and>
    (2 \<le> length (models this) \<and> fallback_branch (sorted_preds run this hist options) hist \<longrightarrow>
       chosenModel d = Some ''fallback'' \<and> final_logic d = ''fallback-low-consensus-bias'' \<and>
       final_patterns d = [] \<and> contributing d = None) \<and>
    (2 \<le> length (models this) \<and> \<not> consensus_path (sorted_preds run this hist options) \<and>
     \<not> fallback_branch (sorted_preds run this hist options) hist \<longrightarrow>
       contributing d = contributing (top_final (sorted_preds run this hist options) 0) \<and>
       final_patterns d = final_patterns (top_final (sorted_preds run this hist options) 0)) \<and>
    (\<forall>cs. contributing d = Some cs \<longrightarrow> length cs = length (models this))"
proof -
  let ?P = "sorted_preds run this hist options"
  consider (one) "length (models this) = 1" | (many) "length (models this) \<ge> 2"
    using assms(2) by linarith
  then show ?thesis
  proof cases
    case one
    with assms(1) have "d = single_final this ?P" by (simp add: predict_single)
    with one show ?thesis by (auto simp add: single_final_fields final_logic_nonempty)
  next
    case many
    from assms(1) obtain final where f: "multi_final ?P hist = Inr final"
      and d: "d = enforce_minConfidence this final"
      unfolding predict_multi[OF many] by (auto split: sum.splits)
    note b = multi_final_branches[OF f]
    have n1: "length (models this) \<noteq> 1" using many by simp
    show ?thesis
    proof (cases "consensus_path ?P")
      case True
      with b have "final = consensus_final ?P" by blast
      with True many n1 show ?thesis
        by (auto simp add: d enforce_minConfidence_fields consensus_final_fields(1,3) final_logic_nonempty
              fallback_branch_def)
    next
      case False
      show ?thesis
      proof (cases "fallback_branch ?P hist")
        case True
        with b obtain category where "final = fallback_final category (confidence (pred_p (?P ! 0)))"
          by blast
        with True False many n1 show ?thesis
          by (simp add: d enforce_minConfidence_fields fallback_final_fields final_logic_nonempty)
      next
        case nf: False
        with b False obtain adjustedConf where "final = top_final ?P adjustedConf" by blast
        with nf False many n1 show ?thesis
          by (auto simp add: d enforce_minConfidence_fields top_final_fields final_logic_nonempty)
      qed
    qed
  qed
qed

lemma split_fallback_branch:
  "fallback_branch (sorted_preds (stub_predict split_signals) ModelManager_new history_14_big_6_small options)
     history_14_big_6_small"
  unfolding fallback_branch_def recent_bias_14_6
  using not_consensus_split by (simp add: sorted_preds_split)

theorem decision_contents_witness:
  "ModelManager_predict (stub_predict split_signals) ModelManager_new history_14_big_6_small (Options 0 None) =
     Inr ((fallback_final ''BIG'' 70)\<lparr> final_confidence := 65 \<rparr>) \<and>
   length (models ModelManager_new) \<noteq> 0 \<and>
   2 \<le> length (models ModelManager_new) \<and>
   fallback_branch (sorted_preds (stub_predict split_signals) ModelManager_new history_14_big_6_small (Options 0 None))
     history_14_big_6_small \<and>
   chosenModel ((fallback_final ''BIG'' 70)\<lparr> final_confidence := 65 \<rparr>) = Some ''fallback'' \<and>
   contributing ((fallback_final ''BIG'' 70)\<lparr> final_confidence := 65 \<rparr>) = None"
proof -
  have m: "length (models ModelManager_new) \<noteq> 0" "2 \<le> length (models ModelManager_new)"
    by (simp_all add: ModelManager_new_def)
  from decision_contents[OF predict_split_14_6 m(1), of "Options 0 None"] m(2) split_fallback_branch
  have "chosenModel ((fallback_final ''BIG'' 70)\<lparr> final_confidence := 65 \<rparr>) = Some ''fallback'' \<and>
        contributing ((fallback_final ''BIG'' 70)\<lparr> final_confidence := 65 \<rparr>) = None"
    by blast
  with predict_split_14_6 m split_fallback_branch show ?thesis by blast
qed

theorem fallback_without_contributors_counterexample:
  "length (models ModelManager_new) \<noteq> 0 \<and>
   map_sum id contributing
     (ModelManager_predict (stub_predict split_signals) ModelManager_new history_14_big_6_small (Options 0 None)) = Inr None \<and>
   map_sum id final_patterns
     (ModelManager_predict (stub_predict split_signals) ModelManager_new history_14_big_6_small (Options 0 None)) = Inr [] \<and>
   map (\<lambda>x. patterns (pred_p x))
     (sorted_preds (stub_predict split_signals) ModelManager_new history_14_big_6_small (Options 0 None)) =
     [Some [''Streak of 3''], Some [''Alternating'']]"
proof -
  have m: "length (models ModelManager_new) \<noteq> 0" by (simp add: ModelManager_new_def)
  show ?thesis
    unfolding predict_split_14_6 sorted_preds_split
    using m by (simp add: fallback_final_def signal_of_def)
qed

section \<open>Credit assignment\<close>

lemma model_learn_Object:
  "model_learn m wasWin (Object (LrNumber lr)) =
     (update_weight (record_outcome m wasWin) (max 0.1 lr),
      Inr (stats_of (update_weight (record_outcome m wasWin) (max 0.1 lr))))"
  unfolding model_learn_def KBTModel_learn_steps AIModel_learn_steps KBTModel_lr_def AIModel_lr_def
  by (cases "cls m") simp_all

lemma model_learn_Object_key:
  "js_or_str (model_id (fst (model_learn m wasWin (Object (LrNumber lr)))))
             (model_name (fst (model_learn m wasWin (Object (LrNumber lr))))) =
   js_or_str (model_id m) (model_name m)"
  "model_id (fst (model_learn m wasWin (Object (LrNumber lr)))) = model_id m"
  by (simp_all add: model_learn_Object update_weight_fields record_outcome_fields)

lemma find_model_Some:
  "find_model ms key = Some i \<Longrightarrow> i < length ms \<and> js_or_str (model_id (ms ! i)) (model_name (ms ! i)) = key"
proof (induction ms arbitrary: i)
  case Nil
  then show ?case by simp
next
  case (Cons m ms)
  show ?case
  proof (cases "js_or_str (model_id m) (model_name m) = key")
    case True
    with Cons.prems show ?thesis by simp
  next
    case False
    with Cons.prems obtain j where j: "find_model ms key = Some j" "i = Suc j" by auto
    from Cons.IH[OF j(1)] j(2) show ?thesis by simp
  qed
qed

lemma find_model_keys:
  "map (\<lambda>m. js_or_str (model_id m) (model_name m)) ms = map (\<lambda>m. js_or_str (model_id m) (model_name m)) ms' \<Longrightarrow>
   find_model ms key = find_model ms' key"
proof (induction ms arbitrary: ms')
  case Nil
  then show ?case by simp
next
  case (Cons m ms)
  then obtain m' ms'' where ms': "ms' = m' # ms''" by (cases ms') auto
  with Cons.prems have k: "js_or_str (model_id m) (model_name m) = js_or_str (model_id m') (model_name m')"
    and r: "map (\<lambda>m. js_or_str (model_id m) (model_name m)) ms = map (\<lambda>m. js_or_str (model_id m) (model_name m)) ms''"
    by simp_all
  show ?case using Cons.IH[OF r] k by (simp add: ms')
qed

lemma keys_update:
  assumes "i < length ms" "js_or_str (model_id m') (model_name m') = js_or_str (model_id (ms ! i)) (model_name (ms ! i))"
  shows "map (\<lambda>m. js_or_str (model_id m) (model_name m)) (ms[i := m']) =
         map (\<lambda>m. js_or_str (model_id m) (model_name m)) ms"
  using assms by (simp add: map_update list_update_same_conv)

text \<open>The learning rates of the entries the loop appends, in order.\<close>

lemma learnMultiple_loop_lrs:
  "keys_of (fst (learnMultiple_loop tscore baseLR wasWin cs (this, results))) = keys_of this \<and>
   map entry_lr (snd (learnMultiple_loop tscore baseLR wasWin cs (this, results))) =
     map entry_lr results @
     map (\<lambda>c. baseLR * (0.2 + 0.8 * (contribution_score c / tscore)))
         (filter (\<lambda>c. find_model (models this) (c_id c) \<noteq> None) cs)"
proof (induction cs arbitrary: this results)
  case Nil
  then show ?case by simp
next
  case (Cons c cs)
  show ?case
  proof (cases "find_model (models this) (c_id c)")
    case None
    then show ?thesis using Cons.IH[of this results] by simp
  next
    case (Some i)
    define lr2 where "lr2 = baseLR * (0.2 + 0.8 * ((js_or (c_weight c) 1 * js_or (c_confidence c) 50) / tscore))"
    define r where "r = model_learn (models this ! i) wasWin (Object (LrNumber lr2))"
    define this' where "this' = this\<lparr> models := (models this)[i := fst r] \<rparr>"
    define res' where "res' = results @ [\<lparr> entry_id = model_id (fst r), entry_lr = lr2, entry_res = snd r \<rparr>]"
    have step: "learnMultiple_loop tscore baseLR wasWin (c # cs) (this, results) =
                learnMultiple_loop tscore baseLR wasWin cs (this', res')"
      unfolding this'_def res'_def r_def lr2_def
      by (simp only: learnMultiple_loop.simps Let_def Some option.case case_prod_beta)
    from find_model_Some[OF Some] have i: "i < length (models this)" by simp
    have k: "keys_of this' = keys_of this"
      unfolding keys_of_def this'_def r_def using keys_update[OF i model_learn_Object_key(1)] by simp
    then have f: "find_model (models this') key = find_model (models this) key" for key
      unfolding keys_of_def by (rule find_model_keys)
    have e: "map entry_lr res' = map entry_lr results @ [lr2]" by (simp add: res'_def)
    have l: "lr2 = baseLR * (0.2 + 0.8 * (contribution_score c / tscore))"
      by (simp add: lr2_def contribution_score_def)
    from Cons.IH[of this' res']
    have IH1: "keys_of (fst (learnMultiple_loop tscore baseLR wasWin cs (this', res'))) = keys_of this'"
      and IH2: "map entry_lr (snd (learnMultiple_loop tscore baseLR wasWin cs (this', res'))) =
         map entry_lr res' @
         map (\<lambda>c. baseLR * (0.2 + 0.8 * (contribution_score c / tscore)))
             (filter (\<lambda>c. find_model (models this') (c_id c) \<noteq> None) cs)"
      by blast+
    have flt: "filter (\<lambda>c. find_model (models this) (c_id c) \<noteq> None) (c # cs) =
               c # filter (\<lambda>c. find_model (models this') (c_id c) \<noteq> None) cs"
      by (simp add: Some f)
    show ?thesis
      unfolding step IH1 IH2 k e flt l by simp
  qed
qed

lemma totalScore_sum:
  "totalScore contributions = js_or (\<Sum>c\<leftarrow>contributions. contribution_score c) 1"
  by (simp add: totalScore_def contribution_score_def foldl_add_sum_list)

lemma shares_sum_to_one:
  assumes "(\<Sum>c\<leftarrow>contributions. contribution_score c) \<noteq> 0"
  shows "totalScore contributions = (\<Sum>c\<leftarrow>contributions. contribution_score c)"
    and "(\<Sum>c\<leftarrow>contributions. contribution_score c / totalScore contributions) = 1"
proof -
  show t: "totalScore contributions = (\<Sum>c\<leftarrow>contributions. contribution_score c)"
    using assms by (simp add: totalScore_sum js_or_def)
  have "(\<Sum>c\<leftarrow>contributions. contribution_score c / totalScore contributions) =
        (\<Sum>c\<leftarrow>contributions. contribution_score c * (1 / totalScore contributions))"
    by simp
  also have "\<dots> = (\<Sum>c\<leftarrow>contributions. contribution_score c) * (1 / totalScore contributions)"
    by (rule sum_list_mult_const)
  also have "\<dots> = 1" using assms by (simp add: t)
  finally show "(\<Sum>c\<leftarrow>contributions. contribution_score c / totalScore contributions) = 1" .
qed

lemma learnMultiple_results:
  assumes "contributions \<noteq> []"
  shows "\<exists>this' results.
           learnMultiple this contributions wasWin ctx = (this', Some results) \<and>
           keys_of this' = keys_of this \<and>
           map entry_lr results =
             map (\<lambda>c. learning_rate ctx * (0.2 + 0.8 * (contribution_score c / totalScore contributions)))
                 (filter (\<lambda>c. find_model (models this) (c_id c) \<noteq> None) contributions)"
proof -
  let ?r = "learnMultiple_loop (totalScore contributions) (learning_rate ctx) wasWin contributions (this, [])"
  have "learnMultiple this contributions wasWin ctx = (fst ?r, Some (snd ?r))"
    using assms by (simp add: learnMultiple_def Let_def case_prod_beta)
  moreover note learnMultiple_loop_lrs[of "totalScore contributions" "learning_rate ctx" wasWin contributions this "[]"]
  ultimately show ?thesis by simp
qed

lemma contribution_score_pos:
  "0 \<le> c_weight c \<Longrightarrow> 0 \<le> c_confidence c \<Longrightarrow> 0 < contribution_score c"
  by (simp add: contribution_score_def js_or_def)

lemma sum_list_pos_nonempty:
  "xs \<noteq> [] \<Longrightarrow> (\<And>x. x \<in> set xs \<Longrightarrow> 0 < f x) \<Longrightarrow> 0 < (\<Sum>x\<leftarrow>xs. (f x :: real))"
proof (induction xs)
  case Nil
  then show ?case by simp
next
  case (Cons a xs)
  show ?case
  proof (cases "xs = []")
    case True
    with Cons.prems show ?thesis by simp
  next
    case False
    from Cons.IH[OF False] Cons.prems(2) have "0 < (\<Sum>x\<leftarrow>xs. f x)" by simp
    moreover have "0 < f a" using Cons.prems(2) by simp
    ultimately show ?thesis by simp
  qed
qed

lemma learning_rate_ge_1: "0 \<le> ctx \<Longrightarrow> 1 \<le> learning_rate ctx"
  by (simp add: learning_rate_def Let_def js_or_def)

lemma share_rate_bound:
  assumes "contributions \<noteq> []"
    and "\<And>k. k \<in> set contributions \<Longrightarrow> 0 \<le> c_weight k \<and> 0 \<le> c_confidence k"
    and "0 \<le> ctx" and "c \<in> set contributions"
  shows "0.2 * learning_rate ctx \<le>
           learning_rate ctx * (0.2 + 0.8 * (contribution_score c / totalScore contributions))"
    and "0.1 \<le> learning_rate ctx * (0.2 + 0.8 * (contribution_score c / totalScore contributions))"
proof -
  have s: "0 < (\<Sum>c\<leftarrow>contributions. contribution_score c)"
    by (rule sum_list_pos_nonempty[OF assms(1)]) (simp add: assms(2) contribution_score_pos)
  then have t: "0 < totalScore contributions" by (simp add: totalScore_sum js_or_def)
  have c: "0 < contribution_score c" using assms(2)[OF assms(4)] by (simp add: contribution_score_pos)
  have sh: "0 \<le> contribution_score c / totalScore contributions" using t c by simp
  have b: "1 \<le> learning_rate ctx" by (rule learning_rate_ge_1[OF assms(3)])
  have "learning_rate ctx * 0.2 \<le>
        learning_rate ctx * (0.2 + 0.8 * (contribution_score c / totalScore contributions))"
    by (rule mult_left_mono) (use sh b in simp_all)
  then show g: "0.2 * learning_rate ctx \<le>
           learning_rate ctx * (0.2 + 0.8 * (contribution_score c / totalScore contributions))"
    by (simp add: mult.commute)
  from b have "0.1 \<le> 0.2 * learning_rate ctx" by simp
  with g show "0.1 \<le> learning_rate ctx * (0.2 + 0.8 * (contribution_score c / totalScore contributions))"
    by linarith
qed

text \<open>
  Claim C5. (as amended) In \<open>learnMultiple\<close> the score of a contributor is
  \<open>(weight || 1) * (confidence || 50)\<close>. When the sum of the scores is nonzero it is
  \<open>totalScore\<close>, and the shares \<open>score / totalScore\<close> sum to 1. For a non-empty list
  the learning rate passed to \<open>learn\<close> for each contributor found in the roster is
  \<open>baseLR * (0.2 + 0.8 * share)\<close>; when all weights and confidences are non-negative
  and \<open>consecutiveLosses\<close> is non-negative, each rate is at least 20 percent of
  \<open>baseLR\<close> and is the rate \<open>learn\<close> applies.
\<close>

theorem credit_shares:
  "((\<Sum>c\<leftarrow>contributions. contribution_score c) \<noteq> 0 \<longrightarrow>
      totalScore contributions = (\<Sum>c\<leftarrow>contributions. contribution_score c) \<and>
      (\<Sum>c\<leftarrow>contributions. contribution_score c / totalScore contributions) = 1) \<and>
   (contributions \<noteq> [] \<longrightarrow>
      (\<exists>this' results.
         learnMultiple this contributions wasWin ctx = (this', Some results) \<and>
         map entry_lr results =
           map (\<lambda>c. learning_rate ctx * (0.2 + 0.8 * (contribution_score c / totalScore contributions)))
               (filter (\<lambda>c. find_model (models this) (c_id c) \<noteq> None) contributions) \<and>
         ((\<forall>c \<in> set contributions. 0 \<le> c_weight c \<and> 0 \<le> c_confidence c) \<and> 0 \<le> ctx \<longrightarrow>
            (\<forall>e \<in> set results. 0.2 * learning_rate ctx \<le> entry_lr e \<and> max 0.1 (entry_lr e) = entry_lr e))))"
proof (intro conjI impI)
  assume "(\<Sum>c\<leftarrow>contributions. contribution_score c) \<noteq> 0"
  from shares_sum_to_one[OF this]
  show "totalScore contributions = (\<Sum>c\<leftarrow>contributions. contribution_score c)"
    and "(\<Sum>c\<leftarrow>contributions. contribution_score c / totalScore contributions) = 1" .
next
  assume ne: "contributions \<noteq> []"
  from learnMultiple_results[OF ne, of this wasWin ctx] obtain this' results
    where r: "learnMultiple this contributions wasWin ctx = (this', Some results)"
      and lrs: "map entry_lr results =
           map (\<lambda>c. learning_rate ctx * (0.2 + 0.8 * (contribution_score c / totalScore contributions)))
               (filter (\<lambda>c. find_model (models this) (c_id c) \<noteq> None) contributions)"
    by blast
  have b: "(\<forall>c \<in> set contributions. 0 \<le> c_weight c \<and> 0 \<le> c_confidence c) \<and> 0 \<le> ctx \<longrightarrow>
            (\<forall>e \<in> set results. 0.2 * learning_rate ctx \<le> entry_lr e \<and> max 0.1 (entry_lr e) = entry_lr e)"
  proof (intro impI ballI)
    fix e assume h: "(\<forall>c \<in> set contributions. 0 \<le> c_weight c \<and> 0 \<le> c_confidence c) \<and> 0 \<le> ctx"
      and e: "e \<in> set results"
    from e have "entry_lr e \<in> set (map entry_lr results)" by simp
    then obtain c where c: "c \<in> set contributions"
      and l: "entry_lr e = learning_rate ctx * (0.2 + 0.8 * (contribution_score c / totalScore contributions))"
      unfolding lrs by auto
    from h have p: "\<And>k. k \<in> set contributions \<Longrightarrow> 0 \<le> c_weight k \<and> 0 \<le> c_confidence k"
      and x: "0 \<le> ctx" by blast+
    from share_rate_bound[OF ne p x c]
    show "0.2 * learning_rate ctx \<le> entry_lr e \<and> max 0.1 (entry_lr e) = entry_lr e"
      unfolding l by (simp add: max_absorb2)
  qed
  from r lrs b
  show "\<exists>this' results.
         learnMultiple this contributions wasWin ctx = (this', Some results) \<and>
         map entry_lr results =
           map (\<lambda>c. learning_rate ctx * (0.2 + 0.8 * (contribution_score c / totalScore contributions)))
               (filter (\<lambda>c. find_model (models this) (c_id c) \<noteq> None) contributions) \<and>
         ((\<forall>c \<in> set contributions. 0 \<le> c_weight c \<and> 0 \<le> c_confidence c) \<and> 0 \<le> ctx \<longrightarrow>
            (\<forall>e \<in> set results. 0.2 * learning_rate ctx \<le> entry_lr e \<and> max 0.1 (entry_lr e) = entry_lr e))"
    by blast
qed

text \<open>Evaluation of the example: a contribution of confidence 0.\<close>

lemma zero_confidence_scores:
  "map contribution_score zero_confidence_contributions = [50, 60]"
  "totalScore zero_confidence_contributions = 110"
  "(\<Sum>c\<leftarrow>zero_confidence_contributions. contribution_score c) = 110"
  by (simp_all add: zero_confidence_contributions_def contribution_score_def totalScore_sum js_or_def)

lemma zero_confidence_found:
  "filter (\<lambda>c. find_model (models ModelManager_new) (c_id c) \<noteq> None) zero_confidence_contributions =
     zero_confidence_contributions"
  by (simp add: zero_confidence_contributions_def ModelManager_new_def KBTModel_new_def AIModel_new_def
      js_or_str_def)

lemma learning_rate_0: "learning_rate 0 = 1"
  by (simp add: learning_rate_def js_or_def)

lemma zero_confidence_rates:
  "map (\<lambda>c. learning_rate 0 * (0.2 + 0.8 * (contribution_score c / totalScore zero_confidence_contributions)))
       zero_confidence_contributions = [31 / 55, 7 / 11]"
  unfolding zero_confidence_scores(2) learning_rate_0
  by (simp add: zero_confidence_contributions_def contribution_score_def js_or_def)

lemma zero_confidence_learnMultiple:
  "map_option (map entry_lr) (snd (learnMultiple ModelManager_new zero_confidence_contributions True 0)) =
     Some [31 / 55, 7 / 11]"
proof -
  have ne: "zero_confidence_contributions \<noteq> []" by (simp add: zero_confidence_contributions_def)
  from learnMultiple_results[OF ne, of ModelManager_new True 0] obtain this' results
    where r: "learnMultiple ModelManager_new zero_confidence_contributions True 0 = (this', Some results)"
      and l: "map entry_lr results =
             map (\<lambda>c. learning_rate 0 * (0.2 + 0.8 * (contribution_score c / totalScore zero_confidence_contributions)))
                 (filter (\<lambda>c. find_model (models ModelManager_new) (c_id c) \<noteq> None) zero_confidence_contributions)"
    by blast
  show ?thesis
    unfolding r using l unfolding zero_confidence_found zero_confidence_rates by simp
qed

theorem credit_shares_witness:
  "(\<Sum>c\<leftarrow>zero_confidence_contributions. contribution_score c) \<noteq> 0 \<and>
   totalScore zero_confidence_contributions = 110 \<and>
   (\<Sum>c\<leftarrow>zero_confidence_contributions. contribution_score c / totalScore zero_confidence_contributions) = 1 \<and>
   zero_confidence_contributions \<noteq> [] \<and>
   list_all (\<lambda>c. 0 \<le> c_weight c \<and> 0 \<le> c_confidence c) zero_confidence_contributions \<and> (0::real) \<le> 0 \<and>
   (\<exists>this' results.
      learnMultiple ModelManager_new zero_confidence_contributions True 0 = (this', Some results) \<and>
      map entry_lr results = [31 / 55, 7 / 11] \<and>
      list_all (\<lambda>e. 0.2 * learning_rate 0 \<le> entry_lr e \<and> max 0.1 (entry_lr e) = entry_lr e) results)"
proof -
  note t = credit_shares[of zero_confidence_contributions ModelManager_new True 0]
  have s: "(\<Sum>c\<leftarrow>zero_confidence_contributions. contribution_score c) \<noteq> 0"
    by (simp add: zero_confidence_scores)
  have ne: "zero_confidence_contributions \<noteq> []" by (simp add: zero_confidence_contributions_def)
  have nn: "\<forall>c \<in> set zero_confidence_contributions. 0 \<le> c_weight c \<and> 0 \<le> c_confidence c"
    by (simp add: zero_confidence_contributions_def)
  from t s have one: "(\<Sum>c\<leftarrow>zero_confidence_contributions. contribution_score c / totalScore zero_confidence_contributions) = 1"
    by blast
  from t ne obtain this' results
    where r: "learnMultiple ModelManager_new zero_confidence_contributions True 0 = (this', Some results)"
      and l: "map entry_lr results =
           map (\<lambda>c. learning_rate 0 * (0.2 + 0.8 * (contribution_score c / totalScore zero_confidence_contributions)))
               (filter (\<lambda>c. find_model (models ModelManager_new) (c_id c) \<noteq> None) zero_confidence_contributions)"
      and b: "(\<forall>c \<in> set zero_confidence_contributions. 0 \<le> c_weight c \<and> 0 \<le> c_confidence c) \<and> (0::real) \<le> 0 \<longrightarrow>
            (\<forall>e \<in> set results. 0.2 * learning_rate 0 \<le> entry_lr e \<and> max 0.1 (entry_lr e) = entry_lr e)"
    by blast
  from l have l': "map entry_lr results = [31 / 55, 7 / 11]"
    unfolding zero_confidence_found zero_confidence_rates .
  from b nn have la: "list_all (\<lambda>e. 0.2 * learning_rate 0 \<le> entry_lr e \<and> max 0.1 (entry_lr e) = entry_lr e) results"
    unfolding list_all_iff by simp
  have lc: "list_all (\<lambda>c. 0 \<le> c_weight c \<and> 0 \<le> c_confidence c) zero_confidence_contributions"
    using nn unfolding list_all_iff .
  have z: "(0::real) \<le> 0" by simp
  have ex: "\<exists>this' results.
      learnMultiple ModelManager_new zero_confidence_contributions True 0 = (this', Some results) \<and>
      map entry_lr results = [31 / 55, 7 / 11] \<and>
      list_all (\<lambda>e. 0.2 * learning_rate 0 \<le> entry_lr e \<and> max 0.1 (entry_lr e) = entry_lr e) results"
    by (rule exI[of _ this'], rule exI[of _ results]) (intro conjI r l' la)
  note t110 = zero_confidence_scores(2)
  show ?thesis
    by (intro conjI) (fact s t110 one ne lc z ex)+
qed

theorem share_formula_counterexample:
  "(\<Sum>k\<leftarrow>zero_confidence_contributions. c_weight k * c_confidence k) = 60 \<and>
   map (\<lambda>c. learning_rate 0 * (0.2 + 0.8 * share_spec zero_confidence_contributions c))
       zero_confidence_contributions = [1 / 5, 1] \<and>
   map_option (map entry_lr) (snd (learnMultiple ModelManager_new zero_confidence_contributions True 0)) =
     Some [31 / 55, 7 / 11]"
proof -
  have a: "(\<Sum>k\<leftarrow>zero_confidence_contributions. c_weight k * c_confidence k) = 60"
    by (simp add: zero_confidence_contributions_def)
  have b: "map (\<lambda>c. learning_rate 0 * (0.2 + 0.8 * share_spec zero_confidence_contributions c))
       zero_confidence_contributions = [1 / 5, 1]"
    unfolding share_spec_def a learning_rate_0 by (simp add: zero_confidence_contributions_def)
  from a b zero_confidence_learnMultiple show ?thesis by blast
qed

section \<open>Faults of a model's predict\<close>


lemma recent_bias_throws:
  "recent_bias hist = Inl err \<Longrightarrow>
     NullEvent \<in> set (take 20 (case hist of Array es \<Rightarrow> es | NotArray \<Rightarrow> []))"
  by (simp add: recent_bias_def Let_def split: if_splits)




lemma KBTModel_predict_null:
  assumes "length es \<ge> 3" "NullEvent \<in> set es"
  shows "KBTModel_predict now m (Array es) options = Inl TypeError"
  using assms by (simp add: KBTModel_predict_def enhancedTrendAnalysis_def)




lemma three_nulls_throw:
  "KBTModel_predict 0 (KBTModel_new ''KBT'') (Array [NullEvent, NullEvent, NullEvent]) (Options 0 None) =
     Inl TypeError"
  by (rule KBTModel_predict_null) simp_all



text \<open>The one fault the manager does not catch: its own bias filter reads
  \<open>r.resultType\<close> of a \<open>null\<close> element.\<close>

lemma predict_throws_on_null_events:
  "ModelManager_predict (model_predict 0) ModelManager_new
     (Array [NullEvent, NullEvent, NullEvent]) (Options 0 None) = Inl TypeError"
proof -
  have k: "model_predict 0 (KBTModel_new ''KBT'') (Array [NullEvent, NullEvent, NullEvent]) (Options 0 None) =
     Inl TypeError"
    using three_nulls_throw by (simp add: model_predict_def KBTModel_new_def)
  have a: "model_predict 0 (AIModel_new ''AI_FLONZA'') (Array [NullEvent, NullEvent, NullEvent]) (Options 0 None) =
     Inr (Some \<lparr> prediction = ''BIG'', confidence = 55, logic = Some ''fallback'',
                 patterns = Some [''insufficient_data''],
                 meta = Some (''AI_FLONZA'', ''FLONZA_V4_HYBRID'', 1) \<rparr>)"
    by (simp add: model_predict_def AIModel_predict_def flonzaElitePredict_def AIModel_new_def)
  have w: "weight (KBTModel_new ''KBT'') = 1" "weight (AIModel_new ''AI_FLONZA'') = 1"
    by (simp_all add: KBTModel_new_def AIModel_new_def)
  have p: "sorted_preds (model_predict 0) ModelManager_new (Array [NullEvent, NullEvent, NullEvent]) (Options 0 None) =
     [\<lparr> pred_model = AIModel_new ''AI_FLONZA'',
        pred_p = \<lparr> prediction = ''BIG'', confidence = 55, logic = Some ''fallback'',
                   patterns = Some [''insufficient_data''],
                   meta = Some (''AI_FLONZA'', ''FLONZA_V4_HYBRID'', 1) \<rparr>, pred_score = 55 \<rparr>,
      \<lparr> pred_model = KBTModel_new ''KBT'', pred_p = neutral, pred_score = 50 \<rparr>]"
    unfolding sorted_preds_def ModelManager_new_def
    by (simp add: make_pred_def k a w js_or_def)
  have m: "length (models ModelManager_new) = 2" by (simp add: ModelManager_new_def)
  have c: "\<not> consensus_path (sorted_preds (model_predict 0) ModelManager_new
              (Array [NullEvent, NullEvent, NullEvent]) (Options 0 None))"
    unfolding p by (simp add: consensus_path_def analyzePatternOverlap_def uniq_def Let_def neutral_def)
  have b: "recent_bias (Array [NullEvent, NullEvent, NullEvent]) = Inl TypeError"
    by (simp add: recent_bias_def)
  show ?thesis
    unfolding ModelManager_predict_def Let_def multi_final_def
    using c unfolding p
    by (simp add: m low_consensus_final_def b)
qed

section \<open>The clock is read only for events without createTime\<close>

lemma time_of_stamped: "createTime r \<noteq> None \<Longrightarrow> time_of now r = time_of 0 r"
  by (cases "createTime r") (simp_all add: time_of_def)

lemma stamped_nth: "stamped rs \<Longrightarrow> i < length rs \<Longrightarrow> createTime (rs ! i) \<noteq> None"
  by (simp add: stamped_def list_all_length)

lemma stamped_take: "stamped rs \<Longrightarrow> stamped (take k rs)"
  by (simp add: stamped_def list_all_length)

lemma objects_take_stamped: "stamped (objects es) \<Longrightarrow> stamped (objects (take k es))"
proof (induction es arbitrary: k)
  case Nil then show ?case by (simp add: objects_def)
next
  case (Cons e es)
  show ?case
  proof (cases k)
    case 0 then show ?thesis by (simp add: objects_def stamped_def)
  next
    case (Suc j)
    from Cons.prems have "stamped (objects es)"
      by (cases e) (simp_all add: objects_def stamped_def)
    from Cons.IH[OF this, of j] Cons.prems Suc show ?thesis
      by (cases e) (simp_all add: objects_def stamped_def)
  qed
qed

lemma intervals_stamped:
  assumes "stamped hist"
  shows "intervals now hist = intervals 0 hist"
  unfolding intervals_def
proof (rule map_cong[OF refl])
  fix i assume "i \<in> set [1..<length hist]"
  then have i: "i < length hist" "i - 1 < length hist" by auto
  show "real_of_int (time_of now (hist ! i) - time_of now (hist ! (i - 1))) =
        real_of_int (time_of 0 (hist ! i) - time_of 0 (hist ! (i - 1)))"
    using time_of_stamped[OF stamped_nth[OF assms i(1)], of now]
      time_of_stamped[OF stamped_nth[OF assms i(2)], of now]
    by simp
qed

lemma analyzeTimingPatterns_stamped:
  "stamped hist \<Longrightarrow> analyzeTimingPatterns now hist = analyzeTimingPatterns 0 hist"
  unfolding analyzeTimingPatterns_def by (simp only: intervals_stamped[of hist now])

lemma detectManipulation_stamped:
  "stamped hist \<Longrightarrow> detectManipulation now hist = detectManipulation 0 hist"
  unfolding detectManipulation_def by (simp only: intervals_stamped[of hist now])

lemma assessMarketCondition_stamped:
  "stamped hist \<Longrightarrow> assessMarketCondition now hist = assessMarketCondition 0 hist"
  unfolding assessMarketCondition_def by (simp only: detectManipulation_stamped[of hist now])

lemma assessMarketStability_stamped:
  "stamped hist \<Longrightarrow> assessMarketStability now hist = assessMarketStability 0 hist"
  unfolding assessMarketStability_def by (simp only: detectManipulation_stamped[of hist now])

lemma neuralNetworkPrediction_stamped:
  "stamped hist \<Longrightarrow> neuralNetworkPrediction now hist = neuralNetworkPrediction 0 hist"
  unfolding neuralNetworkPrediction_def
  by (simp only: analyzeTimingPatterns_stamped[of hist now] assessMarketCondition_stamped[of hist now])

lemma trend_rules_stamped:
  "stamped hist \<Longrightarrow> trend_rules now hist cl lp = trend_rules 0 hist cl lp"
  unfolding trend_rules_def
  by (simp only: neuralNetworkPrediction_stamped[of hist now] cong: if_cong)

lemma enhancedTrendAnalysis_stamped:
  assumes "history_stamped hist"
  shows "enhancedTrendAnalysis now hist options = enhancedTrendAnalysis 0 hist options"
proof (cases hist)
  case NotArray then show ?thesis by (simp add: enhancedTrendAnalysis_def)
next
  case (Array es)
  with assms have "stamped (objects es)" by (simp add: history_stamped_def)
  then have t: "trend_rules now (objects es) cl lp = trend_rules 0 (objects es) cl lp" for cl lp
    by (rule trend_rules_stamped)
  show ?thesis unfolding enhancedTrendAnalysis_def Array js_history.case t ..
qed

lemma KBTModel_predict_stamped:
  "history_stamped hist \<Longrightarrow> KBTModel_predict now m hist options = KBTModel_predict 0 m hist options"
  unfolding KBTModel_predict_def by (simp only: enhancedTrendAnalysis_stamped[of hist now])

lemma model3_stamped:
  assumes "stamped hist"
  shows "model3_manipulationDetector now hist = model3_manipulationDetector 0 hist"
proof -
  have s: "stamped (take 50 hist)" using assms by (rule stamped_take)
  have "map (\<lambda>i. \<bar>real_of_int (time_of now (take 50 hist ! i) - time_of now (take 50 hist ! (i + 1)))\<bar>)
            [0..<length (take 50 hist) - 1] =
        map (\<lambda>i. \<bar>real_of_int (time_of 0 (take 50 hist ! i) - time_of 0 (take 50 hist ! (i + 1)))\<bar>)
            [0..<length (take 50 hist) - 1]"
  proof (rule map_cong[OF refl])
    fix i assume "i \<in> set [0..<length (take 50 hist) - 1]"
    then have i: "i < length (take 50 hist)" "i + 1 < length (take 50 hist)" by auto
    show "\<bar>real_of_int (time_of now (take 50 hist ! i) - time_of now (take 50 hist ! (i + 1)))\<bar> =
          \<bar>real_of_int (time_of 0 (take 50 hist ! i) - time_of 0 (take 50 hist ! (i + 1)))\<bar>"
      using time_of_stamped[OF stamped_nth[OF s i(1)], of now]
        time_of_stamped[OF stamped_nth[OF s i(2)], of now]
      by simp
  qed
  then show ?thesis unfolding model3_manipulationDetector_def Let_def by (simp only:)
qed

lemma model4_stamped:
  assumes "stamped hist"
  shows "model4_hybridPredictor now hist = model4_hybridPredictor 0 hist"
  unfolding model4_hybridPredictor_def Let_def
    assessMarketStability_stamped[OF stamped_take[OF assms], of now] ..

lemma flonza_vote_stamped:
  assumes "stamped hist"
  shows "flonza_vote now hist = flonza_vote 0 hist"
  unfolding flonza_vote_def
    model3_stamped[OF assms, of now] model4_stamped[OF assms, of now] ..

lemma flonzaElitePredict_stamped:
  assumes "history_stamped hist"
  shows "flonzaElitePredict now hist = flonzaElitePredict 0 hist"
proof (cases hist)
  case NotArray then show ?thesis by (simp add: flonzaElitePredict_def)
next
  case (Array es)
  with assms have "stamped (objects es)" by (simp add: history_stamped_def)
  then have "stamped (objects (take 50 es))" by (rule objects_take_stamped)
  then have t: "flonza_vote now (objects (take 50 es)) = flonza_vote 0 (objects (take 50 es))"
    by (rule flonza_vote_stamped)
  show ?thesis unfolding flonzaElitePredict_def Array js_history.case t ..
qed

lemma AIModel_predict_stamped:
  "history_stamped hist \<Longrightarrow> AIModel_predict now m hist options = AIModel_predict 0 m hist options"
  unfolding AIModel_predict_def by (simp only: flonzaElitePredict_stamped[of hist now])

lemma model_predict_stamped:
  "history_stamped hist \<Longrightarrow> model_predict now m hist options = model_predict 0 m hist options"
  unfolding model_predict_def
  by (simp only: KBTModel_predict_stamped[of hist now] AIModel_predict_stamped[of hist now])

lemma make_pred_cong:
  "run m hist options = run' m hist options \<Longrightarrow>
     make_pred run hist options m = make_pred run' hist options m"
  by (simp add: make_pred_def)

lemma ModelManager_predict_cong:
  assumes "\<And>m. run m hist options = run' m hist options"
  shows "ModelManager_predict run this hist options = ModelManager_predict run' this hist options"
proof -
  have "make_pred run hist options = make_pred run' hist options"
    by (rule ext, rule make_pred_cong, rule assms)
  then have "sorted_preds run this hist options = sorted_preds run' this hist options"
    by (simp add: sorted_preds_def)
  then show ?thesis by (simp add: ModelManager_predict_def)
qed

lemma predict_stamped:
  assumes "history_stamped hist"
  shows "ModelManager_predict (model_predict now) this hist options =
         ModelManager_predict (model_predict 0) this hist options"
  by (rule ModelManager_predict_cong) (rule model_predict_stamped[OF assms])

section \<open>Repeated predictions\<close>

text \<open>
  Claim C9. (as amended) \<open>ModelManager.predict\<close> leaves the manager and every model
  unchanged. When every object of the history carries a \<open>createTime\<close>, two calls
  with the same history and options and no \<open>learn\<close> between them return the same
  decision, at whatever times they are made.
\<close>

theorem predict_repeatable_when_stamped:
  "fst (manager_step now this (Predict hist options)) = this \<and>
   (history_stamped hist \<longrightarrow>
      snd (manager_step now' (fst (manager_step now this (Predict hist options)))
             (Predict hist options)) =
      snd (manager_step now this (Predict hist options)))"
  by (simp add: predict_stamped[of hist now] predict_stamped[of hist now'])

lemma history_14_big_6_small_stamped: "history_stamped history_14_big_6_small"
  by (simp add: history_stamped_def history_14_big_6_small_def stamped_def objects_def
      list_all_iff)

theorem predict_repeatable_when_stamped_witness:
  "history_stamped history_14_big_6_small \<and>
   fst (manager_step 0 ModelManager_new (Predict history_14_big_6_small (Options 0 None))) =
     ModelManager_new \<and>
   snd (manager_step 60000
          (fst (manager_step 0 ModelManager_new (Predict history_14_big_6_small (Options 0 None))))
          (Predict history_14_big_6_small (Options 0 None))) =
   snd (manager_step 0 ModelManager_new (Predict history_14_big_6_small (Options 0 None)))"
  using predict_repeatable_when_stamped[of 0 ModelManager_new history_14_big_6_small
      "Options 0 None" 60000]
    history_14_big_6_small_stamped
  by blast

section \<open>A history whose newest event has no createTime\<close>

lemma unstamped_objects_eq:
  "unstamped_objects =
     [\<lparr>resultType = ''BIG'', number = Some 7, createTime = None\<rparr>,
      \<lparr>resultType = ''BIG'', number = Some 7, createTime = Some 1699999940000\<rparr>,
      \<lparr>resultType = ''BIG'', number = Some 7, createTime = Some 1699999880000\<rparr>,
      \<lparr>resultType = ''BIG'', number = Some 7, createTime = Some 1699999820000\<rparr>,
      \<lparr>resultType = ''BIG'', number = Some 7, createTime = Some 1699999760000\<rparr>,
      \<lparr>resultType = ''BIG'', number = Some 7, createTime = Some 1699999700000\<rparr>,
      \<lparr>resultType = ''BIG'', number = Some 7, createTime = Some 1699999640000\<rparr>,
      \<lparr>resultType = ''BIG'', number = Some 7, createTime = Some 1699999580000\<rparr>,
      \<lparr>resultType = ''BIG'', number = Some 7, createTime = Some 1699999520000\<rparr>,
      \<lparr>resultType = ''BIG'', number = Some 7, createTime = Some 1699999460000\<rparr>,
      \<lparr>resultType = ''SMALL'', number = Some 2, createTime = Some 1699999400000\<rparr>,
      \<lparr>resultType = ''SMALL'', number = Some 2, createTime = Some 1699999340000\<rparr>,
      \<lparr>resultType = ''SMALL'', number = Some 2, createTime = Some 1699999280000\<rparr>,
      \<lparr>resultType = ''SMALL'', number = Some 2, createTime = Some 1699999220000\<rparr>,
      \<lparr>resultType = ''SMALL'', number = Some 2, createTime = Some 1699999160000\<rparr>,
      \<lparr>resultType = ''SMALL'', number = Some 2, createTime = Some 1699999100000\<rparr>,
      \<lparr>resultType = ''SMALL'', number = Some 2, createTime = Some 1699999040000\<rparr>,
      \<lparr>resultType = ''SMALL'', number = Some 2, createTime = Some 1699998980000\<rparr>,
      \<lparr>resultType = ''SMALL'', number = Some 2, createTime = Some 1699998920000\<rparr>,
      \<lparr>resultType = ''SMALL'', number = Some 2, createTime = Some 1699998860000\<rparr>]"
  unfolding unstamped_objects_def by (simp add: upt_rec)

lemma objects_map_Event: "objects (map Event rs) = rs"
  by (induction rs) (simp_all add: objects_def)

lemma unstamped_length: "length unstamped_objects = 20"
  unfolding unstamped_objects_def by simp

lemma unstamped_events:
  "objects (map Event unstamped_objects) = unstamped_objects"
  "objects (take 50 (map Event unstamped_objects)) = unstamped_objects"
  "length (map Event unstamped_objects) = 20"
  "NullEvent \<notin> set (map Event unstamped_objects)"
  "NullEvent \<notin> set (take 50 (map Event unstamped_objects))"
  "NullEvent \<notin> Event ` set unstamped_objects"
  by (auto simp add: objects_map_Event unstamped_length)

lemma unstamped_takes:
  "take 20 unstamped_objects = unstamped_objects"
  "take 30 unstamped_objects = unstamped_objects"
  "take 50 unstamped_objects = unstamped_objects"
  by (simp_all add: unstamped_length)

lemma digits:
  "char_of (48::nat) = CHR ''0''" "char_of (49::nat) = CHR ''1''" "char_of (50::nat) = CHR ''2''"
  by code_simp+

subsection \<open>Loops over neighbouring events, as maps over pairs\<close>

lemma adjacent_up:
  "map (\<lambda>i. f (xs ! i) (xs ! (i + 1))) [0..<length xs - 1] = map (\<lambda>(a, b). f a b) (zip xs (tl xs))"
  by (rule nth_equalityI) (simp_all add: nth_tl)

lemma adjacent_down:
  "map (\<lambda>i. f (xs ! i) (xs ! (i - 1))) [1..<length xs] = map (\<lambda>(a, b). f b a) (zip xs (tl xs))"
  by (rule nth_equalityI) (simp_all add: nth_tl)

lemma model3_pairs:
  "model3_manipulationDetector now hist =
     (let recent = take 50 hist;
          ivs = map (\<lambda>(a, b). \<bar>real_of_int (time_of now a - time_of now b)\<bar>) (zip recent (tl recent));
          avgInterval = (if length ivs \<noteq> 0 then sum_list ivs / real (length ivs) else 60000);
          stdDev = (if length ivs \<noteq> 0
                    then sqrt (sum_list (map (\<lambda>x. (x - avgInterval)\<^sup>2) ivs) / real (length ivs))
                    else 0)
      in stdDev > 8000 \<or> list_ex (\<lambda>iv. iv > 120000) ivs)"
  unfolding model3_manipulationDetector_def Let_def
    adjacent_up[of "\<lambda>a b. \<bar>real_of_int (time_of now a - time_of now b)\<bar>" "take 50 hist"] ..

lemma intervals_pairs:
  "intervals now hist = map (\<lambda>(a, b). real_of_int (time_of now b - time_of now a)) (zip hist (tl hist))"
  unfolding intervals_def
    adjacent_down[of "\<lambda>a b. real_of_int (time_of now a - time_of now b)" hist] ..

lemma calculateVolatility_pairs:
  "calculateVolatility hist =
     (let changes = map (\<lambda>(a, b). if resultType b \<noteq> resultType a then 1 else 0) (zip hist (tl hist))
      in if length changes = 0 then None
         else Some (sum_list changes / real (length changes)))"
  unfolding calculateVolatility_def
    adjacent_down[of "\<lambda>a b. if resultType a \<noteq> resultType b then 1 else 0" hist] ..

lemma detectAlternations_strength:
  "alternation_strength (detectAlternations hist) =
     (if length hist = 2 then None
      else Some (real (length (filter (\<lambda>i. i > 1 \<and> resultType (hist ! i) = resultType (hist ! (i - 2)))
                         (filter (\<lambda>i. resultType (hist ! i) \<noteq> resultType (hist ! (i - 1))) [1..<length hist]))) /
                 (real (length hist) - 2)))"
  by (simp add: detectAlternations_def Let_def)

subsection \<open>The scorers that read the clock, at 1700000000000 and 200 seconds later\<close>

lemma unstamped_intervals_first:
  "intervals 1700000000000 unstamped_objects =
     [- 60000, - 60000, - 60000, - 60000, - 60000, - 60000, - 60000, - 60000, -
     60000, - 60000, - 60000, - 60000, - 60000, - 60000, - 60000, - 60000, - 60000, -
     60000, - 60000]"
  unfolding unstamped_objects_eq intervals_pairs
  by (simp add: time_of_def)

lemma unstamped_intervals_later:
  "intervals 1700000200000 unstamped_objects =
     [- 260000, - 60000, - 60000, - 60000, - 60000, - 60000, - 60000, - 60000, -
     60000, - 60000, - 60000, - 60000, - 60000, - 60000, - 60000, - 60000, - 60000, -
     60000, - 60000]"
  unfolding unstamped_objects_eq intervals_pairs
  by (simp add: time_of_def)

lemma unstamped_volatility: "calculateVolatility unstamped_objects = Some (1 / 19)"
  unfolding unstamped_objects_eq calculateVolatility_pairs
  by (simp add: Let_def)

lemma unstamped_manipulation_first: "detectManipulation 1700000000000 unstamped_objects = Some 1"
  unfolding detectManipulation_def unstamped_intervals_first
  by (simp add: Let_def)

lemma unstamped_manipulation_later: "detectManipulation 1700000200000 unstamped_objects = Some 1"
  unfolding detectManipulation_def unstamped_intervals_later
  by (simp add: Let_def)

lemma unstamped_stability_first: "assessMarketStability 1700000000000 unstamped_objects = 0"
  unfolding assessMarketStability_def unstamped_volatility unstamped_manipulation_first
  by (simp add: js_or_nan_def js_or_def)

lemma unstamped_stability_later: "assessMarketStability 1700000200000 unstamped_objects = 0"
  unfolding assessMarketStability_def unstamped_volatility unstamped_manipulation_later
  by (simp add: js_or_nan_def js_or_def)

lemma unstamped_market_first: "assessMarketCondition 1700000000000 unstamped_objects = Some 0.7"
  unfolding assessMarketCondition_def unstamped_volatility unstamped_manipulation_first
  by simp

lemma unstamped_market_later: "assessMarketCondition 1700000200000 unstamped_objects = Some 0.7"
  unfolding assessMarketCondition_def unstamped_volatility unstamped_manipulation_later
  by simp

lemma unstamped_timing_first: "analyzeTimingPatterns 1700000000000 unstamped_objects = Some 1"
  unfolding analyzeTimingPatterns_def unstamped_intervals_first
  by (simp add: Let_def)

lemma unstamped_timing_later:
  "\<exists>t. analyzeTimingPatterns 1700000200000 unstamped_objects = Some t \<and> t \<le> 2.8"
proof -
  let ?v = "((3600000 / 19)\<^sup>2 + 18 * (200000 / 19)\<^sup>2) / 19 :: real"
  have "analyzeTimingPatterns 1700000200000 unstamped_objects =
          Some (1 - min 1 (- (sqrt ?v * 19 / 1340000)))"
    unfolding analyzeTimingPatterns_def unstamped_intervals_later
    by (simp add: Let_def)
  moreover have "sqrt ?v \<le> 126000" by (rule real_le_lsqrt) (simp_all add: power2_eq_square)
  moreover have "0 \<le> sqrt ?v" by simp
  ultimately show ?thesis by (simp add: min_def)
qed

lemma unstamped_not_manipulated_first:
  "\<not> model3_manipulationDetector 1700000000000 unstamped_objects"
  unfolding unstamped_objects_eq model3_pairs
  by (simp add: time_of_def Let_def)

lemma unstamped_manipulated_later:
  "model3_manipulationDetector 1700000200000 unstamped_objects"
  unfolding unstamped_objects_eq model3_pairs
  by (simp add: time_of_def Let_def)

subsection \<open>The FLONZA signal for this history\<close>

lemma unstamped_model1:
  "model1_patternAnalysis unstamped_objects =
     \<lparr> sub_prediction = ''SMALL'', sub_confidence = 90, sub_patterns = [''Streak_10''] \<rparr>"
  unfolding unstamped_objects_eq
  by (simp add: model1_patternAnalysis_def leading_streak_def count_big_def opposite_def Let_def
      upt_rec digits)

lemma unstamped_model2:
  "model2_colorNumberAnalysis unstamped_objects =
     \<lparr> sub_prediction = ''SMALL'', sub_confidence = 75, sub_patterns = [''Hot_SMALL_2''] \<rparr>"
  unfolding unstamped_objects_eq
  by (simp add: model2_colorNumberAnalysis_def is_index_def Let_def upt_rec digits)

lemma unstamped_pattern_strength: "detectPatternStrength (take 15 unstamped_objects) = Inr 1"
proof -
  have s: "\<exists>s. detectStreaks (take 15 unstamped_objects) = Inr s \<and> streak_strength s = 1"
    unfolding unstamped_objects_eq by (simp add: detectStreaks_def calculateStreakStrength_def)
  have a: "alternation_strength (detectAlternations (take 15 unstamped_objects)) = Some 0"
    unfolding unstamped_objects_eq detectAlternations_strength by (simp add: upt_rec)
  from s obtain s where s: "detectStreaks (take 15 unstamped_objects) = Inr s" "streak_strength s = 1"
    by blast
  show ?thesis unfolding detectPatternStrength_def s(1) a
    by (simp add: js_or_def js_or_nan_def s(2))
qed

lemma unstamped_window:
  "analyzeWindow (take 15 unstamped_objects) =
     \<lparr> window_prediction = ''BIG'', window_confidence = 1 / 6, window_bias = 2 / 3 \<rparr>"
  "analyzeWindow unstamped_objects =
     \<lparr> window_prediction = ''BIG'', window_confidence = 1 / 6, window_bias = 2 / 3 \<rparr>"
  unfolding unstamped_objects_eq by (simp_all add: analyzeWindow_def count_big_def)

lemma unstamped_cyclical: "detectCyclicalPatterns unstamped_objects = 0.8"
  unfolding unstamped_objects_eq by (simp add: detectCyclicalPatterns_def Math_round_def)

lemma unstamped_model4:
  assumes "assessMarketStability now unstamped_objects = 0"
  shows "model4_hybridPredictor now unstamped_objects =
    Inr \<lparr> sub_prediction = ''SMALL'', sub_confidence = 70, sub_patterns = [''Neural_Trend''] \<rparr>"
proof -
  have n: "length (take 15 unstamped_objects) \<noteq> 0" by (simp add: unstamped_length)
  show ?thesis
    unfolding model4_hybridPredictor_def Let_def unstamped_takes unstamped_pattern_strength
      unstamped_window unstamped_cyclical assms
    using n by (simp add: combineSignals_def js_or_def)
qed

lemma unstamped_randomness: "detectTrueRandomness unstamped_objects = 0"
proof -
  have s: "sqrt (90 / 19) \<le> 3" by (rule real_le_lsqrt) simp_all
  have p: "0 < sqrt (90 / 19 :: real)" by simp
  have "detectTrueRandomness unstamped_objects = max 0 (1 - \<bar>9 / sqrt (90 / 19)\<bar> / 3)"
    unfolding unstamped_objects_eq detectTrueRandomness_def
    by (simp add: Let_def upt_rec)
  also have "\<dots> = 0"
  proof -
    have "3 \<le> 9 / sqrt (90 / 19)" using s p by (simp add: pos_le_divide_eq)
    then show ?thesis by simp
  qed
  finally show ?thesis .
qed

lemma unstamped_vote_first:
  "flonza_vote 1700000000000 unstamped_objects =
    Inr \<lparr> prediction = ''SMALL'', confidence = 77, logic = Some ''FLONZA_V4_ENHANCED'',
          patterns = Some [''Streak_10'', ''Hot_SMALL_2''], meta = None \<rparr>"
proof -
  have r: "Math_round (4700 / 59 * (29 / 30)) = 77"
    unfolding Math_round_def round_def by (simp add: floor_eq_iff)
  have "flonza_vote 1700000000000 unstamped_objects =
    Inr \<lparr> prediction = ''SMALL'',
          confidence = max 65 (real_of_int (Math_round (4700 / 59 * (29 / 30)))),
          logic = Some ''FLONZA_V4_ENHANCED'',
          patterns = Some [''Streak_10'', ''Hot_SMALL_2''], meta = None \<rparr>"
    unfolding flonza_vote_def Let_def unstamped_model1 unstamped_model2
      unstamped_model4[OF unstamped_stability_first] unstamped_randomness
    using unstamped_not_manipulated_first by (simp add: js_or_def)
  then show ?thesis unfolding r by simp
qed

lemma unstamped_vote_later:
  "flonza_vote 1700000200000 unstamped_objects =
    Inr \<lparr> prediction = ''SMALL'', confidence = 65, logic = Some ''FLONZA_V4_ENHANCED'',
          patterns = Some [''Streak_10'', ''Hot_SMALL_2'', manipulation_tag], meta = None \<rparr>"
proof -
  have r: "Math_round (4700 / 59 * (4 / 5)) = 64"
    unfolding Math_round_def round_def by (simp add: floor_eq_iff)
  have "flonza_vote 1700000200000 unstamped_objects =
    Inr \<lparr> prediction = ''SMALL'',
          confidence = max 65 (real_of_int (Math_round (4700 / 59 * (4 / 5)))),
          logic = Some ''FLONZA_V4_ENHANCED'',
          patterns = Some [''Streak_10'', ''Hot_SMALL_2'', manipulation_tag], meta = None \<rparr>"
    unfolding flonza_vote_def Let_def unstamped_model1 unstamped_model2
      unstamped_model4[OF unstamped_stability_later] unstamped_randomness
    using unstamped_manipulated_later by (simp add: js_or_def manipulation_tag_def)
  then show ?thesis unfolding r by simp
qed

lemma unstamped_AIModel_predict:
  assumes "flonza_vote now unstamped_objects = Inr s"
  shows "model_predict now (AIModel_new ''AI_FLONZA'') unstamped_history (Options 0 None) =
    Inr (Some (s\<lparr> meta := Some (''AI_FLONZA'', ''FLONZA_V4_HYBRID'', 1) \<rparr>))"
  unfolding model_predict_def AIModel_predict_def flonzaElitePredict_def unstamped_history_def
    js_history.case
  by (simp add: unstamped_events unstamped_length assms AIModel_new_def)

subsection \<open>The KBT signal for this history\<close>

lemma unstamped_types:
  "resultType (unstamped_objects ! 0) = ''BIG''" "resultType (unstamped_objects ! 1) = ''BIG''"
  "resultType (unstamped_objects ! Suc 0) = ''BIG''"
  "resultType (unstamped_objects ! 2) = ''BIG''" "resultType (unstamped_objects ! 3) = ''BIG''"
  "resultType (unstamped_objects ! 19) = ''SMALL''"
  unfolding unstamped_objects_eq by simp_all

lemma unstamped_streak: "leading_streak unstamped_objects = 10"
  unfolding unstamped_objects_eq by (simp add: leading_streak_def)

lemma unstamped_counts:
  "count_big unstamped_objects = 10" "count_big (take 10 unstamped_objects) = 10"
  "length (take 10 unstamped_objects) = 10"
  unfolding unstamped_objects_eq by (simp_all add: count_big_def)

lemma unstamped_not_alternating: "\<not> alternating_prefix unstamped_objects"
  unfolding unstamped_objects_eq by (simp add: alternating_prefix_def upt_rec)

lemma unstamped_fibonacci: "fibonacciPrediction unstamped_objects = (''SMALL'', 70)"
  unfolding fibonacciPrediction_def Let_def unstamped_counts unstamped_length unstamped_types
  by (simp add: opposite_def)

lemma unstamped_machineLearning: "machineLearningPrediction unstamped_objects = (''SMALL'', 85)"
  unfolding machineLearningPrediction_def Let_def unstamped_streak unstamped_types
  by (simp add: opposite_def)

lemma unstamped_streaks: "\<exists>s. detectStreaks unstamped_objects = Inr s \<and> streak_strength s = 1"
  unfolding unstamped_objects_eq by (simp add: detectStreaks_def calculateStreakStrength_def)

lemma unstamped_alternations: "alternation_strength (detectAlternations unstamped_objects) = Some 0"
  unfolding unstamped_objects_eq detectAlternations_strength by (simp add: upt_rec)

lemma unstamped_distribution: "analyzeDistribution unstamped_objects = Some 1"
  unfolding analyzeDistribution_def unstamped_counts unstamped_length by simp

lemma unstamped_neural_first:
  "neuralNetworkPrediction 1700000000000 unstamped_objects = Inr (''BIG'', Some 70)"
proof -
  from unstamped_streaks obtain s
    where s: "detectStreaks unstamped_objects = Inr s" "streak_strength s = 1" by blast
  show ?thesis
    unfolding neuralNetworkPrediction_def Let_def s(1) unstamped_alternations
      unstamped_distribution unstamped_timing_first unstamped_market_first
    by (simp add: calculateBaseConfidence_def determineBestPrediction_def s(2))
qed

lemma unstamped_neural_later:
  "neuralNetworkPrediction 1700000200000 unstamped_objects = Inr (''BIG'', Some 70)"
proof -
  from unstamped_streaks obtain s
    where s: "detectStreaks unstamped_objects = Inr s" "streak_strength s = 1" by blast
  from unstamped_timing_later obtain t
    where t: "analyzeTimingPatterns 1700000200000 unstamped_objects = Some t" "t \<le> 2.8" by blast
  have "min 92 ((70 + (1 + 0 + 1 + t) / 4 * 25) * 0.7) \<le> 70" using t(2) by simp
  then have "max 70 (min 92 ((70 + (1 + 0 + 1 + t) / 4 * 25) * 0.7)) = 70" by simp
  then show ?thesis
    unfolding neuralNetworkPrediction_def Let_def s(1) unstamped_alternations
      unstamped_distribution t(1) unstamped_market_later
    by (simp add: calculateBaseConfidence_def determineBestPrediction_def s(2))
qed

lemma unstamped_trend_rules:
  assumes "neuralNetworkPrediction now unstamped_objects = Inr (''BIG'', Some 70)"
  shows "trend_rules now unstamped_objects 0 None =
    [(''Streak of 10'', \<lparr> rule_category = ''SMALL'', rule_confidence = 90, rule_logic = 1 \<rparr>),
     (''Triple pattern'', \<lparr> rule_category = ''SMALL'', rule_confidence = 85, rule_logic = 5 \<rparr>),
     (''Mirror pattern'', \<lparr> rule_category = ''SMALL'', rule_confidence = 75, rule_logic = 6 \<rparr>),
     (''Fibonacci pattern'', \<lparr> rule_category = ''SMALL'', rule_confidence = 70, rule_logic = 25 \<rparr>),
     (''ML detected'', \<lparr> rule_category = ''SMALL'', rule_confidence = 85, rule_logic = 28 \<rparr>)]"
  unfolding trend_rules_def Let_def unstamped_length unstamped_streak assms unstamped_fibonacci
    unstamped_machineLearning
  using unstamped_not_alternating
  by (simp add: unstamped_types unstamped_counts unstamped_takes unstamped_length opposite_def
      digits show_nat.simps)

lemma unstamped_KBTModel_predict:
  assumes "neuralNetworkPrediction now unstamped_objects = Inr (''BIG'', Some 70)"
  shows "model_predict now (KBTModel_new ''KBT'') unstamped_history (Options 0 None) =
    Inr (Some \<lparr> prediction = ''SMALL'', confidence = 90, logic = Some ''1'',
          patterns = Some [''Streak of 10'', ''Triple pattern'', ''Mirror pattern'',
                           ''Fibonacci pattern'', ''ML detected''],
          meta = Some (''KBT'', ''KBT Ultralogic'', 1) \<rparr>)"
  unfolding model_predict_def KBTModel_predict_def enhancedTrendAnalysis_def unstamped_history_def
    js_history.case
  by (simp add: unstamped_events unstamped_length unstamped_trend_rules[OF assms] best_rule_def
      KBTModel_new_def show_nat.simps digits Let_def)

subsection \<open>The two decisions\<close>

lemma unstamped_bias: "recent_bias unstamped_history = Inr 0.5"
  unfolding unstamped_history_def unstamped_objects_eq by (simp add: recent_bias_def Let_def)

lemma manipulation_tag_other:
  "manipulation_tag \<noteq> ''Streak_10''" "manipulation_tag \<noteq> ''Hot_SMALL_2''"
  "manipulation_tag \<noteq> ''Streak of 10''" "manipulation_tag \<noteq> ''Triple pattern''"
  "manipulation_tag \<noteq> ''Mirror pattern''" "manipulation_tag \<noteq> ''Fibonacci pattern''"
  "manipulation_tag \<noteq> ''ML detected''"
  by (simp_all add: manipulation_tag_def)

lemma unstamped_preds:
  assumes "model_predict now (KBTModel_new ''KBT'') unstamped_history (Options 0 None) =
             Inr (Some k)"
    and "model_predict now (AIModel_new ''AI_FLONZA'') unstamped_history (Options 0 None) =
             Inr (Some a)"
    and "confidence k = 90" "confidence a \<le> 90" "confidence a \<noteq> 0"
  shows "sorted_preds (model_predict now) ModelManager_new unstamped_history (Options 0 None) =
     [\<lparr> pred_model = KBTModel_new ''KBT'', pred_p = k, pred_score = 90 \<rparr>,
      \<lparr> pred_model = AIModel_new ''AI_FLONZA'', pred_p = a, pred_score = confidence a \<rparr>]"
proof -
  have w: "weight (KBTModel_new ''KBT'') = 1" "weight (AIModel_new ''AI_FLONZA'') = 1"
    by (simp_all add: KBTModel_new_def AIModel_new_def)
  show ?thesis
    unfolding sorted_preds_def ModelManager_new_def
    using assms(3-5) by (simp add: make_pred_def assms(1,2) w js_or_def)
qed

lemma unstamped_decision_first:
  "ModelManager_predict (model_predict 1700000000000) ModelManager_new unstamped_history (Options 0 None) =
     Inr \<lparr> final_prediction = ''SMALL'', final_confidence = 78, final_logic = ''KBT:1'',
           final_patterns = [''Streak of 10'', ''Triple pattern'', ''Mirror pattern'',
                             ''Fibonacci pattern'', ''ML detected''],
           chosenModel = Some ''KBT'',
           contributing = Some
             [\<lparr> c_id = ''KBT'', c_name = ''KBT Ultralogic'', c_weight = 1, c_prediction = ''SMALL'',
                c_confidence = 90, c_reliability = None \<rparr>,
              \<lparr> c_id = ''AI_FLONZA'', c_name = ''FLONZA_V4_HYBRID'', c_weight = 1,
                c_prediction = ''SMALL'', c_confidence = 77, c_reliability = None \<rparr>] \<rparr>"
proof -
  note p = unstamped_preds[OF unstamped_KBTModel_predict[OF unstamped_neural_first]
      unstamped_AIModel_predict[OF unstamped_vote_first]]
  have p': "sorted_preds (model_predict 1700000000000) ModelManager_new unstamped_history (Options 0 None) =
     [\<lparr> pred_model = KBTModel_new ''KBT'',
        pred_p = \<lparr> prediction = ''SMALL'', confidence = 90, logic = Some ''1'',
          patterns = Some [''Streak of 10'', ''Triple pattern'', ''Mirror pattern'',
                           ''Fibonacci pattern'', ''ML detected''],
          meta = Some (''KBT'', ''KBT Ultralogic'', 1) \<rparr>, pred_score = 90 \<rparr>,
      \<lparr> pred_model = AIModel_new ''AI_FLONZA'',
        pred_p = \<lparr> prediction = ''SMALL'', confidence = 77, logic = Some ''FLONZA_V4_ENHANCED'',
          patterns = Some [''Streak_10'', ''Hot_SMALL_2''],
          meta = Some (''AI_FLONZA'', ''FLONZA_V4_HYBRID'', 1) \<rparr>, pred_score = 77 \<rparr>]"
    using p by simp
  have m: "length (models ModelManager_new) = 2" "minConfidence ModelManager_new = 65"
    by (simp_all add: ModelManager_new_def)
  have c: "\<not> consensus_path (sorted_preds (model_predict 1700000000000) ModelManager_new
              unstamped_history (Options 0 None))"
    unfolding p' by (simp add: consensus_path_def analyzePatternOverlap_def uniq_def Let_def)
  have r: "Math_round 78 = 78" by (simp add: Math_round_def)
  show ?thesis
    unfolding ModelManager_predict_def Let_def multi_final_def
    using c unfolding p'
    by (simp add: m low_consensus_final_def unstamped_bias top_final_def enforce_minConfidence_def r
        KBTModel_new_def AIModel_new_def js_or_str_def)
qed

lemma unstamped_decision_later:
  "ModelManager_predict (model_predict 1700000200000) ModelManager_new unstamped_history (Options 0 None) =
     Inr \<lparr> final_prediction = ''SMALL'', final_confidence = 90, final_logic = ''KBT:1'',
           final_patterns = [''Streak of 10'', ''Triple pattern'', ''Mirror pattern'',
                             ''Fibonacci pattern'', ''ML detected''],
           chosenModel = Some ''KBT'',
           contributing = Some
             [\<lparr> c_id = ''KBT'', c_name = ''KBT Ultralogic'', c_weight = 1, c_prediction = ''SMALL'',
                c_confidence = 90, c_reliability = None \<rparr>,
              \<lparr> c_id = ''AI_FLONZA'', c_name = ''FLONZA_V4_HYBRID'', c_weight = 1,
                c_prediction = ''SMALL'', c_confidence = 65, c_reliability = None \<rparr>] \<rparr>"
proof -
  note p = unstamped_preds[OF unstamped_KBTModel_predict[OF unstamped_neural_later]
      unstamped_AIModel_predict[OF unstamped_vote_later]]
  have p': "sorted_preds (model_predict 1700000200000) ModelManager_new unstamped_history (Options 0 None) =
     [\<lparr> pred_model = KBTModel_new ''KBT'',
        pred_p = \<lparr> prediction = ''SMALL'', confidence = 90, logic = Some ''1'',
          patterns = Some [''Streak of 10'', ''Triple pattern'', ''Mirror pattern'',
                           ''Fibonacci pattern'', ''ML detected''],
          meta = Some (''KBT'', ''KBT Ultralogic'', 1) \<rparr>, pred_score = 90 \<rparr>,
      \<lparr> pred_model = AIModel_new ''AI_FLONZA'',
        pred_p = \<lparr> prediction = ''SMALL'', confidence = 65, logic = Some ''FLONZA_V4_ENHANCED'',
          patterns = Some [''Streak_10'', ''Hot_SMALL_2'', manipulation_tag],
          meta = Some (''AI_FLONZA'', ''FLONZA_V4_HYBRID'', 1) \<rparr>, pred_score = 65 \<rparr>]"
    using p by simp
  have m: "length (models ModelManager_new) = 2" "minConfidence ModelManager_new = 65"
    by (simp_all add: ModelManager_new_def)
  have c: "\<not> consensus_path (sorted_preds (model_predict 1700000200000) ModelManager_new
              unstamped_history (Options 0 None))"
    unfolding p'
    by (simp add: consensus_path_def analyzePatternOverlap_def uniq_def Let_def manipulation_tag_other)
  show ?thesis
    unfolding ModelManager_predict_def Let_def multi_final_def
    using c unfolding p'
    by (simp add: m low_consensus_final_def top_final_def enforce_minConfidence_def
        KBTModel_new_def AIModel_new_def js_or_str_def)
qed

theorem repeated_predict_counterexample:
  "snd (manager_step 1700000000000 ModelManager_new (Predict unstamped_history (Options 0 None))) =
     Decision (Inr \<lparr> final_prediction = ''SMALL'', final_confidence = 78, final_logic = ''KBT:1'',
           final_patterns = [''Streak of 10'', ''Triple pattern'', ''Mirror pattern'',
                             ''Fibonacci pattern'', ''ML detected''],
           chosenModel = Some ''KBT'',
           contributing = Some
             [\<lparr> c_id = ''KBT'', c_name = ''KBT Ultralogic'', c_weight = 1, c_prediction = ''SMALL'',
                c_confidence = 90, c_reliability = None \<rparr>,
              \<lparr> c_id = ''AI_FLONZA'', c_name = ''FLONZA_V4_HYBRID'', c_weight = 1,
                c_prediction = ''SMALL'', c_confidence = 77, c_reliability = None \<rparr>] \<rparr>) \<and>
   snd (manager_step 1700000200000
          (fst (manager_step 1700000000000 ModelManager_new
                  (Predict unstamped_history (Options 0 None))))
          (Predict unstamped_history (Options 0 None))) =
     Decision (Inr \<lparr> final_prediction = ''SMALL'', final_confidence = 90, final_logic = ''KBT:1'',
           final_patterns = [''Streak of 10'', ''Triple pattern'', ''Mirror pattern'',
                             ''Fibonacci pattern'', ''ML detected''],
           chosenModel = Some ''KBT'',
           contributing = Some
             [\<lparr> c_id = ''KBT'', c_name = ''KBT Ultralogic'', c_weight = 1, c_prediction = ''SMALL'',
                c_confidence = 90, c_reliability = None \<rparr>,
              \<lparr> c_id = ''AI_FLONZA'', c_name = ''FLONZA_V4_HYBRID'', c_weight = 1,
                c_prediction = ''SMALL'', c_confidence = 65, c_reliability = None \<rparr>] \<rparr>)"
  by (simp add: unstamped_decision_first unstamped_decision_later)

end
